theory Spec2Isabelle
  imports Main "HOL-Library.Multiset"
begin

section \<open>Go errors\<close>

text \<open>
  Go error values.  The four package-level sentinels (\<^verbatim>\<open>cache.ErrCacheMiss\<close>,
  \<^verbatim>\<open>cache.ErrCacheClosed\<close>, \<^verbatim>\<open>provider.ErrLicenseNotFound\<close>,
  \<^verbatim>\<open>provider.ErrInvalidResponse\<close>) are constructors of their own, so that they differ
  from every other error, as the pointers do.  \<open>New s\<close> is \<^verbatim>\<open>errors.New(s)\<close>;
  \<open>Errorf f es\<close> is \<^verbatim>\<open>fmt.Errorf(f, ...)\<close> with the format string \<open>f\<close> and the operands
  of its \<^verbatim>\<open>%w\<close> verbs (the other operands only change the message text).
\<close>

datatype error =
    ErrCacheMiss
  | ErrCacheClosed
  | ErrLicenseNotFound
  | ErrInvalidResponse
  | New string
  | Errorf string "error list"

text \<open>\<^verbatim>\<open>errors.Is\<close>: the error itself or anything it wraps.\<close>

fun errors_Is :: "error \<Rightarrow> error \<Rightarrow> bool" where
  "errors_Is (Errorf f es) target = (Errorf f es = target \<or> (\<exists>e \<in> set es. errors_Is e target))"
| "errors_Is e target = (e = target)"

section \<open>SPDX packages (spdx.go)\<close>

definition spdxLicenseNone :: string where
  "spdxLicenseNone = ''NONE''"

definition spdxLicenseNoAssertion :: string where
  "spdxLicenseNoAssertion = ''NOASSERTION''"

text \<open>A Go slice is \<open>None\<close> when nil and \<open>Some xs\<close> otherwise; \<open>len\<close> is 0 for both
  nil and the empty slice, and \<^verbatim>\<open>range\<close> visits \<open>elems\<close>.\<close>

type_synonym 'a slice = "'a list option"

definition elems :: "'a slice \<Rightarrow> 'a list" where
  "elems s = (case s of None \<Rightarrow> [] | Some xs \<Rightarrow> xs)"

definition len :: "'a slice \<Rightarrow> nat" where
  "len s = length (elems s)"

definition append_slice :: "'a slice \<Rightarrow> 'a \<Rightarrow> 'a slice" where
  "append_slice s x = Some (elems s @ [x])"

record ExternalRef =
  ReferenceCategory :: string
  ReferenceType :: string
  ReferenceLocator :: string

record Package =
  SPDXID :: string
  Name :: string
  VersionInfo :: string
  Homepage :: string
  LicenseConcluded :: string
  LicenseDeclared :: string
  ExternalRefs :: "ExternalRef slice"

record Document =
  SPDXVersion :: string
  doc_SPDXID :: string
  Packages :: "Package slice"

definition Package_HasLicense :: "Package \<Rightarrow> bool" where
  "Package_HasLicense p =
     ((LicenseConcluded p \<noteq> [] \<and>
       LicenseConcluded p \<noteq> spdxLicenseNone \<and>
       LicenseConcluded p \<noteq> spdxLicenseNoAssertion) \<or>
      (LicenseDeclared p \<noteq> [] \<and>
       LicenseDeclared p \<noteq> spdxLicenseNone \<and>
       LicenseDeclared p \<noteq> spdxLicenseNoAssertion))"

definition Package_SetLicense :: "string \<Rightarrow> Package \<Rightarrow> Package" where
  "Package_SetLicense license p =
     (let p1 = p\<lparr>LicenseConcluded := license\<rparr>
      in if LicenseDeclared p1 = [] \<or>
            LicenseDeclared p1 = spdxLicenseNone \<or>
            LicenseDeclared p1 = spdxLicenseNoAssertion
         then p1\<lparr>LicenseDeclared := license\<rparr>
         else p1)"

definition Package_GetLogID :: "Package \<Rightarrow> string" where
  "Package_GetLogID p = SPDXID p"

text \<open>\<^verbatim>\<open>GetSPDXPackagePurl\<close>: the locator of the first external reference of type
  \<^verbatim>\<open>purl\<close>, an error when there is none.\<close>

fun first_purl :: "ExternalRef list \<Rightarrow> string option" where
  "first_purl [] = None"
| "first_purl (r # rs) =
     (if ReferenceType r = ''purl'' then Some (ReferenceLocator r) else first_purl rs)"

definition GetSPDXPackagePurl :: "Package \<Rightarrow> error + string" where
  "GetSPDXPackagePurl pkg =
     (case first_purl (elems (ExternalRefs pkg)) of
        Some l \<Rightarrow> Inr l
      | None \<Rightarrow> Inl (New ''no PURL found for package with SPDX ID %s''))"

definition Package_GetPurl :: "Package \<Rightarrow> error + string" where
  "Package_GetPurl p = GetSPDXPackagePurl p"

section \<open>CycloneDX components (cyclonedx.go)\<close>

record LicenseText =
  Content :: string

record License =
  ID :: string
  lic_Name :: string
  lic_Expression :: string
  Text :: "LicenseText option"

record LicenseChoice =
  License :: "License option"
  Expression :: string

record ExternalReference =
  URL :: string
  Type :: string

record Component =
  BOMRef :: string
  comp_Name :: string
  Version :: string
  Purl :: string
  Licenses :: "LicenseChoice slice"
  ExternalReferences :: "ExternalReference slice"

record BOM =
  BOMFormat :: string
  SpecVersion :: string
  Components :: "Component slice"

definition GetCycloneDXComponentPurl :: "Component \<Rightarrow> string" where
  "GetCycloneDXComponentPurl component = Purl component"

definition Component_GetPurl :: "Component \<Rightarrow> error + string" where
  "Component_GetPurl c = Inr (GetCycloneDXComponentPurl c)"

text \<open>The loop of \<^verbatim>\<open>HasComponentLicense\<close> over the license choices.\<close>

fun any_choice_set :: "LicenseChoice list \<Rightarrow> bool" where
  "any_choice_set [] = False"
| "any_choice_set (choice # rest) =
     (if Expression choice \<noteq> [] then True
      else (case License choice of
              Some l \<Rightarrow>
                (if ID l \<noteq> [] \<or> lic_Name l \<noteq> [] \<or> lic_Expression l \<noteq> [] then True
                 else any_choice_set rest)
            | None \<Rightarrow> any_choice_set rest))"

definition HasComponentLicense :: "Component \<Rightarrow> bool" where
  "HasComponentLicense component =
     (if len (Licenses component) = 0 then False
      else any_choice_set (elems (Licenses component)))"

definition Component_HasLicense :: "Component \<Rightarrow> bool" where
  "Component_HasLicense c = HasComponentLicense c"

definition Component_SetLicense :: "string \<Rightarrow> Component \<Rightarrow> Component" where
  "Component_SetLicense license c =
     c\<lparr>Licenses := append_slice (Licenses c) \<lparr>License = None, Expression = license\<rparr>\<rparr>"

definition Component_GetLogID :: "Component \<Rightarrow> string" where
  "Component_GetLogID c = BOMRef c"

section \<open>JSON (encoding/json)\<close>

text \<open>
  The JSON library is not part of the repository.  Its two halves are kept apart:
  \<^item> the syntax (bytes to a JSON value and back) is a parameter, the record \<open>json_lib\<close>;
    a \<^verbatim>\<open>json.RawMessage\<close> is represented by the value it holds;
  \<^item> the mapping between a JSON value and a Go struct follows the struct tags of the
    source and the rules of \<^verbatim>\<open>encoding/json\<close>: a key is matched with a tag whatever
    the case of its letters, an unknown key is ignored, \<^verbatim>\<open>null\<close> leaves a string or a
    struct as it is and makes a slice or a pointer nil, a value of the wrong kind is an
    error, and a later occurrence of a key is decoded over what an earlier one left.

  A string is the sequence of its bytes.
\<close>

datatype json =
    JNull
  | JBool bool
  | JNumber string
  | JString string
  | JArray "json list"
  | JObject "(string \<times> json) list"

record json_lib =
  Unmarshal :: "string \<Rightarrow> error + json"
  Marshal :: "json \<Rightarrow> error + string"

definition json_type_error :: error where
  "json_type_error = New ''json: cannot unmarshal value into Go value''"

fun dec_string :: "json \<Rightarrow> string \<Rightarrow> error + string" where
  "dec_string JNull cur = Inr cur"
| "dec_string (JString s) cur = Inr s"
| "dec_string j cur = Inl json_type_error"

text \<open>
  An array is decoded element by element: the element at an index the slice already
  has is decoded over the value that is there, every further element over a zero value;
  the slice ends up as long as the array.  (The spare capacity of a slice is taken to
  hold zero values.  It holds older elements after a shorter array has been decoded
  over a longer one, which a still later array reads only when the text gives the same
  key a third time.)
\<close>

fun dec_list ::
  "('a \<Rightarrow> json \<Rightarrow> error + 'a) \<Rightarrow> 'a \<Rightarrow> json list \<Rightarrow> 'a list \<Rightarrow> error + 'a list" where
  "dec_list f zero [] cur = Inr []"
| "dec_list f zero (j # js) cur =
     (case f (case cur of [] \<Rightarrow> zero | c # cs \<Rightarrow> c) j of
        Inl e \<Rightarrow> Inl e
      | Inr x \<Rightarrow>
          (case dec_list f zero js (tl cur) of Inl e \<Rightarrow> Inl e | Inr xs \<Rightarrow> Inr (x # xs)))"

fun dec_slice ::
  "('a \<Rightarrow> json \<Rightarrow> error + 'a) \<Rightarrow> 'a \<Rightarrow> json \<Rightarrow> 'a slice \<Rightarrow> error + 'a slice" where
  "dec_slice f zero JNull cur = Inr None"
| "dec_slice f zero (JArray js) cur =
     (case dec_list f zero js (elems cur) of Inl e \<Rightarrow> Inl e | Inr xs \<Rightarrow> Inr (Some xs))"
| "dec_slice f zero j cur = Inl json_type_error"

text \<open>
  Keys are compared after folding (\<^verbatim>\<open>foldName\<close>): the letters \<^verbatim>\<open>a\<close> to \<^verbatim>\<open>z\<close> become
  \<^verbatim>\<open>A\<close> to \<^verbatim>\<open>Z\<close>, and the two runes that fold to a letter, the Kelvin sign U+212A
  (bytes E2 84 AA) and the long s U+017F (bytes C5 BF), become \<^verbatim>\<open>K\<close> and \<^verbatim>\<open>S\<close>.
  Every other rune folds to a rune outside ASCII and is left as it is here; no tag of
  the source has one, and no two tags of one struct fold to the same name.
\<close>

definition upper_char :: "char \<Rightarrow> char" where
  "upper_char c =
     (if 97 \<le> (of_char c :: nat) \<and> (of_char c :: nat) \<le> 122
      then (case c of Char b0 b1 b2 b3 b4 b5 b6 b7 \<Rightarrow> Char b0 b1 b2 b3 b4 False b6 b7)
      else c)"

fun fold_name :: "string \<Rightarrow> string" where
  "fold_name (a # b # c # rest) =
     (if a = CHR 0xE2 \<and> b = CHR 0x84 \<and> c = CHR 0xAA then CHR ''K'' # fold_name rest
      else if a = CHR 0xC5 \<and> b = CHR 0xBF then CHR ''S'' # fold_name (c # rest)
      else upper_char a # fold_name (b # c # rest))"
| "fold_name [a, b] =
     (if a = CHR 0xC5 \<and> b = CHR 0xBF then [CHR ''S''] else [upper_char a, upper_char b])"
| "fold_name [a] = [upper_char a]"
| "fold_name [] = []"

definition key_is :: "string \<Rightarrow> string \<Rightarrow> bool" where
  "key_is k tag = (fold_name k = fold_name tag)"

fun dec_object ::
  "(string \<Rightarrow> json \<Rightarrow> 'a \<Rightarrow> error + 'a) \<Rightarrow> (string \<times> json) list \<Rightarrow> 'a \<Rightarrow> error + 'a" where
  "dec_object fld [] a = Inr a"
| "dec_object fld ((k, v) # kvs) a =
     (case fld k v a of Inl e \<Rightarrow> Inl e | Inr a' \<Rightarrow> dec_object fld kvs a')"

fun dec_struct ::
  "(string \<Rightarrow> json \<Rightarrow> 'a \<Rightarrow> error + 'a) \<Rightarrow> 'a \<Rightarrow> json \<Rightarrow> error + 'a" where
  "dec_struct fld cur JNull = Inr cur"
| "dec_struct fld cur (JObject kvs) = dec_object fld kvs cur"
| "dec_struct fld cur j = Inl json_type_error"

text \<open>A pointer field: \<^verbatim>\<open>null\<close> makes it nil, an object is decoded into the struct it
  points to (a fresh one when the pointer was nil).\<close>

fun dec_ptr ::
  "(string \<Rightarrow> json \<Rightarrow> 'a \<Rightarrow> error + 'a) \<Rightarrow> 'a \<Rightarrow> json \<Rightarrow> 'a option \<Rightarrow> error + 'a option" where
  "dec_ptr fld zero JNull cur = Inr None"
| "dec_ptr fld zero (JObject kvs) cur =
     (case dec_object fld kvs (case cur of None \<Rightarrow> zero | Some a \<Rightarrow> a) of
        Inl e \<Rightarrow> Inl e
      | Inr a \<Rightarrow> Inr (Some a))"
| "dec_ptr fld zero j cur = Inl json_type_error"

definition store :: "error + 'b \<Rightarrow> ('b \<Rightarrow> 'a) \<Rightarrow> error + 'a" where
  "store r upd = (case r of Inl e \<Rightarrow> Inl e | Inr x \<Rightarrow> Inr (upd x))"

definition enc_slice :: "('a \<Rightarrow> json) \<Rightarrow> 'a slice \<Rightarrow> json" where
  "enc_slice f s = (case s of None \<Rightarrow> JNull | Some xs \<Rightarrow> JArray (map f xs))"

definition omitempty_string :: "string \<Rightarrow> string \<Rightarrow> (string \<times> json) list" where
  "omitempty_string k s = (if s = [] then [] else [(k, JString s)])"

subsection \<open>The SPDX structs\<close>

definition zero_ExternalRef :: ExternalRef where
  "zero_ExternalRef = \<lparr>ReferenceCategory = [], ReferenceType = [], ReferenceLocator = []\<rparr>"

definition zero_Package :: Package where
  "zero_Package = \<lparr>SPDXID = [], Name = [], VersionInfo = [], Homepage = [],
     LicenseConcluded = [], LicenseDeclared = [], ExternalRefs = None\<rparr>"

definition zero_Document :: Document where
  "zero_Document = \<lparr>SPDXVersion = [], doc_SPDXID = [], Packages = None\<rparr>"

definition ExternalRef_field :: "string \<Rightarrow> json \<Rightarrow> ExternalRef \<Rightarrow> error + ExternalRef" where
  "ExternalRef_field k v r =
     (if key_is k ''referenceCategory''
        then store (dec_string v (ReferenceCategory r)) (\<lambda>s. r\<lparr>ReferenceCategory := s\<rparr>)
      else if key_is k ''referenceType''
        then store (dec_string v (ReferenceType r)) (\<lambda>s. r\<lparr>ReferenceType := s\<rparr>)
      else if key_is k ''referenceLocator''
        then store (dec_string v (ReferenceLocator r)) (\<lambda>s. r\<lparr>ReferenceLocator := s\<rparr>)
      else Inr r)"

definition dec_ExternalRef :: "ExternalRef \<Rightarrow> json \<Rightarrow> error + ExternalRef" where
  "dec_ExternalRef = dec_struct ExternalRef_field"

definition Package_field :: "string \<Rightarrow> json \<Rightarrow> Package \<Rightarrow> error + Package" where
  "Package_field k v p =
     (if key_is k ''SPDXID'' then store (dec_string v (SPDXID p)) (\<lambda>s. p\<lparr>SPDXID := s\<rparr>)
      else if key_is k ''name'' then store (dec_string v (Name p)) (\<lambda>s. p\<lparr>Name := s\<rparr>)
      else if key_is k ''versionInfo''
        then store (dec_string v (VersionInfo p)) (\<lambda>s. p\<lparr>VersionInfo := s\<rparr>)
      else if key_is k ''homepage'' then store (dec_string v (Homepage p)) (\<lambda>s. p\<lparr>Homepage := s\<rparr>)
      else if key_is k ''licenseConcluded''
        then store (dec_string v (LicenseConcluded p)) (\<lambda>s. p\<lparr>LicenseConcluded := s\<rparr>)
      else if key_is k ''licenseDeclared''
        then store (dec_string v (LicenseDeclared p)) (\<lambda>s. p\<lparr>LicenseDeclared := s\<rparr>)
      else if key_is k ''externalRefs''
        then store (dec_slice dec_ExternalRef zero_ExternalRef v (ExternalRefs p)) (\<lambda>s. p\<lparr>ExternalRefs := s\<rparr>)
      else Inr p)"

definition dec_Package :: "Package \<Rightarrow> json \<Rightarrow> error + Package" where
  "dec_Package = dec_struct Package_field"

definition Document_field :: "string \<Rightarrow> json \<Rightarrow> Document \<Rightarrow> error + Document" where
  "Document_field k v d =
     (if key_is k ''spdxVersion''
        then store (dec_string v (SPDXVersion d)) (\<lambda>s. d\<lparr>SPDXVersion := s\<rparr>)
      else if key_is k ''SPDXID'' then store (dec_string v (doc_SPDXID d)) (\<lambda>s. d\<lparr>doc_SPDXID := s\<rparr>)
      else if key_is k ''packages''
        then store (dec_slice dec_Package zero_Package v (Packages d)) (\<lambda>s. d\<lparr>Packages := s\<rparr>)
      else Inr d)"

definition dec_Document :: "json \<Rightarrow> error + Document" where
  "dec_Document = dec_struct Document_field zero_Document"

definition enc_ExternalRef :: "ExternalRef \<Rightarrow> json" where
  "enc_ExternalRef r = JObject
     [(''referenceCategory'', JString (ReferenceCategory r)),
      (''referenceType'', JString (ReferenceType r)),
      (''referenceLocator'', JString (ReferenceLocator r))]"

definition enc_Package :: "Package \<Rightarrow> json" where
  "enc_Package p = JObject
     [(''SPDXID'', JString (SPDXID p)),
      (''name'', JString (Name p)),
      (''versionInfo'', JString (VersionInfo p)),
      (''homepage'', JString (Homepage p)),
      (''licenseConcluded'', JString (LicenseConcluded p)),
      (''licenseDeclared'', JString (LicenseDeclared p)),
      (''externalRefs'', enc_slice enc_ExternalRef (ExternalRefs p))]"

definition enc_Document :: "Document \<Rightarrow> json" where
  "enc_Document d = JObject
     [(''spdxVersion'', JString (SPDXVersion d)),
      (''SPDXID'', JString (doc_SPDXID d)),
      (''packages'', enc_slice enc_Package (Packages d))]"

subsection \<open>The CycloneDX structs\<close>

definition zero_LicenseText :: LicenseText where
  "zero_LicenseText = \<lparr>Content = []\<rparr>"

definition zero_License :: License where
  "zero_License = \<lparr>ID = [], lic_Name = [], lic_Expression = [], Text = None\<rparr>"

definition zero_LicenseChoice :: LicenseChoice where
  "zero_LicenseChoice = \<lparr>License = None, Expression = []\<rparr>"

definition zero_ExternalReference :: ExternalReference where
  "zero_ExternalReference = \<lparr>URL = [], Type = []\<rparr>"

definition zero_Component :: Component where
  "zero_Component = \<lparr>BOMRef = [], comp_Name = [], Version = [], Purl = [],
     Licenses = None, ExternalReferences = None\<rparr>"

definition zero_BOM :: BOM where
  "zero_BOM = \<lparr>BOMFormat = [], SpecVersion = [], Components = None\<rparr>"

definition LicenseText_field :: "string \<Rightarrow> json \<Rightarrow> LicenseText \<Rightarrow> error + LicenseText" where
  "LicenseText_field k v t =
     (if key_is k ''content'' then store (dec_string v (Content t)) (\<lambda>s. t\<lparr>Content := s\<rparr>)
      else Inr t)"

definition License_field :: "string \<Rightarrow> json \<Rightarrow> License \<Rightarrow> error + License" where
  "License_field k v l =
     (if key_is k ''id'' then store (dec_string v (ID l)) (\<lambda>s. l\<lparr>ID := s\<rparr>)
      else if key_is k ''name'' then store (dec_string v (lic_Name l)) (\<lambda>s. l\<lparr>lic_Name := s\<rparr>)
      else if key_is k ''expression''
        then store (dec_string v (lic_Expression l)) (\<lambda>s. l\<lparr>lic_Expression := s\<rparr>)
      else if key_is k ''text''
        then store (dec_ptr LicenseText_field zero_LicenseText v (Text l)) (\<lambda>t. l\<lparr>Text := t\<rparr>)
      else Inr l)"

definition LicenseChoice_field ::
  "string \<Rightarrow> json \<Rightarrow> LicenseChoice \<Rightarrow> error + LicenseChoice" where
  "LicenseChoice_field k v c =
     (if key_is k ''license''
        then store (dec_ptr License_field zero_License v (License c)) (\<lambda>l. c\<lparr>License := l\<rparr>)
      else if key_is k ''expression''
        then store (dec_string v (Expression c)) (\<lambda>s. c\<lparr>Expression := s\<rparr>)
      else Inr c)"

definition dec_LicenseChoice :: "LicenseChoice \<Rightarrow> json \<Rightarrow> error + LicenseChoice" where
  "dec_LicenseChoice = dec_struct LicenseChoice_field"

definition ExternalReference_field ::
  "string \<Rightarrow> json \<Rightarrow> ExternalReference \<Rightarrow> error + ExternalReference" where
  "ExternalReference_field k v r =
     (if key_is k ''url'' then store (dec_string v (URL r)) (\<lambda>s. r\<lparr>URL := s\<rparr>)
      else if key_is k ''type'' then store (dec_string v (Type r)) (\<lambda>s. r\<lparr>Type := s\<rparr>)
      else Inr r)"

definition dec_ExternalReference ::
  "ExternalReference \<Rightarrow> json \<Rightarrow> error + ExternalReference" where
  "dec_ExternalReference = dec_struct ExternalReference_field"

definition Component_field :: "string \<Rightarrow> json \<Rightarrow> Component \<Rightarrow> error + Component" where
  "Component_field k v c =
     (if key_is k ''bom-ref'' then store (dec_string v (BOMRef c)) (\<lambda>s. c\<lparr>BOMRef := s\<rparr>)
      else if key_is k ''name'' then store (dec_string v (comp_Name c)) (\<lambda>s. c\<lparr>comp_Name := s\<rparr>)
      else if key_is k ''version'' then store (dec_string v (Version c)) (\<lambda>s. c\<lparr>Version := s\<rparr>)
      else if key_is k ''purl'' then store (dec_string v (Purl c)) (\<lambda>s. c\<lparr>Purl := s\<rparr>)
      else if key_is k ''licenses''
        then store (dec_slice dec_LicenseChoice zero_LicenseChoice v (Licenses c)) (\<lambda>s. c\<lparr>Licenses := s\<rparr>)
      else if key_is k ''externalReferences''
        then store (dec_slice dec_ExternalReference zero_ExternalReference v
                      (ExternalReferences c))
               (\<lambda>s. c\<lparr>ExternalReferences := s\<rparr>)
      else Inr c)"

definition dec_Component :: "Component \<Rightarrow> json \<Rightarrow> error + Component" where
  "dec_Component = dec_struct Component_field"

definition BOM_field :: "string \<Rightarrow> json \<Rightarrow> BOM \<Rightarrow> error + BOM" where
  "BOM_field k v b =
     (if key_is k ''bomFormat'' then store (dec_string v (BOMFormat b)) (\<lambda>s. b\<lparr>BOMFormat := s\<rparr>)
      else if key_is k ''specVersion''
        then store (dec_string v (SpecVersion b)) (\<lambda>s. b\<lparr>SpecVersion := s\<rparr>)
      else if key_is k ''components''
        then store (dec_slice dec_Component zero_Component v (Components b)) (\<lambda>s. b\<lparr>Components := s\<rparr>)
      else Inr b)"

definition dec_BOM :: "json \<Rightarrow> error + BOM" where
  "dec_BOM = dec_struct BOM_field zero_BOM"

definition enc_LicenseText :: "LicenseText \<Rightarrow> json" where
  "enc_LicenseText t = JObject [(''content'', JString (Content t))]"

definition enc_License :: "License \<Rightarrow> json" where
  "enc_License l = JObject
     (omitempty_string ''id'' (ID l) @
      omitempty_string ''name'' (lic_Name l) @
      omitempty_string ''expression'' (lic_Expression l) @
      (case Text l of None \<Rightarrow> [] | Some t \<Rightarrow> [(''text'', enc_LicenseText t)]))"

definition enc_LicenseChoice :: "LicenseChoice \<Rightarrow> json" where
  "enc_LicenseChoice c = JObject
     ((case License c of None \<Rightarrow> [] | Some l \<Rightarrow> [(''license'', enc_License l)]) @
      omitempty_string ''expression'' (Expression c))"

definition enc_ExternalReference :: "ExternalReference \<Rightarrow> json" where
  "enc_ExternalReference r = JObject
     [(''url'', JString (URL r)), (''type'', JString (Type r))]"

definition enc_Component :: "Component \<Rightarrow> json" where
  "enc_Component c = JObject
     ([(''bom-ref'', JString (BOMRef c)),
       (''name'', JString (comp_Name c)),
       (''version'', JString (Version c)),
       (''purl'', JString (Purl c))] @
      (if len (Licenses c) = 0 then []
       else [(''licenses'', enc_slice enc_LicenseChoice (Licenses c))]) @
      [(''externalReferences'', enc_slice enc_ExternalReference (ExternalReferences c))])"

definition enc_BOM :: "BOM \<Rightarrow> json" where
  "enc_BOM b = JObject
     ([(''bomFormat'', JString (BOMFormat b)),
       (''specVersion'', JString (SpecVersion b))] @
      (if len (Components b) = 0 then []
       else [(''components'', enc_slice enc_Component (Components b))]))"

section \<open>The cache-through lookup (provider.go)\<close>

text \<open>
  A cache and a provider are interfaces; an implementation acts on some outside world
  \<open>'w\<close> (a map in memory, a database file, a remote service) and may change it.  A call
  returns its Go result pair as a sum: \<open>Inl err\<close> when the error is not nil, \<open>Inr v\<close>
  otherwise.  Every call made through one of the two interfaces is recorded in \<open>calls\<close>,
  in the order of the calls, and every record handed to the logger in \<open>logged\<close>.
\<close>

record 'w Cache =
  cache_Get :: "string \<Rightarrow> 'w \<Rightarrow> (error + string) \<times> 'w"
  cache_SetWithTTL :: "string \<Rightarrow> string \<Rightarrow> int \<Rightarrow> 'w \<Rightarrow> error option \<times> 'w"

type_synonym 'w Provider = "string \<Rightarrow> 'w \<Rightarrow> (error + string) \<times> 'w"

datatype event =
    CacheGet string
  | ProviderGet string
  | CacheSetWithTTL string string int

record logrec =
  log_msg :: string
  log_purl :: "string option"
  log_id :: string
  log_error :: error

text \<open>
  A job of the worker pool (worker.go).  Its item is a pointer to a slot of the document
  (\<^verbatim>\<open>&doc.Packages[i]\<close>); the model keeps the slots in a list and a job names its slot by
  the index \<open>job_item\<close>.
\<close>

record job =
  job_item :: nat
  job_purl :: string

text \<open>
  The state of a run: the outside world, the two records, and the order in which the
  Go runtime lets the workers of a pool go through the jobs they were given
  (\<open>schedule\<close>, from the queued jobs to the order they are worked in).
\<close>

record 'w state =
  world :: 'w
  calls :: "event list"
  logged :: "logrec list"
  schedule :: "job list \<Rightarrow> job list"

record 'w GetOptions =
  opt_Purl :: string
  opt_Provider :: "'w Provider"
  opt_Cache :: "'w Cache option"
  opt_CacheTTL :: int

definition call_cache_Get :: "'w Cache \<Rightarrow> string \<Rightarrow> 'w state \<Rightarrow> (error + string) \<times> 'w state" where
  "call_cache_Get c key s =
     (case cache_Get c key (world s) of
        (r, w) \<Rightarrow> (r, s\<lparr>world := w, calls := calls s @ [CacheGet key]\<rparr>))"

definition call_provider_Get :: "'w Provider \<Rightarrow> string \<Rightarrow> 'w state \<Rightarrow> (error + string) \<times> 'w state" where
  "call_provider_Get prov purl s =
     (case prov purl (world s) of
        (r, w) \<Rightarrow> (r, s\<lparr>world := w, calls := calls s @ [ProviderGet purl]\<rparr>))"

definition call_cache_SetWithTTL ::
  "'w Cache \<Rightarrow> string \<Rightarrow> string \<Rightarrow> int \<Rightarrow> 'w state \<Rightarrow> error option \<times> 'w state" where
  "call_cache_SetWithTTL c key v ttl s =
     (case cache_SetWithTTL c key v ttl (world s) of
        (r, w) \<Rightarrow> (r, s\<lparr>world := w, calls := calls s @ [CacheSetWithTTL key v ttl]\<rparr>))"

text \<open>The second half of \<^verbatim>\<open>Get\<close>: the provider, then the write to the cache.\<close>

definition Get_from_provider :: "'w GetOptions \<Rightarrow> 'w state \<Rightarrow> (error + string) \<times> 'w state" where
  "Get_from_provider opts s =
     (case call_provider_Get (opt_Provider opts) (opt_Purl opts) s of
        (Inl err, s1) \<Rightarrow> (Inl (Errorf ''failed to get license from provider: %w'' [err]), s1)
      | (Inr license, s1) \<Rightarrow>
          (case opt_Cache opts of
             Some c \<Rightarrow>
               (if license \<noteq> [] then
                  (case call_cache_SetWithTTL c (opt_Purl opts) license (opt_CacheTTL opts) s1 of
                     (Some setErr, s2) \<Rightarrow>
                       (Inl (Errorf ''failed to set license in cache: %w'' [setErr]), s2)
                   | (None, s2) \<Rightarrow> (Inr license, s2))
                else (Inr license, s1))
           | None \<Rightarrow> (Inr license, s1)))"

definition Get :: "'w GetOptions \<Rightarrow> 'w state \<Rightarrow> (error + string) \<times> 'w state" where
  "Get opts s =
     (case opt_Cache opts of
        Some c \<Rightarrow>
          (case call_cache_Get c (opt_Purl opts) s of
             (Inl err, s1) \<Rightarrow>
               (if \<not> errors_Is err ErrCacheMiss
                then (Inl (Errorf ''failed to get license from cache: %w'' [err]), s1)
                else Get_from_provider opts s1)
           | (Inr license, s1) \<Rightarrow> (Inr license, s1))
      | None \<Rightarrow> Get_from_provider opts s)"

section \<open>The Ecosystems client (ecosystems.go)\<close>

text \<open>
  The HTTP transport, URL escaping and the JSON decoder of the response body are library
  code and are parameters: \<open>client\<close> is \<^verbatim>\<open>s.client.Do\<close>, \<open>Decode\<close> reads the JSON value
  of a body.
\<close>

record Request =
  req_Method :: string
  req_URL :: string
  req_UserAgent :: string

record Response =
  StatusCode :: int
  Body :: string

record net_lib =
  QueryEscape :: "string \<Rightarrow> string"
  NewRequestWithContext :: "string \<Rightarrow> string \<Rightarrow> error + Request"
  Decode :: "string \<Rightarrow> error + json"

record Client =
  baseURL :: string
  client :: "Request \<Rightarrow> error + Response"
  email :: string

record ecosystemsPackagesLookupResponse =
  NormalizedLicenses :: "string slice"

definition ecosystemsAPIPath :: string where
  "ecosystemsAPIPath = ''/api/v1/packages/lookup''"

definition version_Get :: string where
  "version_Get = ''dev''"

definition zero_LookupResponse :: ecosystemsPackagesLookupResponse where
  "zero_LookupResponse = \<lparr>NormalizedLicenses = None\<rparr>"

definition LookupResponse_field ::
  "string \<Rightarrow> json \<Rightarrow> ecosystemsPackagesLookupResponse \<Rightarrow> error + ecosystemsPackagesLookupResponse" where
  "LookupResponse_field k v r =
     (if key_is k ''normalized_licenses''
        then store (dec_slice (\<lambda>cur j. dec_string j cur) [] v (NormalizedLicenses r))
               (\<lambda>s. r\<lparr>NormalizedLicenses := s\<rparr>)
      else Inr r)"

definition dec_results :: "json \<Rightarrow> error + ecosystemsPackagesLookupResponse slice" where
  "dec_results j = dec_slice (dec_struct LookupResponse_field) zero_LookupResponse j None"

text \<open>The three values \<^verbatim>\<open>Client.Get\<close> computes on its way: the URL of the request, the
  \<^verbatim>\<open>User-Agent\<close> header, and the decoded body of a response.\<close>

definition apiURL :: "net_lib \<Rightarrow> Client \<Rightarrow> string \<Rightarrow> string" where
  "apiURL lib s purl = baseURL s @ ecosystemsAPIPath @ ''?purl='' @ QueryEscape lib purl"

definition userAgent :: "Client \<Rightarrow> string" where
  "userAgent s =
     (if email s \<noteq> []
      then ''sbomlicense/'' @ version_Get @ '' (mailto:'' @ email s @ '')''
      else ''sbomlicense/'' @ version_Get)"

definition decode_body :: "net_lib \<Rightarrow> string \<Rightarrow> error + ecosystemsPackagesLookupResponse slice" where
  "decode_body lib body =
     (case Decode lib body of Inl err \<Rightarrow> Inl err | Inr j \<Rightarrow> dec_results j)"

definition Client_Get :: "net_lib \<Rightarrow> Client \<Rightarrow> string \<Rightarrow> error + string" where
  "Client_Get lib s purl =
     (case NewRequestWithContext lib ''GET'' (apiURL lib s purl) of
        Inl err \<Rightarrow> Inl (Errorf ''failed to create HTTP request: %w'' [err])
      | Inr req \<Rightarrow>
          (case client s (req\<lparr>req_UserAgent := userAgent s\<rparr>) of
             Inl err \<Rightarrow> Inl (Errorf ''failed to make HTTP request: %w'' [err])
           | Inr response \<Rightarrow>
               (if StatusCode response \<noteq> 200 then
                  (if StatusCode response = 404
                     then Inl (Errorf ''%w: HTTP 404'' [ErrLicenseNotFound])
                   else if StatusCode response = 429
                     then Inl (New ''rate limited by API: HTTP 429'')
                   else if StatusCode response = 502 \<or> StatusCode response = 503 \<or>
                           StatusCode response = 504
                     then Inl (Errorf ''API service unavailable: HTTP %d'' [])
                   else Inl (Errorf ''API error: HTTP %d'' []))
                else
                  (case decode_body lib (Body response) of
                     Inl err \<Rightarrow> Inl (Errorf ''%w: %w'' [ErrInvalidResponse, err])
                   | Inr results \<Rightarrow>
                       (case elems results of
                          [] \<Rightarrow> Inl (Errorf ''%w: no licenses found for %s'' [ErrLicenseNotFound])
                        | r # rest \<Rightarrow>
                            (case elems (NormalizedLicenses r) of
                               [] \<Rightarrow>
                                 Inl (Errorf ''%w: no licenses found for %s''
                                        [ErrLicenseNotFound])
                             | l # ls \<Rightarrow> Inr l))))))"

section \<open>The caches (memory.go, bbolt.go)\<close>

text \<open>
  Time is a number of nanoseconds; \<^verbatim>\<open>time.Now()\<close> is the argument \<open>now\<close> of each operation.
  An expiration is \<open>None\<close> for the zero \<^verbatim>\<open>time.Time\<close> (which \<^verbatim>\<open>time.Now().Add(ttl)\<close>
  never is) and \<open>Some t\<close> for the instant \<open>t\<close>.
\<close>

record cacheEntry =
  entry_value :: string
  expiration :: "int option"

definition cacheEntry_isExpired :: "cacheEntry \<Rightarrow> int \<Rightarrow> bool" where
  "cacheEntry_isExpired e now =
     (case expiration e of None \<Rightarrow> False | Some t \<Rightarrow> t < now)"

record MemoryCache =
  mc_cache :: "string \<rightharpoonup> cacheEntry"
  mc_closed :: bool

definition NewMemoryCache :: MemoryCache where
  "NewMemoryCache = \<lparr>mc_cache = Map.empty, mc_closed = False\<rparr>"

definition MemoryCache_Get :: "MemoryCache \<Rightarrow> int \<Rightarrow> string \<Rightarrow> error + string" where
  "MemoryCache_Get c now key =
     (if mc_closed c then Inl ErrCacheClosed
      else (case mc_cache c key of
              None \<Rightarrow> Inl ErrCacheMiss
            | Some entry \<Rightarrow>
                (if cacheEntry_isExpired entry now then Inl ErrCacheMiss
                 else Inr (entry_value entry))))"

definition MemoryCache_SetWithTTL ::
  "MemoryCache \<Rightarrow> int \<Rightarrow> string \<Rightarrow> string \<Rightarrow> int \<Rightarrow> error option \<times> MemoryCache" where
  "MemoryCache_SetWithTTL c now key v ttl =
     (if mc_closed c then (Some ErrCacheClosed, c)
      else
        (let entry = \<lparr>entry_value = v, expiration = None\<rparr>;
             entry' = (if ttl > 0 then entry\<lparr>expiration := Some (now + ttl)\<rparr> else entry)
         in (None, c\<lparr>mc_cache := (mc_cache c)(key \<mapsto> entry')\<rparr>)))"

definition MemoryCache_Delete :: "MemoryCache \<Rightarrow> string \<Rightarrow> error option \<times> MemoryCache" where
  "MemoryCache_Delete c key =
     (if mc_closed c then (Some ErrCacheClosed, c)
      else (None, c\<lparr>mc_cache := (mc_cache c)(key := None)\<rparr>))"

definition MemoryCache_Close :: "MemoryCache \<Rightarrow> error option \<times> MemoryCache" where
  "MemoryCache_Close c =
     (if mc_closed c then (None, c)
      else (None, c\<lparr>mc_closed := True, mc_cache := Map.empty\<rparr>))"

text \<open>
  The bbolt database is a library.  What the cache uses of it: a database is a map from
  bucket names to buckets, a bucket a map from keys to values; \<^verbatim>\<open>Bucket.Put\<close> refuses
  the empty key, a key longer than 32768 bytes and a value longer than \<open>2^31 - 2\<close> bytes;
  an update whose function returns an error changes nothing.  Transactions are taken not
  to fail for reasons of their own (input and output).  The JSON form of an entry is a
  parameter (\<open>entry_codec\<close>).
\<close>

record bboltEntry =
  Value :: string
  Expiration :: "int option"

record entry_codec =
  Marshal_entry :: "bboltEntry \<Rightarrow> error + string"
  Unmarshal_entry :: "string \<Rightarrow> error + bboltEntry"

type_synonym Bucket = "string \<rightharpoonup> string"

type_synonym DB = "string \<rightharpoonup> Bucket"

definition bucketName :: string where
  "bucketName = ''licenses''"

definition Bucket_Put :: "Bucket \<Rightarrow> string \<Rightarrow> string \<Rightarrow> error + Bucket" where
  "Bucket_Put b key v =
     (if key = [] then Inl (New ''key required'')
      else if length key > 32768 then Inl (New ''key too large'')
      else if int (length v) > 2 ^ 31 - 2 then Inl (New ''value too large'')
      else Inr (b(key \<mapsto> v)))"

definition bboltEntry_isExpired :: "bboltEntry \<Rightarrow> int \<Rightarrow> bool" where
  "bboltEntry_isExpired e now =
     (case Expiration e of None \<Rightarrow> False | Some t \<Rightarrow> t < now)"

record BboltCache =
  bc_db :: DB
  bc_closed :: bool

definition NewBboltCache :: "DB \<Rightarrow> BboltCache" where
  "NewBboltCache db =
     \<lparr>bc_db = (case db bucketName of
                 None \<Rightarrow> db(bucketName \<mapsto> Map.empty)
               | Some b \<Rightarrow> db),
      bc_closed = False\<rparr>"

definition BboltCache_Get :: "entry_codec \<Rightarrow> BboltCache \<Rightarrow> int \<Rightarrow> string \<Rightarrow> error + string" where
  "BboltCache_Get lib c now key =
     (if bc_closed c then Inl ErrCacheClosed
      else (case bc_db c bucketName of
              None \<Rightarrow> Inl (New ''bucket not found'')
            | Some b \<Rightarrow>
                (case b key of
                   None \<Rightarrow> Inl ErrCacheMiss
                 | Some data \<Rightarrow>
                     (case Unmarshal_entry lib data of
                        Inl err \<Rightarrow> Inr data
                      | Inr entry \<Rightarrow>
                          (if bboltEntry_isExpired entry now then Inl ErrCacheMiss
                           else Inr (Value entry))))))"

definition BboltCache_SetWithTTL ::
  "entry_codec \<Rightarrow> BboltCache \<Rightarrow> int \<Rightarrow> string \<Rightarrow> string \<Rightarrow> int \<Rightarrow> error option \<times> BboltCache" where
  "BboltCache_SetWithTTL lib c now key v ttl =
     (if bc_closed c then (Some ErrCacheClosed, c)
      else (case bc_db c bucketName of
              None \<Rightarrow> (Some (New ''bucket not found''), c)
            | Some b \<Rightarrow>
                (let entry = \<lparr>Value = v, Expiration = None\<rparr>;
                     entry' = (if ttl > 0 then entry\<lparr>Expiration := Some (now + ttl)\<rparr> else entry)
                 in case Marshal_entry lib entry' of
                      Inl err \<Rightarrow> (Some err, c)
                    | Inr data \<Rightarrow>
                        (case Bucket_Put b key data of
                           Inl err \<Rightarrow> (Some err, c)
                         | Inr b' \<Rightarrow> (None, c\<lparr>bc_db := (bc_db c)(bucketName \<mapsto> b')\<rparr>)))))"

definition BboltCache_Delete :: "BboltCache \<Rightarrow> string \<Rightarrow> error option \<times> BboltCache" where
  "BboltCache_Delete c key =
     (if bc_closed c then (Some ErrCacheClosed, c)
      else (case bc_db c bucketName of
              None \<Rightarrow> (None, c)
            | Some b \<Rightarrow> (None, c\<lparr>bc_db := (bc_db c)(bucketName \<mapsto> b(key := None))\<rparr>)))"

definition BboltCache_Close :: "BboltCache \<Rightarrow> error option \<times> BboltCache" where
  "BboltCache_Close c = (if bc_closed c then (None, c) else (None, c\<lparr>bc_closed := True\<rparr>))"

section \<open>The worker pool (worker.go)\<close>

text \<open>The interface \<^verbatim>\<open>enrichableItem\<close>, as the record of its four methods.\<close>

record 'a enrichableItem =
  GetPurl :: "'a \<Rightarrow> error + string"
  HasLicense :: "'a \<Rightarrow> bool"
  SetLicense :: "string \<Rightarrow> 'a \<Rightarrow> 'a"
  GetLogID :: "'a \<Rightarrow> string"

definition Package_item :: "Package enrichableItem" where
  "Package_item = \<lparr>GetPurl = Package_GetPurl, HasLicense = Package_HasLicense,
     SetLicense = Package_SetLicense, GetLogID = Package_GetLogID\<rparr>"

definition Component_item :: "Component enrichableItem" where
  "Component_item = \<lparr>GetPurl = Component_GetPurl, HasLicense = Component_HasLicense,
     SetLicense = Component_SetLicense, GetLogID = Component_GetLogID\<rparr>"

text \<open>The options of a run.  The logger is not a field here: the records handed to it
  are collected in the state (a nil logger is replaced by one that discards them).\<close>

record Options =
  SBOM :: string
  Parallelism :: int

text \<open>The body of the loop \<^verbatim>\<open>for j := range jobs\<close> of one worker, for one job.\<close>

definition work ::
  "'a enrichableItem \<Rightarrow> 'w Provider \<Rightarrow> 'w Cache option \<Rightarrow> int \<Rightarrow> job \<Rightarrow>
   'a list \<times> 'w state \<Rightarrow> 'a list \<times> 'w state" where
  "work ops prov cacheInstance cacheTTL j st =
     (case st of (items, s) \<Rightarrow>
        (if HasLicense ops (items ! job_item j) then (items, s)
         else
           (case Get \<lparr>opt_Purl = job_purl j, opt_Provider = prov,
                      opt_Cache = cacheInstance, opt_CacheTTL = cacheTTL\<rparr> s of
              (Inl licErr, s1) \<Rightarrow>
                (items,
                 s1\<lparr>logged := logged s1 @
                    [\<lparr>log_msg = ''failed to get license for item'',
                      log_purl = Some (job_purl j),
                      log_id = GetLogID ops (items ! job_item j),
                      log_error = licErr\<rparr>]\<rparr>)
            | (Inr lic, s1) \<Rightarrow>
                (if lic \<noteq> [] then (items[job_item j := SetLicense ops lic (items ! job_item j)], s1)
                 else (items, s1)))))"

text \<open>The loop that queues the items: an item whose purl cannot be read is logged and
  not queued.\<close>

fun queue_jobs :: "'a enrichableItem \<Rightarrow> (nat \<times> 'a) list \<Rightarrow> 'w state \<Rightarrow> job list \<times> 'w state" where
  "queue_jobs ops [] s = ([], s)"
| "queue_jobs ops ((i, item) # rest) s =
     (case GetPurl ops item of
        Inl purlErr \<Rightarrow>
          queue_jobs ops rest
            (s\<lparr>logged := logged s @
               [\<lparr>log_msg = ''failed to get purl for item'',
                 log_purl = None,
                 log_id = GetLogID ops item,
                 log_error = purlErr\<rparr>]\<rparr>)
      | Inr purl \<Rightarrow>
          (case queue_jobs ops rest s of
             (js, s') \<Rightarrow> (\<lparr>job_item = i, job_purl = purl\<rparr> # js, s')))"

text \<open>
  The channel hands the jobs out in the order they were queued.  A single worker works
  them in that order; several workers work them side by side, in an order the source
  does not fix.  The model runs the bodies one after the other, in the order the state's
  \<open>schedule\<close> gives to the queued jobs; the properties below that depend on the order
  are stated for every schedule that is a permutation.  With no worker at all
  (\<open>parallelism \<le> 0\<close>) the jobs are queued and never taken.

  In the source the workers are started first and take jobs while the queue loop is
  still running.  The queue loop reads each item before its job exists and writes
  nothing but log records, so running it to its end before the first job is worked
  changes one thing only: in \<open>logged\<close> the records of the queue loop all come before
  the records of the workers, whereas in a run a record of the queue loop for a later
  item may come after a record of a worker for an earlier one.  The properties below
  speak of the records that are logged, not of the order of records of different items.
\<close>

fun drain ::
  "'a enrichableItem \<Rightarrow> 'w Provider \<Rightarrow> 'w Cache option \<Rightarrow> int \<Rightarrow> job list \<Rightarrow>
   'a list \<times> 'w state \<Rightarrow> 'a list \<times> 'w state" where
  "drain ops prov cacheInstance cacheTTL [] st = st"
| "drain ops prov cacheInstance cacheTTL (j # js) st =
     drain ops prov cacheInstance cacheTTL js (work ops prov cacheInstance cacheTTL j st)"

definition processItemsParallel ::
  "'a enrichableItem \<Rightarrow> 'a list \<Rightarrow> int \<Rightarrow> 'w Provider \<Rightarrow> 'w Cache option \<Rightarrow> int \<Rightarrow>
   'w state \<Rightarrow> error option \<times> 'a list \<times> 'w state" where
  "processItemsParallel ops items parallelism prov cacheInstance cacheTTL s =
     (case queue_jobs ops (enumerate 0 items) s of
        (jobs, s1) \<Rightarrow>
          (case (if parallelism \<le> 0 then (items, s1)
                 else drain ops prov cacheInstance cacheTTL (schedule s1 jobs) (items, s1)) of
             (items', s2) \<Rightarrow> (None, items', s2)))"

text \<open>
  The state in which a worker takes up the job of slot \<open>i\<close>: the one left by the queue
  loop and by the jobs that are worked before it.
\<close>

definition state_at_job ::
  "'a enrichableItem \<Rightarrow> 'a list \<Rightarrow> 'w Provider \<Rightarrow> 'w Cache option \<Rightarrow> int \<Rightarrow>
   'w state \<Rightarrow> nat \<Rightarrow> 'w state" where
  "state_at_job ops items prov cacheInstance cacheTTL s i =
     (case queue_jobs ops (enumerate 0 items) s of
        (jobs, s1) \<Rightarrow>
          snd (drain ops prov cacheInstance cacheTTL
                 (takeWhile (\<lambda>k. job_item k \<noteq> i) (schedule s1 jobs)) (items, s1)))"

text \<open>
  \<^verbatim>\<open>enrichDocument\<close>.  The items alias the slots of the document, so the document that
  is marshalled is the parsed one with the processed items in its slots
  (\<open>with_items\<close>).
\<close>

definition enrichDocument ::
  "'a enrichableItem \<Rightarrow> Options \<Rightarrow> 'd \<Rightarrow> 'a list \<Rightarrow> ('d \<Rightarrow> 'a list \<Rightarrow> 'd) \<Rightarrow>
   'w Provider \<Rightarrow> 'w Cache option \<Rightarrow> int \<Rightarrow> ('d \<Rightarrow> error + string) \<Rightarrow>
   'w state \<Rightarrow> (error + string) \<times> 'w state" where
  "enrichDocument ops opts doc items with_items prov cacheInstance cacheTTL marshalFn s =
     (if length items = 0 then (Inr (SBOM opts), s)
      else
        (let parallelism = (if Parallelism opts \<le> 0 then 1 else Parallelism opts)
         in case processItemsParallel ops items parallelism prov cacheInstance cacheTTL s of
              (Some err, items', s') \<Rightarrow> (Inl err, s')
            | (None, items', s') \<Rightarrow> (marshalFn (with_items doc items'), s')))"

section \<open>The two enrichers (spdx.go, cyclonedx.go)\<close>

text \<open>\<^verbatim>\<open>UnwrapGitHubSBOM\<close>: the data must be a JSON object (or \<^verbatim>\<open>null\<close>); the value
  under the key \<^verbatim>\<open>sbom\<close>, when there is one, replaces the data.\<close>

definition UnwrapGitHubSBOM :: "json_lib \<Rightarrow> string \<Rightarrow> error + json" where
  "UnwrapGitHubSBOM lib data =
     (case Unmarshal lib data of
        Inl err \<Rightarrow> Inl (Errorf ''failed to parse JSON: %w'' [err])
      | Inr JNull \<Rightarrow> Inr JNull
      | Inr (JObject kvs) \<Rightarrow>
          (case map_of (rev kvs) ''sbom'' of
             Some sbomData \<Rightarrow> Inr sbomData
           | None \<Rightarrow> Inr (JObject kvs))
      | Inr j \<Rightarrow> Inl (Errorf ''failed to parse JSON: %w'' [json_type_error]))"

definition ParseSBOMFile :: "json_lib \<Rightarrow> string \<Rightarrow> error + Document" where
  "ParseSBOMFile lib sbom =
     (case UnwrapGitHubSBOM lib sbom of
        Inl err \<Rightarrow> Inl (Errorf ''failed to unwrap GitHub SBOM: %w'' [err])
      | Inr unwrapped \<Rightarrow>
          (case dec_Document unwrapped of
             Inl unmarshalErr \<Rightarrow> Inl (Errorf ''failed to parse SBOM JSON: %w'' [unmarshalErr])
           | Inr doc \<Rightarrow> Inr doc))"

definition ParseCycloneDXFile :: "json_lib \<Rightarrow> string \<Rightarrow> error + BOM" where
  "ParseCycloneDXFile lib data =
     (case (case Unmarshal lib data of Inl err \<Rightarrow> Inl err | Inr j \<Rightarrow> dec_BOM j) of
        Inl err \<Rightarrow> Inl (Errorf ''failed to parse CycloneDX JSON: %w'' [err])
      | Inr bom \<Rightarrow> Inr bom)"

record 'w SPDXEnricher =
  spdx_provider :: "'w Provider"
  spdx_cache :: "'w Cache option"
  spdx_cacheTTL :: int

record 'w CycloneDXEnricher =
  cdx_provider :: "'w Provider"
  cdx_cache :: "'w Cache option"
  cdx_cacheTTL :: int

definition with_Packages :: "Document \<Rightarrow> Package list \<Rightarrow> Document" where
  "with_Packages doc pkgs =
     (case Packages doc of None \<Rightarrow> doc | Some old \<Rightarrow> doc\<lparr>Packages := Some pkgs\<rparr>)"

definition with_Components :: "BOM \<Rightarrow> Component list \<Rightarrow> BOM" where
  "with_Components bom comps =
     (case Components bom of None \<Rightarrow> bom | Some old \<Rightarrow> bom\<lparr>Components := Some comps\<rparr>)"

definition SPDXEnricher_Enrich ::
  "json_lib \<Rightarrow> 'w SPDXEnricher \<Rightarrow> Options \<Rightarrow> 'w state \<Rightarrow> (error + string) \<times> 'w state" where
  "SPDXEnricher_Enrich lib e opts s =
     (case ParseSBOMFile lib (SBOM opts) of
        Inl err \<Rightarrow> (Inl (Errorf ''failed to parse SBOM file: %w'' [err]), s)
      | Inr doc \<Rightarrow>
          enrichDocument Package_item opts doc (elems (Packages doc)) with_Packages
            (spdx_provider e) (spdx_cache e) (spdx_cacheTTL e)
            (\<lambda>d. Marshal lib (enc_Document d)) s)"

definition CycloneDXEnricher_Enrich ::
  "json_lib \<Rightarrow> 'w CycloneDXEnricher \<Rightarrow> Options \<Rightarrow> 'w state \<Rightarrow> (error + string) \<times> 'w state" where
  "CycloneDXEnricher_Enrich lib e opts s =
     (case ParseCycloneDXFile lib (SBOM opts) of
        Inl err \<Rightarrow> (Inl (Errorf ''failed to parse SBOM file: %w'' [err]), s)
      | Inr bom \<Rightarrow>
          enrichDocument Component_item opts bom (elems (Components bom)) with_Components
            (cdx_provider e) (cdx_cache e) (cdx_cacheTTL e)
            (\<lambda>b. Marshal lib (enc_BOM b)) s)"

section \<open>The wording of the specification\<close>

text \<open>A license field is meaningful when it is non-empty and is neither of the two
  sentinel tokens.\<close>

definition meaningful :: "string \<Rightarrow> bool" where
  "meaningful s = (s \<noteq> [] \<and> s \<noteq> ''NONE'' \<and> s \<noteq> ''NOASSERTION'')"

text \<open>A license choice carries a license when its expression is non-empty or its nested
  license object has a non-empty id, name or expression.\<close>

definition choice_has_value :: "LicenseChoice \<Rightarrow> bool" where
  "choice_has_value ch =
     (Expression ch \<noteq> [] \<or>
      (case License ch of
         None \<Rightarrow> False
       | Some l \<Rightarrow> ID l \<noteq> [] \<or> lic_Name l \<noteq> [] \<or> lic_Expression l \<noteq> []))"

section \<open>Test doubles (enricher_test.go)\<close>

text \<open>The mock provider and the mock cache of the tests: a function when one is given,
  and otherwise the empty license, a cache miss, and a write that succeeds.\<close>

definition mockProvider :: "(string \<Rightarrow> error + string) option \<Rightarrow> 'w Provider" where
  "mockProvider getLicense =
     (\<lambda>purl w. (case getLicense of Some f \<Rightarrow> f purl | None \<Rightarrow> Inr [], w))"

definition mockCache ::
  "(string \<Rightarrow> error + string) option \<Rightarrow> (string \<Rightarrow> string \<Rightarrow> int \<Rightarrow> error option) option \<Rightarrow>
   'w Cache" where
  "mockCache getFunc setWithTTLFunc =
     \<lparr>cache_Get = (\<lambda>key w. (case getFunc of Some f \<Rightarrow> f key | None \<Rightarrow> Inl ErrCacheMiss, w)),
      cache_SetWithTTL =
        (\<lambda>key v ttl w. (case setWithTTLFunc of Some f \<Rightarrow> f key v ttl | None \<Rightarrow> None, w))\<rparr>"

text \<open>The state before a run, with the schedule of a single worker.\<close>

definition state0 :: "unit state" where
  "state0 = \<lparr>world = (), calls = [], logged = [], schedule = (\<lambda>jobs. jobs)\<rparr>"

text \<open>The first call a lookup makes: the cache when one is configured, the provider
  otherwise.\<close>

definition first_call :: "'w Cache option \<Rightarrow> string \<Rightarrow> event" where
  "first_call c purl = (case c of None \<Rightarrow> ProviderGet purl | Some x \<Rightarrow> CacheGet purl)"

text \<open>When the specification says the lookup answers \<open>NotFound\<close>: the service returned
  404, or an empty result array, or results whose license lists are all empty.\<close>

definition spec_NotFound :: "int \<Rightarrow> ecosystemsPackagesLookupResponse list \<Rightarrow> bool" where
  "spec_NotFound status results =
     (status = 404 \<or> results = [] \<or>
      list_all (\<lambda>r. elems (NormalizedLicenses r) = []) results)"

text \<open>What the client looks at: whether there is no first result, or the first result has
  no license.\<close>

definition first_result_empty :: "ecosystemsPackagesLookupResponse list \<Rightarrow> bool" where
  "first_result_empty results =
     (case results of [] \<Rightarrow> True | r # rest \<Rightarrow> elems (NormalizedLicenses r) = [])"

section \<open>Example documents\<close>

text \<open>
  JSON texts in the style of the inputs of the tests, written without white space, each
  with the JSON value it denotes.  \<open>table_lib\<close> is a JSON library that knows a given
  list of texts: it reads a listed text as its value and writes a listed value as its
  text.
\<close>

definition table_lib :: "(string \<times> json) list \<Rightarrow> json_lib" where
  "table_lib tab =
     \<lparr>Unmarshal = (\<lambda>b. case map_of tab b of
                          Some j \<Rightarrow> Inr j
                        | None \<Rightarrow> Inl (New ''invalid character'')),
      Marshal = (\<lambda>j. case map_of (map (\<lambda>(b, j). (j, b)) tab) j of
                        Some b \<Rightarrow> Inr b
                      | None \<Rightarrow> Inl (New ''unsupported value''))\<rparr>"

text \<open>An SPDX document without packages, in the GitHub envelope.\<close>

definition wrapped_empty_spdx :: string where
  \<open>wrapped_empty_spdx =
     ''{"sbom":{"spdxVersion":"SPDX-2.3","SPDXID":"SPDXRef-DOCUMENT","packages":[]}}''\<close>

definition wrapped_empty_spdx_json :: json where
  "wrapped_empty_spdx_json =
     JObject [(''sbom'', JObject [(''spdxVersion'', JString ''SPDX-2.3''), (''SPDXID'',
       JString ''SPDXRef-DOCUMENT''), (''packages'', JArray [])])]"

text \<open>A CycloneDX document without components.\<close>

definition empty_cdx :: string where
  \<open>empty_cdx =
     ''{"bomFormat":"CycloneDX","specVersion":"1.4","components":[]}''\<close>

definition empty_cdx_json :: json where
  "empty_cdx_json =
     JObject [(''bomFormat'', JString ''CycloneDX''), (''specVersion'',
       JString ''1.4''), (''components'', JArray [])]"

text \<open>One package that carries a concluded license.\<close>

definition spdx_licensed :: string where
  \<open>spdx_licensed =
     ''{"spdxVersion":"SPDX-2.3","dataLicense":"CC0-1.0","SPDXID":"SPDXRef-DOCUMENT","n'' @
     ''ame":"test","packages":[{"SPDXID":"SPDXRef-Package","name":"express","licenseCon'' @
     ''cluded":"Apache-2.0","externalRefs":[{"referenceCategory":"PACKAGE-MANAGER","ref'' @
     ''erenceType":"purl","referenceLocator":"pkg:npm/express@4.17.1"}]}]}''\<close>

definition spdx_licensed_json :: json where
  "spdx_licensed_json =
     JObject [(''spdxVersion'', JString ''SPDX-2.3''), (''dataLicense'',
       JString ''CC0-1.0''), (''SPDXID'', JString ''SPDXRef-DOCUMENT''), (''name'',
       JString ''test''), (''packages'', JArray [JObject [(''SPDXID'',
       JString ''SPDXRef-Package''), (''name'', JString ''express''),
       (''licenseConcluded'', JString ''Apache-2.0''), (''externalRefs'',
       JArray [JObject [(''referenceCategory'', JString ''PACKAGE-MANAGER''),
       (''referenceType'', JString ''purl''), (''referenceLocator'',
       JString ''pkg:npm/express@4.17.1'')]])]])]"

text \<open>What the enricher returns for it.\<close>

definition spdx_licensed_out :: string where
  \<open>spdx_licensed_out =
     ''{"spdxVersion":"SPDX-2.3","SPDXID":"SPDXRef-DOCUMENT","packages":[{"SPDXID":"SPD'' @
     ''XRef-Package","name":"express","versionInfo":"","homepage":"","licenseConcluded"'' @
     '':"Apache-2.0","licenseDeclared":"","externalRefs":[{"referenceCategory":"PACKAGE'' @
     ''-MANAGER","referenceType":"purl","referenceLocator":"pkg:npm/express@4.17.1"}]}]'' @
     ''}''\<close>

definition spdx_licensed_out_json :: json where
  "spdx_licensed_out_json =
     JObject [(''spdxVersion'', JString ''SPDX-2.3''), (''SPDXID'',
       JString ''SPDXRef-DOCUMENT''), (''packages'', JArray [JObject [(''SPDXID'',
       JString ''SPDXRef-Package''), (''name'', JString ''express''), (''versionInfo'',
       JString ''''), (''homepage'', JString ''''), (''licenseConcluded'',
       JString ''Apache-2.0''), (''licenseDeclared'', JString ''''), (''externalRefs'',
       JArray [JObject [(''referenceCategory'', JString ''PACKAGE-MANAGER''),
       (''referenceType'', JString ''purl''), (''referenceLocator'',
       JString ''pkg:npm/express@4.17.1'')]])]])]"

text \<open>One component that carries a license expression.\<close>

definition cdx_licensed :: string where
  \<open>cdx_licensed =
     ''{"bomFormat":"CycloneDX","specVersion":"1.4","components":[{"type":"library","na'' @
     ''me":"express","purl":"pkg:npm/express@4.17.1","licenses":[{"expression":"Apache-'' @
     ''2.0"}]}]}''\<close>

definition cdx_licensed_json :: json where
  "cdx_licensed_json =
     JObject [(''bomFormat'', JString ''CycloneDX''), (''specVersion'',
       JString ''1.4''), (''components'', JArray [JObject [(''type'',
       JString ''library''), (''name'', JString ''express''), (''purl'',
       JString ''pkg:npm/express@4.17.1''), (''licenses'',
       JArray [JObject [(''expression'', JString ''Apache-2.0'')]])]])]"

text \<open>What the enricher returns for it.\<close>

definition cdx_licensed_out :: string where
  \<open>cdx_licensed_out =
     ''{"bomFormat":"CycloneDX","specVersion":"1.4","components":[{"bom-ref":"","name":'' @
     ''"express","version":"","purl":"pkg:npm/express@4.17.1","licenses":[{"expression"'' @
     '':"Apache-2.0"}],"externalReferences":null}]}''\<close>

definition cdx_licensed_out_json :: json where
  "cdx_licensed_out_json =
     JObject [(''bomFormat'', JString ''CycloneDX''), (''specVersion'',
       JString ''1.4''), (''components'', JArray [JObject [(''bom-ref'', JString ''''),
       (''name'', JString ''express''), (''version'', JString ''''), (''purl'',
       JString ''pkg:npm/express@4.17.1''), (''licenses'',
       JArray [JObject [(''expression'', JString ''Apache-2.0'')]]),
       (''externalReferences'', JNull)]])]"

text \<open>One component without a license and with an empty purl.\<close>

definition cdx_empty_purl :: string where
  \<open>cdx_empty_purl =
     ''{"bomFormat":"CycloneDX","specVersion":"1.4","components":[{"type":"library","na'' @
     ''me":"express","purl":""}]}''\<close>

definition cdx_empty_purl_json :: json where
  "cdx_empty_purl_json =
     JObject [(''bomFormat'', JString ''CycloneDX''), (''specVersion'',
       JString ''1.4''), (''components'', JArray [JObject [(''type'',
       JString ''library''), (''name'', JString ''express''), (''purl'',
       JString '''')]])]"

text \<open>What the enricher returns for it when the lookup fails.\<close>

definition cdx_empty_purl_out :: string where
  \<open>cdx_empty_purl_out =
     ''{"bomFormat":"CycloneDX","specVersion":"1.4","components":[{"bom-ref":"","name":'' @
     ''"express","version":"","purl":"","externalReferences":null}]}''\<close>

definition cdx_empty_purl_out_json :: json where
  "cdx_empty_purl_out_json =
     JObject [(''bomFormat'', JString ''CycloneDX''), (''specVersion'',
       JString ''1.4''), (''components'', JArray [JObject [(''bom-ref'', JString ''''),
       (''name'', JString ''express''), (''version'', JString ''''), (''purl'',
       JString ''''), (''externalReferences'', JNull)]])]"

text \<open>Two packages without a license, the first without a purl.\<close>

definition spdx_two :: string where
  \<open>spdx_two =
     ''{"spdxVersion":"SPDX-2.3","SPDXID":"SPDXRef-DOCUMENT","packages":[{"SPDXID":"SPD'' @
     ''XRef-A","name":"a"},{"SPDXID":"SPDXRef-B","name":"b","externalRefs":[{"reference'' @
     ''Category":"PACKAGE-MANAGER","referenceType":"purl","referenceLocator":"pkg:npm/b'' @
     ''@1.0.0"}]}]}''\<close>

definition spdx_two_json :: json where
  "spdx_two_json =
     JObject [(''spdxVersion'', JString ''SPDX-2.3''), (''SPDXID'',
       JString ''SPDXRef-DOCUMENT''), (''packages'', JArray [JObject [(''SPDXID'',
       JString ''SPDXRef-A''), (''name'', JString ''a'')], JObject [(''SPDXID'',
       JString ''SPDXRef-B''), (''name'', JString ''b''), (''externalRefs'',
       JArray [JObject [(''referenceCategory'', JString ''PACKAGE-MANAGER''),
       (''referenceType'', JString ''purl''), (''referenceLocator'',
       JString ''pkg:npm/b@1.0.0'')]])]])]"

text \<open>What the enricher returns for it when the lookup fails.\<close>

definition spdx_two_out :: string where
  \<open>spdx_two_out =
     ''{"spdxVersion":"SPDX-2.3","SPDXID":"SPDXRef-DOCUMENT","packages":[{"SPDXID":"SPD'' @
     ''XRef-A","name":"a","versionInfo":"","homepage":"","licenseConcluded":"","license'' @
     ''Declared":"","externalRefs":null},{"SPDXID":"SPDXRef-B","name":"b","versionInfo"'' @
     '':"","homepage":"","licenseConcluded":"","licenseDeclared":"","externalRefs":[{"r'' @
     ''eferenceCategory":"PACKAGE-MANAGER","referenceType":"purl","referenceLocator":"p'' @
     ''kg:npm/b@1.0.0"}]}]}''\<close>

definition spdx_two_out_json :: json where
  "spdx_two_out_json =
     JObject [(''spdxVersion'', JString ''SPDX-2.3''), (''SPDXID'',
       JString ''SPDXRef-DOCUMENT''), (''packages'', JArray [JObject [(''SPDXID'',
       JString ''SPDXRef-A''), (''name'', JString ''a''), (''versionInfo'',
       JString ''''), (''homepage'', JString ''''), (''licenseConcluded'',
       JString ''''), (''licenseDeclared'', JString ''''), (''externalRefs'', JNull)],
       JObject [(''SPDXID'', JString ''SPDXRef-B''), (''name'', JString ''b''),
       (''versionInfo'', JString ''''), (''homepage'', JString ''''),
       (''licenseConcluded'', JString ''''), (''licenseDeclared'', JString ''''),
       (''externalRefs'', JArray [JObject [(''referenceCategory'',
       JString ''PACKAGE-MANAGER''), (''referenceType'', JString ''purl''),
       (''referenceLocator'', JString ''pkg:npm/b@1.0.0'')]])]])]"

text \<open>Three packages without a license, each with a purl.\<close>

definition spdx_three :: string where
  \<open>spdx_three =
     ''{"spdxVersion":"SPDX-2.3","dataLicense":"CC0-1.0","SPDXID":"SPDXRef-DOCUMENT","n'' @
     ''ame":"test","packages":[{"SPDXID":"SPDXRef-Package1","name":"pkg1","externalRefs'' @
     ''":[{"referenceCategory":"PACKAGE-MANAGER","referenceType":"purl","referenceLocat'' @
     ''or":"pkg:npm/pkg1@1.0.0"}]},{"SPDXID":"SPDXRef-Package2","name":"pkg2","external'' @
     ''Refs":[{"referenceCategory":"PACKAGE-MANAGER","referenceType":"purl","referenceL'' @
     ''ocator":"pkg:npm/pkg2@1.0.0"}]},{"SPDXID":"SPDXRef-Package3","name":"pkg3","exte'' @
     ''rnalRefs":[{"referenceCategory":"PACKAGE-MANAGER","referenceType":"purl","refere'' @
     ''nceLocator":"pkg:npm/pkg3@1.0.0"}]}]}''\<close>

definition spdx_three_json :: json where
  "spdx_three_json =
     JObject [(''spdxVersion'', JString ''SPDX-2.3''), (''dataLicense'',
       JString ''CC0-1.0''), (''SPDXID'', JString ''SPDXRef-DOCUMENT''), (''name'',
       JString ''test''), (''packages'', JArray [JObject [(''SPDXID'',
       JString ''SPDXRef-Package1''), (''name'', JString ''pkg1''), (''externalRefs'',
       JArray [JObject [(''referenceCategory'', JString ''PACKAGE-MANAGER''),
       (''referenceType'', JString ''purl''), (''referenceLocator'',
       JString ''pkg:npm/pkg1@1.0.0'')]])], JObject [(''SPDXID'',
       JString ''SPDXRef-Package2''), (''name'', JString ''pkg2''), (''externalRefs'',
       JArray [JObject [(''referenceCategory'', JString ''PACKAGE-MANAGER''),
       (''referenceType'', JString ''purl''), (''referenceLocator'',
       JString ''pkg:npm/pkg2@1.0.0'')]])], JObject [(''SPDXID'',
       JString ''SPDXRef-Package3''), (''name'', JString ''pkg3''), (''externalRefs'',
       JArray [JObject [(''referenceCategory'', JString ''PACKAGE-MANAGER''),
       (''referenceType'', JString ''purl''), (''referenceLocator'',
       JString ''pkg:npm/pkg3@1.0.0'')]])]])]"

text \<open>What the enricher returns for it when the second lookup fails and the others find MIT.\<close>

definition spdx_three_out :: string where
  \<open>spdx_three_out =
     ''{"spdxVersion":"SPDX-2.3","SPDXID":"SPDXRef-DOCUMENT","packages":[{"SPDXID":"SPD'' @
     ''XRef-Package1","name":"pkg1","versionInfo":"","homepage":"","licenseConcluded":"'' @
     ''MIT","licenseDeclared":"MIT","externalRefs":[{"referenceCategory":"PACKAGE-MANAG'' @
     ''ER","referenceType":"purl","referenceLocator":"pkg:npm/pkg1@1.0.0"}]},{"SPDXID":'' @
     ''"SPDXRef-Package2","name":"pkg2","versionInfo":"","homepage":"","licenseConclude'' @
     ''d":"","licenseDeclared":"","externalRefs":[{"referenceCategory":"PACKAGE-MANAGER'' @
     ''","referenceType":"purl","referenceLocator":"pkg:npm/pkg2@1.0.0"}]},{"SPDXID":"S'' @
     ''PDXRef-Package3","name":"pkg3","versionInfo":"","homepage":"","licenseConcluded"'' @
     '':"MIT","licenseDeclared":"MIT","externalRefs":[{"referenceCategory":"PACKAGE-MAN'' @
     ''AGER","referenceType":"purl","referenceLocator":"pkg:npm/pkg3@1.0.0"}]}]}''\<close>

definition spdx_three_out_json :: json where
  "spdx_three_out_json =
     JObject [(''spdxVersion'', JString ''SPDX-2.3''), (''SPDXID'',
       JString ''SPDXRef-DOCUMENT''), (''packages'', JArray [JObject [(''SPDXID'',
       JString ''SPDXRef-Package1''), (''name'', JString ''pkg1''), (''versionInfo'',
       JString ''''), (''homepage'', JString ''''), (''licenseConcluded'',
       JString ''MIT''), (''licenseDeclared'', JString ''MIT''), (''externalRefs'',
       JArray [JObject [(''referenceCategory'', JString ''PACKAGE-MANAGER''),
       (''referenceType'', JString ''purl''), (''referenceLocator'',
       JString ''pkg:npm/pkg1@1.0.0'')]])], JObject [(''SPDXID'',
       JString ''SPDXRef-Package2''), (''name'', JString ''pkg2''), (''versionInfo'',
       JString ''''), (''homepage'', JString ''''), (''licenseConcluded'',
       JString ''''), (''licenseDeclared'', JString ''''), (''externalRefs'',
       JArray [JObject [(''referenceCategory'', JString ''PACKAGE-MANAGER''),
       (''referenceType'', JString ''purl''), (''referenceLocator'',
       JString ''pkg:npm/pkg2@1.0.0'')]])], JObject [(''SPDXID'',
       JString ''SPDXRef-Package3''), (''name'', JString ''pkg3''), (''versionInfo'',
       JString ''''), (''homepage'', JString ''''), (''licenseConcluded'',
       JString ''MIT''), (''licenseDeclared'', JString ''MIT''), (''externalRefs'',
       JArray [JObject [(''referenceCategory'', JString ''PACKAGE-MANAGER''),
       (''referenceType'', JString ''purl''), (''referenceLocator'',
       JString ''pkg:npm/pkg3@1.0.0'')]])]])]"

text \<open>A response whose first result has no license and whose second has one.\<close>

definition lookup_first_empty :: string where
  \<open>lookup_first_empty =
     ''[{"normalized_licenses":[]},{"normalized_licenses":["MIT"]}]''\<close>

definition lookup_first_empty_json :: json where
  "lookup_first_empty_json =
     JArray [JObject [(''normalized_licenses'', JArray [])],
       JObject [(''normalized_licenses'', JArray [JString ''MIT''])]]"

text \<open>A response whose only result has no license.\<close>

definition lookup_no_license :: string where
  \<open>lookup_no_license =
     ''[{"normalized_licenses":[]}]''\<close>

definition lookup_no_license_json :: json where
  "lookup_no_license_json =
     JArray [JObject [(''normalized_licenses'', JArray [])]]"

text \<open>A response whose first result has two licenses.\<close>

definition lookup_two_licenses :: string where
  \<open>lookup_two_licenses =
     ''[{"normalized_licenses":["Apache-2.0","MIT"]}]''\<close>

definition lookup_two_licenses_json :: json where
  "lookup_two_licenses_json =
     JArray [JObject [(''normalized_licenses'', JArray [JString ''Apache-2.0'',
       JString ''MIT''])]]"

text \<open>A network library that escapes the one purl of the examples, builds every request,
  and decodes the listed bodies; and a client whose server answers every request with a
  given status and body.\<close>

definition example_net :: net_lib where
  "example_net =
     \<lparr>QueryEscape =
        (\<lambda>s. if s = ''pkg:npm/test@1.0.0'' then ''pkg%3Anpm%2Ftest%401.0.0'' else s),
      NewRequestWithContext =
        (\<lambda>method url. Inr \<lparr>req_Method = method, req_URL = url, req_UserAgent = []\<rparr>),
      Decode =
        (\<lambda>b. case map_of [(lookup_first_empty, lookup_first_empty_json),
                              (lookup_no_license, lookup_no_license_json),
                              (lookup_two_licenses, lookup_two_licenses_json)] b of
               Some j \<Rightarrow> Inr j
             | None \<Rightarrow> Inl (New ''invalid character''))\<rparr>"

definition answering :: "int \<Rightarrow> string \<Rightarrow> Client" where
  "answering status body =
     \<lparr>baseURL = ''https://packages.ecosyste.ms'',
      client = (\<lambda>req. Inr \<lparr>StatusCode = status, Body = body\<rparr>),
      email = []\<rparr>"

definition example_lib :: json_lib where
  "example_lib = table_lib
     [(wrapped_empty_spdx, wrapped_empty_spdx_json),
      (empty_cdx, empty_cdx_json),
      (spdx_licensed, spdx_licensed_json),
      (spdx_licensed_out, spdx_licensed_out_json),
      (cdx_licensed, cdx_licensed_json),
      (cdx_licensed_out, cdx_licensed_out_json),
      (cdx_empty_purl, cdx_empty_purl_json),
      (cdx_empty_purl_out, cdx_empty_purl_out_json),
      (spdx_two, spdx_two_json),
      (spdx_two_out, spdx_two_out_json),
      (spdx_three, spdx_three_json),
      (spdx_three_out, spdx_three_out_json)]"

text \<open>Enrichers whose provider answers \<open>MIT\<close> and whose cache always misses, and the
  documents the two licensed examples parse to.\<close>

definition mit_spdx :: "unit SPDXEnricher" where
  "mit_spdx = \<lparr>spdx_provider = mockProvider (Some (\<lambda>purl. Inr ''MIT'')),
      spdx_cache = Some (mockCache None None), spdx_cacheTTL = 3600\<rparr>"

definition mit_cdx :: "unit CycloneDXEnricher" where
  "mit_cdx = \<lparr>cdx_provider = mockProvider (Some (\<lambda>purl. Inr ''MIT'')),
      cdx_cache = Some (mockCache None None), cdx_cacheTTL = 3600\<rparr>"

definition spdx_licensed_doc :: Document where
  "spdx_licensed_doc =
     \<lparr>SPDXVersion = ''SPDX-2.3'', doc_SPDXID = ''SPDXRef-DOCUMENT'',
      Packages = Some [\<lparr>SPDXID = ''SPDXRef-Package'', Name = ''express'',
        VersionInfo = [], Homepage = [], LicenseConcluded = ''Apache-2.0'',
        LicenseDeclared = [],
        ExternalRefs = Some [\<lparr>ReferenceCategory = ''PACKAGE-MANAGER'',
          ReferenceType = ''purl'', ReferenceLocator = ''pkg:npm/express@4.17.1''\<rparr>]\<rparr>]\<rparr>"

definition cdx_licensed_doc :: BOM where
  "cdx_licensed_doc =
     \<lparr>BOMFormat = ''CycloneDX'', SpecVersion = ''1.4'',
      Components = Some [\<lparr>BOMRef = [], comp_Name = ''express'', Version = [],
        Purl = ''pkg:npm/express@4.17.1'',
        Licenses = Some [\<lparr>License = None, Expression = ''Apache-2.0''\<rparr>],
        ExternalReferences = None\<rparr>]\<rparr>"


definition failing_spdx :: "unit SPDXEnricher" where
  "failing_spdx = \<lparr>spdx_provider = mockProvider (Some (\<lambda>purl. Inl (New ''API error''))),
      spdx_cache = Some (mockCache None None), spdx_cacheTTL = 3600\<rparr>"

definition empty_purl_cdx :: "unit CycloneDXEnricher" where
  "empty_purl_cdx =
     \<lparr>cdx_provider =
        mockProvider (Some (\<lambda>purl. if purl = [] then Inl (New ''empty purl'') else Inr ''MIT'')),
      cdx_cache = Some (mockCache None None), cdx_cacheTTL = 3600\<rparr>"

definition spdx_two_doc :: Document where
  "spdx_two_doc =
     \<lparr>SPDXVersion = ''SPDX-2.3'', doc_SPDXID = ''SPDXRef-DOCUMENT'',
      Packages = Some
        [\<lparr>SPDXID = ''SPDXRef-A'', Name = ''a'', VersionInfo = [], Homepage = [],
          LicenseConcluded = [], LicenseDeclared = [], ExternalRefs = None\<rparr>,
         \<lparr>SPDXID = ''SPDXRef-B'', Name = ''b'', VersionInfo = [], Homepage = [],
          LicenseConcluded = [], LicenseDeclared = [],
          ExternalRefs = Some [\<lparr>ReferenceCategory = ''PACKAGE-MANAGER'',
            ReferenceType = ''purl'', ReferenceLocator = ''pkg:npm/b@1.0.0''\<rparr>]\<rparr>]\<rparr>"

definition cdx_empty_purl_doc :: BOM where
  "cdx_empty_purl_doc =
     \<lparr>BOMFormat = ''CycloneDX'', SpecVersion = ''1.4'',
      Components = Some [\<lparr>BOMRef = [], comp_Name = ''express'', Version = [], Purl = [],
        Licenses = None, ExternalReferences = None\<rparr>]\<rparr>"

text \<open>The enricher of \<^verbatim>\<open>TestSPDXEnricher_Enrich_ProviderError\<close>: the provider fails for
  the purl of the second package and answers \<open>MIT\<close> for every other; the document of that
  test; and the record logged for the lookup that fails.\<close>

definition pkg2_failing_spdx :: "unit SPDXEnricher" where
  "pkg2_failing_spdx =
     \<lparr>spdx_provider =
        mockProvider (Some (\<lambda>purl. if purl = ''pkg:npm/pkg2@1.0.0''
                                    then Inl (New ''API error'') else Inr ''MIT'')),
      spdx_cache = Some (mockCache None None), spdx_cacheTTL = 86400000000000\<rparr>"

definition spdx_three_doc :: Document where
  "spdx_three_doc =
     \<lparr>SPDXVersion = ''SPDX-2.3'', doc_SPDXID = ''SPDXRef-DOCUMENT'',
      Packages = Some
        [\<lparr>SPDXID = ''SPDXRef-Package1'', Name = ''pkg1'', VersionInfo = [], Homepage = [],
          LicenseConcluded = [], LicenseDeclared = [],
          ExternalRefs = Some [\<lparr>ReferenceCategory = ''PACKAGE-MANAGER'',
            ReferenceType = ''purl'', ReferenceLocator = ''pkg:npm/pkg1@1.0.0''\<rparr>]\<rparr>,
         \<lparr>SPDXID = ''SPDXRef-Package2'', Name = ''pkg2'', VersionInfo = [], Homepage = [],
          LicenseConcluded = [], LicenseDeclared = [],
          ExternalRefs = Some [\<lparr>ReferenceCategory = ''PACKAGE-MANAGER'',
            ReferenceType = ''purl'', ReferenceLocator = ''pkg:npm/pkg2@1.0.0''\<rparr>]\<rparr>,
         \<lparr>SPDXID = ''SPDXRef-Package3'', Name = ''pkg3'', VersionInfo = [], Homepage = [],
          LicenseConcluded = [], LicenseDeclared = [],
          ExternalRefs = Some [\<lparr>ReferenceCategory = ''PACKAGE-MANAGER'',
            ReferenceType = ''purl'', ReferenceLocator = ''pkg:npm/pkg3@1.0.0''\<rparr>]\<rparr>]\<rparr>"

definition pkg2_failed_rec :: logrec where
  "pkg2_failed_rec =
     \<lparr>log_msg = ''failed to get license for item'', log_purl = Some ''pkg:npm/pkg2@1.0.0'',
      log_id = ''SPDXRef-Package2'',
      log_error = Errorf ''failed to get license from provider: %w'' [New ''API error'']\<rparr>"

definition missing_purl_rec :: logrec where
  "missing_purl_rec =
     \<lparr>log_msg = ''failed to get purl for item'', log_purl = None, log_id = ''SPDXRef-A'',
      log_error = New ''no PURL found for package with SPDX ID %s''\<rparr>"

definition failed_lookup_rec :: logrec where
  "failed_lookup_rec =
     \<lparr>log_msg = ''failed to get license for item'', log_purl = Some ''pkg:npm/b@1.0.0'',
      log_id = ''SPDXRef-B'',
      log_error = Errorf ''failed to get license from provider: %w'' [New ''API error'']\<rparr>"

definition empty_purl_rec :: logrec where
  "empty_purl_rec =
     \<lparr>log_msg = ''failed to get license for item'', log_purl = Some [],
      log_id = [],
      log_error = Errorf ''failed to get license from provider: %w'' [New ''empty purl'']\<rparr>"

text \<open>A codec for cache records that knows a given list of records with their JSON
  texts.\<close>

definition table_codec :: "(bboltEntry \<times> string) list \<Rightarrow> entry_codec" where
  "table_codec tab =
     \<lparr>Marshal_entry = (\<lambda>e. case map_of tab e of
                              Some d \<Rightarrow> Inr d
                            | None \<Rightarrow> Inl (New ''unsupported value'')),
      Unmarshal_entry = (\<lambda>d. case map_of (map (\<lambda>(e, d). (d, e)) tab) d of
                                Some e \<Rightarrow> Inr e
                              | None \<Rightarrow> Inl (New ''invalid character''))\<rparr>"

text \<open>The record of \<open>MIT\<close> that expires one microsecond after the epoch, and the one that
  never expires.\<close>

definition example_codec :: entry_codec where
  \<open>example_codec = table_codec
     [(\<lparr>Value = ''MIT'', Expiration = Some 1000\<rparr>,
       ''{"value":"MIT","expiration":"1970-01-01T00:00:00.000001Z"}''),
      (\<lparr>Value = ''MIT'', Expiration = None\<rparr>,
       ''{"value":"MIT","expiration":"0001-01-01T00:00:00Z"}'')]\<close>

text \<open>The member of a JSON object under a key.\<close>

definition member_of :: "string \<Rightarrow> json \<Rightarrow> json option" where
  "member_of k j = (case j of JObject kvs \<Rightarrow> map_of (rev kvs) k | other \<Rightarrow> None)"

text \<open>The fields of a package and of a component that \<open>SetLicense\<close> does not write.\<close>

definition untouched_Package ::
  "Package \<Rightarrow> string \<times> string \<times> string \<times> string \<times> ExternalRef slice" where
  "untouched_Package p = (SPDXID p, Name p, VersionInfo p, Homepage p, ExternalRefs p)"

definition untouched_Component ::
  "Component \<Rightarrow> string \<times> string \<times> string \<times> string \<times> ExternalReference slice" where
  "untouched_Component c = (BOMRef c, comp_Name c, Version c, Purl c, ExternalReferences c)"

text \<open>What a marshalled component reads back as: an empty \<open>licenses\<close> array is left out
  by \<^verbatim>\<open>omitempty\<close> and comes back as nil.\<close>

definition reread_Component :: "Component \<Rightarrow> Component" where
  "reread_Component c = c\<lparr>Licenses := (if len (Licenses c) = 0 then None else Licenses c)\<rparr>"

section \<open>Properties\<close>

subsection \<open>License fields of an SPDX package\<close>

text \<open>
  Claim C6.  For every SPDX package, \<open>HasLicense\<close> is true exactly when
  \<open>licenseConcluded\<close> or \<open>licenseDeclared\<close> is meaningful (non-empty and neither
  \<open>NONE\<close> nor \<open>NOASSERTION\<close>).  \<open>SetLicense L\<close> always writes \<open>licenseConcluded = L\<close>,
  writes \<open>licenseDeclared = L\<close> exactly when the declared field was empty (which an absent
  field is), \<open>NONE\<close> or \<open>NOASSERTION\<close>, and changes nothing else.
\<close>

theorem spdx_license_fields:
  "Package_HasLicense p = (meaningful (LicenseConcluded p) \<or> meaningful (LicenseDeclared p)) \<and>
   Package_SetLicense L p =
     p\<lparr>LicenseConcluded := L,
       LicenseDeclared :=
         (if LicenseDeclared p = [] \<or> LicenseDeclared p = ''NONE'' \<or>
             LicenseDeclared p = ''NOASSERTION''
          then L else LicenseDeclared p)\<rparr>"
  by (simp add: Package_HasLicense_def Package_SetLicense_def meaningful_def
      spdxLicenseNone_def spdxLicenseNoAssertion_def Let_def)

theorem spdx_license_fields_witness:
  "Package_HasLicense (zero_Package\<lparr>LicenseDeclared := ''MIT''\<rparr>) \<and>
   \<not> Package_HasLicense
       (zero_Package\<lparr>LicenseConcluded := ''NONE'', LicenseDeclared := ''NOASSERTION''\<rparr>) \<and>
   Package_SetLicense ''MIT'' (zero_Package\<lparr>LicenseDeclared := ''NOASSERTION''\<rparr>) =
     zero_Package\<lparr>LicenseConcluded := ''MIT'', LicenseDeclared := ''MIT''\<rparr> \<and>
   Package_SetLicense ''MIT'' (zero_Package\<lparr>LicenseDeclared := ''GPL''\<rparr>) =
     zero_Package\<lparr>LicenseConcluded := ''MIT'', LicenseDeclared := ''GPL''\<rparr>"
  using spdx_license_fields [of "zero_Package\<lparr>LicenseDeclared := ''MIT''\<rparr>"]
    spdx_license_fields
      [of "zero_Package\<lparr>LicenseConcluded := ''NONE'', LicenseDeclared := ''NOASSERTION''\<rparr>"]
    spdx_license_fields [of "zero_Package\<lparr>LicenseDeclared := ''NOASSERTION''\<rparr>" "''MIT''"]
    spdx_license_fields [of "zero_Package\<lparr>LicenseDeclared := ''GPL''\<rparr>" "''MIT''"]
  by (simp add: meaningful_def zero_Package_def)

subsection \<open>License choices of a CycloneDX component\<close>

lemma any_choice_set_iff: "any_choice_set cs = (\<exists>ch \<in> set cs. choice_has_value ch)"
  by (induction cs) (auto simp: choice_has_value_def split: option.splits)

text \<open>
  Claim C7.  For every CycloneDX component, \<open>HasLicense\<close> is true exactly when the
  \<open>licenses\<close> array has an element with a non-empty expression or with a nested license
  object whose id, name or expression is non-empty.  \<open>SetLicense L\<close> appends the choice
  \<open>{expression: L}\<close> after the choices already there (none when the array was absent),
  leaving them, empty ones included, as they are.
\<close>

theorem cyclonedx_license_fields:
  "Component_HasLicense c = (\<exists>ch \<in> set (elems (Licenses c)). choice_has_value ch) \<and>
   Component_SetLicense L c =
     c\<lparr>Licenses := Some (elems (Licenses c) @ [\<lparr>License = None, Expression = L\<rparr>])\<rparr>"
  by (auto simp: Component_HasLicense_def HasComponentLicense_def any_choice_set_iff
      Component_SetLicense_def append_slice_def len_def)

theorem cyclonedx_license_fields_witness:
  "\<not> Component_HasLicense
       (zero_Component\<lparr>Licenses := Some [\<lparr>License = Some zero_License, Expression = []\<rparr>]\<rparr>) \<and>
   Component_SetLicense ''MIT''
       (zero_Component\<lparr>Licenses := Some [\<lparr>License = Some zero_License, Expression = []\<rparr>]\<rparr>) =
     zero_Component\<lparr>Licenses := Some [\<lparr>License = Some zero_License, Expression = []\<rparr>,
        \<lparr>License = None, Expression = ''MIT''\<rparr>]\<rparr> \<and>
   Component_SetLicense ''MIT'' zero_Component =
     zero_Component\<lparr>Licenses := Some [\<lparr>License = None, Expression = ''MIT''\<rparr>]\<rparr>"
  using cyclonedx_license_fields
      [of "zero_Component\<lparr>Licenses := Some [\<lparr>License = Some zero_License, Expression = []\<rparr>]\<rparr>"
          "''MIT''"]
    cyclonedx_license_fields [of zero_Component "''MIT''"]
  by (simp add: choice_has_value_def zero_Component_def zero_License_def elems_def)

subsection \<open>The cache-through lookup\<close>

text \<open>
  Claim C2.  For every purl and every cache and provider: (i) when the cache read
  succeeds, the cached value is returned and the only call made is the cache read;
  (ii) when the cache read fails with an error that is not a miss, that error is
  returned (wrapped) and the only call made is the cache read; (iii) on a miss, when the
  provider returns a non-empty license and a cache is configured, \<open>SetWithTTL\<close> is called
  with the purl, the license and the configured TTL before returning, and when it fails
  its error is returned although the lookup succeeded; (iv) an empty license from the
  provider is returned as it is and no write to the cache is made.
\<close>

theorem cache_through_lookup:
  "(opt_Cache opts = Some c \<and> cache_Get c (opt_Purl opts) (world s) = (Inr v, w) \<longrightarrow>
      Get opts s = (Inr v, s\<lparr>world := w, calls := calls s @ [CacheGet (opt_Purl opts)]\<rparr>)) \<and>
   (opt_Cache opts = Some c \<and> cache_Get c (opt_Purl opts) (world s) = (Inl err, w) \<and>
    \<not> errors_Is err ErrCacheMiss \<longrightarrow>
      Get opts s = (Inl (Errorf ''failed to get license from cache: %w'' [err]),
                    s\<lparr>world := w, calls := calls s @ [CacheGet (opt_Purl opts)]\<rparr>)) \<and>
   (opt_Cache opts = Some c \<and> cache_Get c (opt_Purl opts) (world s) = (Inl err, w) \<and>
    errors_Is err ErrCacheMiss \<and> opt_Provider opts (opt_Purl opts) w = (Inr lic, w1) \<and>
    lic \<noteq> [] \<and> cache_SetWithTTL c (opt_Purl opts) lic (opt_CacheTTL opts) w1 = (r, w2) \<longrightarrow>
      Get opts s =
        ((case r of
            None \<Rightarrow> Inr lic
          | Some setErr \<Rightarrow> Inl (Errorf ''failed to set license in cache: %w'' [setErr])),
         s\<lparr>world := w2,
           calls := calls s @ [CacheGet (opt_Purl opts), ProviderGet (opt_Purl opts),
             CacheSetWithTTL (opt_Purl opts) lic (opt_CacheTTL opts)]\<rparr>)) \<and>
   (opt_Cache opts = Some c \<and> cache_Get c (opt_Purl opts) (world s) = (Inl err, w) \<and>
    errors_Is err ErrCacheMiss \<and> opt_Provider opts (opt_Purl opts) w = (Inr [], w1) \<longrightarrow>
      Get opts s =
        (Inr [], s\<lparr>world := w1,
           calls := calls s @ [CacheGet (opt_Purl opts), ProviderGet (opt_Purl opts)]\<rparr>)) \<and>
   (opt_Cache opts = None \<and> opt_Provider opts (opt_Purl opts) (world s) = (Inr [], w1) \<longrightarrow>
      Get opts s = (Inr [], s\<lparr>world := w1, calls := calls s @ [ProviderGet (opt_Purl opts)]\<rparr>))"
  by (auto simp: Get_def Get_from_provider_def call_cache_Get_def call_provider_Get_def
      call_cache_SetWithTTL_def split: option.splits)

theorem cache_through_lookup_witness:
  "Get \<lparr>opt_Purl = ''pkg:npm/express@4.17.1'',
        opt_Provider = mockProvider (Some (\<lambda>purl. Inr ''MIT'')),
        opt_Cache = Some (mockCache (Some (\<lambda>key. Inr ''Apache-2.0'')) None),
        opt_CacheTTL = 3600\<rparr> state0 =
     (Inr ''Apache-2.0'', state0\<lparr>calls := [CacheGet ''pkg:npm/express@4.17.1'']\<rparr>) \<and>
   Get \<lparr>opt_Purl = ''pkg:npm/express@4.17.1'',
        opt_Provider = mockProvider (Some (\<lambda>purl. Inr ''MIT'')),
        opt_Cache = Some (mockCache (Some (\<lambda>key. Inl ErrCacheClosed)) None),
        opt_CacheTTL = 3600\<rparr> state0 =
     (Inl (Errorf ''failed to get license from cache: %w'' [ErrCacheClosed]),
      state0\<lparr>calls := [CacheGet ''pkg:npm/express@4.17.1'']\<rparr>) \<and>
   Get \<lparr>opt_Purl = ''pkg:npm/express@4.17.1'',
        opt_Provider = mockProvider (Some (\<lambda>purl. Inr ''MIT'')),
        opt_Cache = Some (mockCache None (Some (\<lambda>key v ttl. Some (New ''disk full'')))),
        opt_CacheTTL = 3600\<rparr> state0 =
     (Inl (Errorf ''failed to set license in cache: %w'' [New ''disk full'']),
      state0\<lparr>calls := [CacheGet ''pkg:npm/express@4.17.1'',
        ProviderGet ''pkg:npm/express@4.17.1'',
        CacheSetWithTTL ''pkg:npm/express@4.17.1'' ''MIT'' 3600]\<rparr>) \<and>
   Get \<lparr>opt_Purl = ''pkg:npm/express@4.17.1'',
        opt_Provider = mockProvider None,
        opt_Cache = Some (mockCache None None),
        opt_CacheTTL = 3600\<rparr> state0 =
     (Inr [], state0\<lparr>calls := [CacheGet ''pkg:npm/express@4.17.1'',
        ProviderGet ''pkg:npm/express@4.17.1'']\<rparr>) \<and>
   Get \<lparr>opt_Purl = ''pkg:npm/express@4.17.1'',
        opt_Provider = mockProvider None,
        opt_Cache = None,
        opt_CacheTTL = 3600\<rparr> state0 =
     (Inr [], state0\<lparr>calls := [ProviderGet ''pkg:npm/express@4.17.1'']\<rparr>)"
  using
    cache_through_lookup
      [where opts = "\<lparr>opt_Purl = ''pkg:npm/express@4.17.1'',
          opt_Provider = mockProvider (Some (\<lambda>purl. Inr ''MIT'')),
          opt_Cache = Some (mockCache (Some (\<lambda>key. Inr ''Apache-2.0'')) None),
          opt_CacheTTL = 3600\<rparr>"
        and s = state0 and c = "mockCache (Some (\<lambda>key. Inr ''Apache-2.0'')) None"
        and v = "''Apache-2.0''" and w = "()"]
    cache_through_lookup
      [where opts = "\<lparr>opt_Purl = ''pkg:npm/express@4.17.1'',
          opt_Provider = mockProvider (Some (\<lambda>purl. Inr ''MIT'')),
          opt_Cache = Some (mockCache (Some (\<lambda>key. Inl ErrCacheClosed)) None),
          opt_CacheTTL = 3600\<rparr>"
        and s = state0 and c = "mockCache (Some (\<lambda>key. Inl ErrCacheClosed)) None"
        and err = ErrCacheClosed and w = "()"]
    cache_through_lookup
      [where opts = "\<lparr>opt_Purl = ''pkg:npm/express@4.17.1'',
          opt_Provider = mockProvider (Some (\<lambda>purl. Inr ''MIT'')),
          opt_Cache = Some (mockCache None (Some (\<lambda>key v ttl. Some (New ''disk full'')))),
          opt_CacheTTL = 3600\<rparr>"
        and s = state0 and c = "mockCache None (Some (\<lambda>key v ttl. Some (New ''disk full'')))"
        and err = ErrCacheMiss and w = "()" and lic = "''MIT''" and ?w1.0 = "()"
        and r = "Some (New ''disk full'')" and ?w2.0 = "()"]
    cache_through_lookup
      [where opts = "\<lparr>opt_Purl = ''pkg:npm/express@4.17.1'',
          opt_Provider = mockProvider None,
          opt_Cache = Some (mockCache None None),
          opt_CacheTTL = 3600\<rparr>"
        and s = state0 and c = "mockCache None None"
        and err = ErrCacheMiss and w = "()" and ?w1.0 = "()"]
    cache_through_lookup
      [where opts = "\<lparr>opt_Purl = ''pkg:npm/express@4.17.1'',
          opt_Provider = mockProvider None,
          opt_Cache = None,
          opt_CacheTTL = 3600\<rparr>"
        and s = state0 and ?w1.0 = "()"]
  by (simp add: mockCache_def mockProvider_def state0_def)

subsection \<open>The worker pool leaves other slots alone\<close>

lemma work_licensed:
  "HasLicense ops (items ! job_item j) \<Longrightarrow>
   work ops prov c ttl j (items, s) = (items, s)"
  by (simp add: work_def)

lemma work_length: "length (fst (work ops prov c ttl j (items, s))) = length items"
  by (simp add: work_def split: prod.splits sum.splits)

lemma work_other:
  "i \<noteq> job_item j \<Longrightarrow> fst (work ops prov c ttl j (items, s)) ! i = items ! i"
  by (simp add: work_def split: prod.splits sum.splits)



lemma drain_length: "length (fst (drain ops prov c ttl js (items, s))) = length items"
proof (induction js arbitrary: items s)
  case Nil
  then show ?case by simp
next
  case (Cons j js)
  obtain items1 s1 where w: "work ops prov c ttl j (items, s) = (items1, s1)"
    by (cases "work ops prov c ttl j (items, s)")
  have "length items1 = length items"
    using work_length [of ops prov c ttl j items s] w by simp
  then show ?case using Cons.IH [of items1 s1] w by simp
qed

lemma drain_untouched:
  "\<forall>j \<in> set js. job_item j \<noteq> i \<Longrightarrow>
   fst (drain ops prov c ttl js (items, s)) ! i = items ! i"
proof (induction js arbitrary: items s)
  case Nil
  then show ?case by simp
next
  case (Cons j js)
  obtain items1 s1 where w: "work ops prov c ttl j (items, s) = (items1, s1)"
    by (cases "work ops prov c ttl j (items, s)")
  have "items1 ! i = items ! i"
    using work_other [of i j ops prov c ttl items s] w Cons.prems by simp
  then show ?case using Cons.IH [of items1 s1] w Cons.prems by simp
qed

lemma processItemsParallel_no_error:
  "fst (processItemsParallel ops items par prov c ttl s) = None"
  by (simp add: processItemsParallel_def split: prod.splits)

lemma processItemsParallel_items:
  "fst (snd (processItemsParallel ops items par prov c ttl s)) =
     (if par \<le> 0 then items
      else fst (drain ops prov c ttl
                  (schedule (snd (queue_jobs ops (enumerate 0 items) s))
                     (fst (queue_jobs ops (enumerate 0 items) s)))
                  (items, snd (queue_jobs ops (enumerate 0 items) s))))"
  by (simp add: processItemsParallel_def split: prod.splits)

lemma processItemsParallel_state:
  "snd (snd (processItemsParallel ops items par prov c ttl s)) =
     (if par \<le> 0 then snd (queue_jobs ops (enumerate 0 items) s)
      else snd (drain ops prov c ttl
                  (schedule (snd (queue_jobs ops (enumerate 0 items) s))
                     (fst (queue_jobs ops (enumerate 0 items) s)))
                  (items, snd (queue_jobs ops (enumerate 0 items) s))))"
  by (simp add: processItemsParallel_def split: prod.splits)

lemma processItemsParallel_length:
  "length (fst (snd (processItemsParallel ops items par prov c ttl s))) = length items"
  by (simp add: processItemsParallel_items drain_length)


subsection \<open>Calls and log records of the worker pool\<close>

lemma Get_from_provider_calls:
  "\<exists>evs. calls (snd (Get_from_provider opts s)) = calls s @ ProviderGet (opt_Purl opts) # evs"
  by (auto simp: Get_from_provider_def call_provider_Get_def call_cache_SetWithTTL_def
      split: prod.splits sum.splits option.splits)

lemma Get_from_provider_logged: "logged (snd (Get_from_provider opts s)) = logged s"
  by (auto simp: Get_from_provider_def call_provider_Get_def call_cache_SetWithTTL_def
      split: prod.splits sum.splits option.splits)

lemma Get_logged: "logged (snd (Get opts s)) = logged s"
  by (auto simp: Get_def call_cache_Get_def Get_from_provider_logged
      split: prod.splits sum.splits option.splits)

lemma Get_calls_no_cache:
  "opt_Cache opts = None \<Longrightarrow>
   calls (snd (Get opts s)) = calls s @ [ProviderGet (opt_Purl opts)]"
  by (auto simp: Get_def Get_from_provider_def call_provider_Get_def
      split: prod.splits sum.splits option.splits)

lemma Get_calls_cache:
  "opt_Cache opts = Some c \<Longrightarrow>
   \<exists>evs. calls (snd (Get opts s)) = calls s @ CacheGet (opt_Purl opts) # evs"
proof -
  assume c: "opt_Cache opts = Some c"
  obtain r s1 where cg: "call_cache_Get c (opt_Purl opts) s = (r, s1)"
    by (cases "call_cache_Get c (opt_Purl opts) s")
  have s1: "calls s1 = calls s @ [CacheGet (opt_Purl opts)]"
    using cg by (auto simp: call_cache_Get_def split: prod.splits)
  obtain evs where "calls (snd (Get_from_provider opts s1)) =
      calls s1 @ ProviderGet (opt_Purl opts) # evs"
    using Get_from_provider_calls by blast
  then show ?thesis
    using c cg s1 by (auto simp: Get_def split: sum.splits)
qed

lemma Get_calls_grow: "\<exists>evs. calls (snd (Get opts s)) = calls s @ evs"
proof (cases "opt_Cache opts")
  case None
  then show ?thesis using Get_calls_no_cache by blast
next
  case (Some c)
  then show ?thesis using Get_calls_cache by blast
qed


lemma work_calls_grow:
  "\<exists>evs. calls (snd (work ops prov c ttl j (items, s))) = calls s @ evs"
proof (cases "HasLicense ops (items ! job_item j)")
  case True
  then show ?thesis by (simp add: work_licensed)
next
  case False
  obtain evs where "calls (snd (Get \<lparr>opt_Purl = job_purl j, opt_Provider = prov,
      opt_Cache = c, opt_CacheTTL = ttl\<rparr> s)) = calls s @ evs"
    using Get_calls_grow by blast
  then show ?thesis
    using False by (auto simp: work_def split: prod.splits sum.splits)
qed

lemma work_logged_grow:
  "\<exists>recs. logged (snd (work ops prov c ttl j (items, s))) = logged s @ recs"
proof (cases "HasLicense ops (items ! job_item j)")
  case True
  then show ?thesis by (simp add: work_licensed)
next
  case False
  have "logged (snd (Get \<lparr>opt_Purl = job_purl j, opt_Provider = prov,
      opt_Cache = c, opt_CacheTTL = ttl\<rparr> s)) = logged s"
    by (rule Get_logged)
  then show ?thesis
    using False by (auto simp: work_def split: prod.splits sum.splits)
qed

lemma drain_calls_grow:
  "\<exists>evs. calls (snd (drain ops prov c ttl js (items, s))) = calls s @ evs"
proof (induction js arbitrary: items s)
  case Nil
  then show ?case by simp
next
  case (Cons j js)
  obtain items1 s1 where w: "work ops prov c ttl j (items, s) = (items1, s1)"
    by (cases "work ops prov c ttl j (items, s)")
  obtain evs1 where e1: "calls s1 = calls s @ evs1"
    using work_calls_grow [of ops prov c ttl j items s] w by auto
  obtain evs2 where "calls (snd (drain ops prov c ttl js (items1, s1))) = calls s1 @ evs2"
    using Cons.IH by blast
  then show ?case using w e1 by simp
qed

lemma drain_logged_grow:
  "\<exists>recs. logged (snd (drain ops prov c ttl js (items, s))) = logged s @ recs"
proof (induction js arbitrary: items s)
  case Nil
  then show ?case by simp
next
  case (Cons j js)
  obtain items1 s1 where w: "work ops prov c ttl j (items, s) = (items1, s1)"
    by (cases "work ops prov c ttl j (items, s)")
  obtain r1 where e1: "logged s1 = logged s @ r1"
    using work_logged_grow [of ops prov c ttl j items s] w by auto
  obtain r2 where "logged (snd (drain ops prov c ttl js (items1, s1))) = logged s1 @ r2"
    using Cons.IH by blast
  then show ?case using w e1 by simp
qed

lemma work_first_call:
  assumes "\<not> HasLicense ops (items ! job_item j)"
  shows "\<exists>evs. calls (snd (work ops prov c ttl j (items, s))) =
           calls s @ first_call c (job_purl j) # evs"
proof -
  let ?o = "\<lparr>opt_Purl = job_purl j, opt_Provider = prov, opt_Cache = c, opt_CacheTTL = ttl\<rparr>"
  have "\<exists>evs. calls (snd (Get ?o s)) = calls s @ first_call c (job_purl j) # evs"
  proof (cases c)
    case None
    then show ?thesis using Get_calls_no_cache [of ?o s] by (simp add: first_call_def)
  next
    case (Some x)
    then show ?thesis using Get_calls_cache [of ?o x s] by (simp add: first_call_def)
  qed
  then show ?thesis
    using assms by (auto simp: work_def split: prod.splits sum.splits)
qed

lemma drain_visits:
  assumes "j \<in> set js" and "distinct (map job_item js)"
    and "\<not> HasLicense ops (items ! job_item j)"
  shows "first_call c (job_purl j) \<in> set (calls (snd (drain ops prov c ttl js (items, s))))"
  using assms
proof (induction js arbitrary: items s)
  case Nil
  then show ?case by simp
next
  case (Cons k js)
  obtain items1 s1 where w: "work ops prov c ttl k (items, s) = (items1, s1)"
    by (cases "work ops prov c ttl k (items, s)")
  show ?case
  proof (cases "j = k")
    case True
    obtain evs where "calls s1 = calls s @ first_call c (job_purl j) # evs"
      using work_first_call [of ops items j prov c ttl s] Cons.prems(3) w True by auto
    moreover obtain evs2 where
      "calls (snd (drain ops prov c ttl js (items1, s1))) = calls s1 @ evs2"
      using drain_calls_grow by blast
    ultimately show ?thesis using w by simp
  next
    case False
    then have jin: "j \<in> set js" using Cons.prems(1) by simp
    then have "job_item j \<in> job_item ` set js" by (rule imageI)
    moreover have "job_item k \<notin> job_item ` set js" using Cons.prems(2) by simp
    ultimately have "job_item j \<noteq> job_item k" by metis
    then have "items1 ! job_item j = items ! job_item j"
      using work_other [of "job_item j" k ops prov c ttl items s] w by simp
    then have "\<not> HasLicense ops (items1 ! job_item j)" using Cons.prems(3) by simp
    moreover have "distinct (map job_item js)" using Cons.prems(2) by simp
    ultimately have
      "first_call c (job_purl j) \<in> set (calls (snd (drain ops prov c ttl js (items1, s1))))"
      using Cons.IH jin by blast
    then show ?thesis using w by simp
  qed
qed

lemma queue_jobs_world:
  "world (snd (queue_jobs ops xs s)) = world s \<and> calls (snd (queue_jobs ops xs s)) = calls s \<and>
   schedule (snd (queue_jobs ops xs s)) = schedule s"
  by (induction ops xs s rule: queue_jobs.induct) (auto split: sum.splits prod.splits)

lemma queue_jobs_logged_grow:
  "\<exists>recs. logged (snd (queue_jobs ops xs s)) = logged s @ recs"
  by (induction ops xs s rule: queue_jobs.induct) (auto split: sum.splits prod.splits)

lemma queue_jobs_mem:
  "j \<in> set (fst (queue_jobs ops xs s)) \<longleftrightarrow>
   (\<exists>item. (job_item j, item) \<in> set xs \<and> GetPurl ops item = Inr (job_purl j))"
  by (induction ops xs s rule: queue_jobs.induct) (auto split: sum.splits prod.splits)

lemma queue_jobs_distinct:
  "distinct (map fst xs) \<Longrightarrow> distinct (map job_item (fst (queue_jobs ops xs s)))"
proof (induction ops xs s rule: queue_jobs.induct)
  case (1 ops s)
  then show ?case by simp
next
  case (2 ops i item rest s)
  show ?case
  proof (cases "GetPurl ops item")
    case (Inl e)
    then show ?thesis using 2 by simp
  next
    case (Inr purl)
    have "i \<notin> job_item ` set (fst (queue_jobs ops rest s))"
    proof
      assume "i \<in> job_item ` set (fst (queue_jobs ops rest s))"
      then obtain j where "j \<in> set (fst (queue_jobs ops rest s))" "job_item j = i" by auto
      then have "i \<in> fst ` set rest" using queue_jobs_mem [of j ops rest s] by force
      then show False using 2(3) by simp
    qed
    then show ?thesis using 2 Inr by (auto split: prod.splits)
  qed
qed

lemma queue_jobs_logs_failure:
  "(i, item) \<in> set xs \<Longrightarrow> GetPurl ops item = Inl purlErr \<Longrightarrow>
   \<lparr>log_msg = ''failed to get purl for item'', log_purl = None,
     log_id = GetLogID ops item, log_error = purlErr\<rparr> \<in> set (logged (snd (queue_jobs ops xs s)))"
proof (induction ops xs s rule: queue_jobs.induct)
  case (1 ops s)
  then show ?case by simp
next
  case (2 ops k it rest s)
  show ?case
  proof (cases "(i, item) = (k, it)")
    case True
    let ?s1 = "s\<lparr>logged := logged s @
               [\<lparr>log_msg = ''failed to get purl for item'',
                 log_purl = None,
                 log_id = GetLogID ops it,
                 log_error = purlErr\<rparr>]\<rparr>"
    obtain recs where "logged (snd (queue_jobs ops rest ?s1)) = logged ?s1 @ recs"
      using queue_jobs_logged_grow by blast
    then show ?thesis using True 2(4) by simp
  next
    case False
    then have "(i, item) \<in> set rest" using 2(3) by auto
    then show ?thesis using 2 by (auto split: sum.splits prod.splits)
  qed
qed


subsection \<open>The two enrichers\<close>

lemma SPDXEnricher_Enrich_empty:
  "ParseSBOMFile lib (SBOM opts) = Inr doc \<Longrightarrow> elems (Packages doc) = [] \<Longrightarrow>
   SPDXEnricher_Enrich lib e opts s = (Inr (SBOM opts), s)"
  by (simp add: SPDXEnricher_Enrich_def enrichDocument_def)

lemma CycloneDXEnricher_Enrich_empty:
  "ParseCycloneDXFile lib (SBOM opts) = Inr bom \<Longrightarrow> elems (Components bom) = [] \<Longrightarrow>
   CycloneDXEnricher_Enrich lib e opts s = (Inr (SBOM opts), s)"
  by (simp add: CycloneDXEnricher_Enrich_def enrichDocument_def)

lemma SPDXEnricher_Enrich_nonempty:
  assumes "ParseSBOMFile lib (SBOM opts) = Inr doc" and "elems (Packages doc) \<noteq> []"
  shows "SPDXEnricher_Enrich lib e opts s =
     (Marshal lib (enc_Document (doc\<lparr>Packages := Some (fst (snd
          (processItemsParallel Package_item (elems (Packages doc))
             (if Parallelism opts \<le> 0 then 1 else Parallelism opts)
             (spdx_provider e) (spdx_cache e) (spdx_cacheTTL e) s)))\<rparr>)),
      snd (snd (processItemsParallel Package_item (elems (Packages doc))
             (if Parallelism opts \<le> 0 then 1 else Parallelism opts)
             (spdx_provider e) (spdx_cache e) (spdx_cacheTTL e) s)))"
proof -
  obtain pkgs where p: "Packages doc = Some pkgs"
    using assms(2) by (cases "Packages doc") (auto simp: elems_def)
  let ?P = "processItemsParallel Package_item (elems (Packages doc))
             (if Parallelism opts \<le> 0 then 1 else Parallelism opts)
             (spdx_provider e) (spdx_cache e) (spdx_cacheTTL e) s"
  obtain items' s' where P: "?P = (None, items', s')"
    using processItemsParallel_no_error [of Package_item "elems (Packages doc)"
        "if Parallelism opts \<le> 0 then 1 else Parallelism opts"
        "spdx_provider e" "spdx_cache e" "spdx_cacheTTL e" s]
    by (cases ?P) auto
  show ?thesis
    using assms p P
    by (simp add: SPDXEnricher_Enrich_def enrichDocument_def with_Packages_def Let_def)
qed

lemma CycloneDXEnricher_Enrich_nonempty:
  assumes "ParseCycloneDXFile lib (SBOM opts) = Inr bom" and "elems (Components bom) \<noteq> []"
  shows "CycloneDXEnricher_Enrich lib e opts s =
     (Marshal lib (enc_BOM (bom\<lparr>Components := Some (fst (snd
          (processItemsParallel Component_item (elems (Components bom))
             (if Parallelism opts \<le> 0 then 1 else Parallelism opts)
             (cdx_provider e) (cdx_cache e) (cdx_cacheTTL e) s)))\<rparr>)),
      snd (snd (processItemsParallel Component_item (elems (Components bom))
             (if Parallelism opts \<le> 0 then 1 else Parallelism opts)
             (cdx_provider e) (cdx_cache e) (cdx_cacheTTL e) s)))"
proof -
  obtain comps where p: "Components bom = Some comps"
    using assms(2) by (cases "Components bom") (auto simp: elems_def)
  let ?P = "processItemsParallel Component_item (elems (Components bom))
             (if Parallelism opts \<le> 0 then 1 else Parallelism opts)
             (cdx_provider e) (cdx_cache e) (cdx_cacheTTL e) s"
  obtain items' s' where P: "?P = (None, items', s')"
    using processItemsParallel_no_error [of Component_item "elems (Components bom)"
        "if Parallelism opts \<le> 0 then 1 else Parallelism opts"
        "cdx_provider e" "cdx_cache e" "cdx_cacheTTL e" s]
    by (cases ?P) auto
  show ?thesis
    using assms p P
    by (simp add: CycloneDXEnricher_Enrich_def enrichDocument_def with_Components_def Let_def)
qed

text \<open>
  Claim C3.  For every document that parses and has no items (an SPDX document without
  packages, a CycloneDX document without components), \<open>Enrich\<close> returns the input bytes
  themselves and changes nothing; the JSON library is not asked to write anything, so a
  GitHub envelope around the document is returned with it.
\<close>

theorem empty_document_identity:
  "(ParseSBOMFile lib (SBOM opts) = Inr doc \<and> elems (Packages doc) = [] \<longrightarrow>
      SPDXEnricher_Enrich lib e opts s = (Inr (SBOM opts), s)) \<and>
   (ParseCycloneDXFile lib (SBOM opts) = Inr bom \<and> elems (Components bom) = [] \<longrightarrow>
      CycloneDXEnricher_Enrich lib e' opts s = (Inr (SBOM opts), s))"
  by (simp add: SPDXEnricher_Enrich_empty CycloneDXEnricher_Enrich_empty)

lemmas example_defs = example_lib_def table_lib_def
  wrapped_empty_spdx_def wrapped_empty_spdx_json_def empty_cdx_def empty_cdx_json_def
  spdx_licensed_def spdx_licensed_json_def spdx_licensed_out_def spdx_licensed_out_json_def
  cdx_licensed_def cdx_licensed_json_def cdx_licensed_out_def cdx_licensed_out_json_def
  cdx_empty_purl_def cdx_empty_purl_json_def cdx_empty_purl_out_def cdx_empty_purl_out_json_def
  spdx_two_def spdx_two_json_def spdx_two_out_def spdx_two_out_json_def
  spdx_three_def spdx_three_json_def spdx_three_out_def spdx_three_out_json_def

lemma elems_simps: "elems None = []" "elems (Some xs) = xs"
  by (simp_all add: elems_def)

lemmas decode_defs = ParseSBOMFile_def UnwrapGitHubSBOM_def ParseCycloneDXFile_def
  dec_Document_def Document_field_def dec_Package_def Package_field_def
  dec_ExternalRef_def ExternalRef_field_def dec_BOM_def BOM_field_def
  dec_Component_def Component_field_def dec_LicenseChoice_def LicenseChoice_field_def
  License_field_def LicenseText_field_def dec_ExternalReference_def ExternalReference_field_def
  store_def zero_Document_def zero_Package_def zero_ExternalRef_def zero_BOM_def
  zero_Component_def zero_LicenseChoice_def zero_License_def zero_LicenseText_def
  zero_ExternalReference_def key_is_def upper_char_def elems_simps

text \<open>
  The decoder at work: keys match whatever the case of their letters; an array given
  under a key that has occurred before is decoded over the elements the first one left
  and the slice is cut to its length; \<^verbatim>\<open>null\<close> makes the slice nil.
\<close>

lemma fold_name_examples:
  "fold_name ''spdxVersion'' = ''SPDXVERSION''"
  "key_is ''Packages'' ''packages''"
  "key_is (''pac'' @ [CHR 0xE2, CHR 0x84, CHR 0xAA] @ ''age'' @ [CHR 0xC5, CHR 0xBF]) ''packages''"
  "\<not> key_is ''package'' ''packages''"
  "\<not> key_is ''bom_ref'' ''bom-ref''"
  by (simp_all add: key_is_def upper_char_def)

lemma dec_Document_repeated_key:
  "dec_Document (JObject
     [(''packages'', JArray [JObject [(''name'', JString ''a'')],
                             JObject [(''name'', JString ''b'')]]),
      (''PACKAGES'', JArray [JObject [(''SPDXID'', JString ''x'')]])]) =
   Inr (zero_Document\<lparr>Packages := Some [zero_Package\<lparr>SPDXID := ''x'', Name := ''a''\<rparr>]\<rparr>)"
  "dec_Document (JObject
     [(''packages'', JArray [JObject [(''name'', JString ''a'')]]),
      (''packages'', JArray [JNull, JObject [(''name'', JString ''b'')]])]) =
   Inr (zero_Document\<lparr>Packages := Some [zero_Package\<lparr>Name := ''a''\<rparr>,
                                           zero_Package\<lparr>Name := ''b''\<rparr>]\<rparr>)"
  "dec_Document (JObject
     [(''packages'', JArray [JObject [(''name'', JString ''a'')]]),
      (''packages'', JNull)]) = Inr zero_Document"
  "dec_Document (JObject
     [(''packages'', JArray [JObject [(''name'', JString ''a'')]]),
      (''packages'', JArray [])]) = Inr (zero_Document\<lparr>Packages := Some []\<rparr>)"
  by (simp_all add: decode_defs)

lemma parse_wrapped_empty_spdx:
  "ParseSBOMFile example_lib wrapped_empty_spdx =
     Inr \<lparr>SPDXVersion = ''SPDX-2.3'', doc_SPDXID = ''SPDXRef-DOCUMENT'', Packages = Some []\<rparr>"
  by (simp add: example_defs decode_defs)

lemma parse_empty_cdx:
  "ParseCycloneDXFile example_lib empty_cdx =
     Inr \<lparr>BOMFormat = ''CycloneDX'', SpecVersion = ''1.4'', Components = Some []\<rparr>"
  by (simp add: example_defs decode_defs)

theorem empty_document_identity_witness:
  "ParseSBOMFile example_lib wrapped_empty_spdx =
     Inr \<lparr>SPDXVersion = ''SPDX-2.3'', doc_SPDXID = ''SPDXRef-DOCUMENT'', Packages = Some []\<rparr> \<and>
   SPDXEnricher_Enrich example_lib
     \<lparr>spdx_provider = mockProvider (Some (\<lambda>purl. Inr ''MIT'')),
      spdx_cache = Some (mockCache None None), spdx_cacheTTL = 3600\<rparr>
     \<lparr>SBOM = wrapped_empty_spdx, Parallelism = 1\<rparr> state0 = (Inr wrapped_empty_spdx, state0) \<and>
   ParseCycloneDXFile example_lib empty_cdx =
     Inr \<lparr>BOMFormat = ''CycloneDX'', SpecVersion = ''1.4'', Components = Some []\<rparr> \<and>
   CycloneDXEnricher_Enrich example_lib
     \<lparr>cdx_provider = mockProvider (Some (\<lambda>purl. Inr ''MIT'')),
      cdx_cache = Some (mockCache None None), cdx_cacheTTL = 3600\<rparr>
     \<lparr>SBOM = empty_cdx, Parallelism = 1\<rparr> state0 = (Inr empty_cdx, state0)"
  using
    empty_document_identity
      [where lib = example_lib and opts = "\<lparr>SBOM = wrapped_empty_spdx, Parallelism = 1\<rparr>"
        and doc = "\<lparr>SPDXVersion = ''SPDX-2.3'', doc_SPDXID = ''SPDXRef-DOCUMENT'',
                    Packages = Some []\<rparr>"
        and s = state0
        and e = "\<lparr>spdx_provider = mockProvider (Some (\<lambda>purl. Inr ''MIT'')),
                  spdx_cache = Some (mockCache None None), spdx_cacheTTL = 3600\<rparr>"]
    empty_document_identity
      [where lib = example_lib and opts = "\<lparr>SBOM = empty_cdx, Parallelism = 1\<rparr>"
        and bom = "\<lparr>BOMFormat = ''CycloneDX'', SpecVersion = ''1.4'', Components = Some []\<rparr>"
        and s = state0
        and e' = "\<lparr>cdx_provider = mockProvider (Some (\<lambda>purl. Inr ''MIT'')),
                  cdx_cache = Some (mockCache None None), cdx_cacheTTL = 3600\<rparr>"]
    parse_wrapped_empty_spdx parse_empty_cdx
  by (simp add: elems_def)


lemma parse_spdx_licensed:
  "ParseSBOMFile example_lib spdx_licensed = Inr spdx_licensed_doc"
  by (simp add: example_defs decode_defs spdx_licensed_doc_def)

lemma parse_cdx_licensed:
  "ParseCycloneDXFile example_lib cdx_licensed = Inr cdx_licensed_doc"
  by (simp add: example_defs decode_defs cdx_licensed_doc_def)






lemmas encode_defs = enc_Document_def enc_Package_def enc_ExternalRef_def enc_slice_def
  enc_BOM_def enc_Component_def enc_LicenseChoice_def enc_License_def enc_LicenseText_def
  enc_ExternalReference_def omitempty_string_def len_def elems_def

lemmas worker_defs = processItemsParallel_def work_def Get_def Get_from_provider_def
  call_cache_Get_def call_provider_Get_def call_cache_SetWithTTL_def
  Package_item_def Package_GetPurl_def GetSPDXPackagePurl_def Package_HasLicense_def
  Package_SetLicense_def Package_GetLogID_def spdxLicenseNone_def spdxLicenseNoAssertion_def
  Component_item_def Component_GetPurl_def GetCycloneDXComponentPurl_def
  Component_HasLicense_def HasComponentLicense_def Component_SetLicense_def
  Component_GetLogID_def append_slice_def mockProvider_def mockCache_def state0_def
  enumerate_eq_zip

lemma process_spdx_licensed:
  "processItemsParallel Package_item (elems (Packages spdx_licensed_doc)) 1
     (spdx_provider mit_spdx) (spdx_cache mit_spdx) (spdx_cacheTTL mit_spdx) state0 =
   (None, elems (Packages spdx_licensed_doc), state0)"
  by (simp add: worker_defs spdx_licensed_doc_def mit_spdx_def elems_def)

lemma enrich_spdx_licensed:
  "SPDXEnricher_Enrich example_lib mit_spdx \<lparr>SBOM = spdx_licensed, Parallelism = 1\<rparr> state0 =
     (Inr spdx_licensed_out, state0)"
proof -
  have ne: "elems (Packages spdx_licensed_doc) \<noteq> []"
    by (simp add: spdx_licensed_doc_def elems_def)
  have m: "Marshal example_lib (enc_Document spdx_licensed_doc) = Inr spdx_licensed_out"
    by (simp add: example_defs encode_defs spdx_licensed_doc_def)
  have same: "spdx_licensed_doc\<lparr>Packages := Some (elems (Packages spdx_licensed_doc))\<rparr> =
      spdx_licensed_doc"
    by (simp add: spdx_licensed_doc_def elems_def)
  show ?thesis
    using SPDXEnricher_Enrich_nonempty
        [of example_lib "\<lparr>SBOM = spdx_licensed, Parallelism = 1\<rparr>" spdx_licensed_doc
          mit_spdx state0]
      parse_spdx_licensed ne process_spdx_licensed m same
    by simp
qed


subsection \<open>Failures of single items\<close>

lemma in_enumerate0: "(i, x) \<in> set (enumerate 0 xs) \<longleftrightarrow> i < length xs \<and> xs ! i = x"
  by (auto simp: in_set_enumerate_eq)

lemma queue_jobs_skips:
  assumes "i < length items" and "GetPurl ops (items ! i) = Inl purlErr"
  shows "\<forall>j \<in> set (fst (queue_jobs ops (enumerate 0 items) s)). job_item j \<noteq> i"
proof
  fix j assume "j \<in> set (fst (queue_jobs ops (enumerate 0 items) s))"
  then obtain item where "(job_item j, item) \<in> set (enumerate 0 items)"
      and g: "GetPurl ops item = Inr (job_purl j)"
    using queue_jobs_mem [of j ops "enumerate 0 items" s] by blast
  then have "item = items ! job_item j" by (simp add: in_enumerate0)
  then show "job_item j \<noteq> i" using g assms(2) by auto
qed

lemma queue_jobs_enqueues:
  assumes "i < length items" and "GetPurl ops (items ! i) = Inr purl"
  shows "\<lparr>job_item = i, job_purl = purl\<rparr> \<in> set (fst (queue_jobs ops (enumerate 0 items) s))"
proof -
  have "(i, items ! i) \<in> set (enumerate 0 items)" using assms(1) by (simp add: in_enumerate0)
  then show ?thesis
    using queue_jobs_mem [of "\<lparr>job_item = i, job_purl = purl\<rparr>" ops "enumerate 0 items" s] assms(2)
    by auto
qed

lemma queue_jobs_enumerate_distinct:
  "distinct (map job_item (fst (queue_jobs ops (enumerate 0 items) s)))"
  by (rule queue_jobs_distinct) simp

lemma processItemsParallel_missing_purl:
  assumes "i < length items" and "GetPurl ops (items ! i) = Inl purlErr"
    and "\<forall>js. mset (schedule s js) = mset js"
  shows "fst (snd (processItemsParallel ops items par prov c ttl s)) ! i = items ! i \<and>
     \<lparr>log_msg = ''failed to get purl for item'', log_purl = None,
       log_id = GetLogID ops (items ! i), log_error = purlErr\<rparr>
     \<in> set (logged (snd (snd (processItemsParallel ops items par prov c ttl s))))"
proof -
  let ?q = "queue_jobs ops (enumerate 0 items) s"
  let ?js = "schedule (snd ?q) (fst ?q)"
  let ?rec = "\<lparr>log_msg = ''failed to get purl for item'', log_purl = None,
       log_id = GetLogID ops (items ! i), log_error = purlErr\<rparr>"
  have "mset ?js = mset (fst ?q)" using assms(3) by (simp add: queue_jobs_world)
  then have same: "set ?js = set (fst ?q)" by (rule mset_eq_setD)
  have "\<forall>j \<in> set (fst ?q). job_item j \<noteq> i"
    using assms(1,2) by (rule queue_jobs_skips)
  then have skip: "\<forall>j \<in> set ?js. job_item j \<noteq> i" using same by simp
  have "(i, items ! i) \<in> set (enumerate 0 items)" using assms(1) by (simp add: in_enumerate0)
  then have inq: "?rec \<in> set (logged (snd ?q))"
    using assms(2) by (rule queue_jobs_logs_failure)
  obtain recs where "logged (snd (drain ops prov c ttl ?js (items, snd ?q))) =
      logged (snd ?q) @ recs"
    using drain_logged_grow by blast
  then have ind: "?rec \<in> set (logged (snd (drain ops prov c ttl ?js (items, snd ?q))))"
    using inq by simp
  show ?thesis
    using skip inq ind
    by (simp add: processItemsParallel_items processItemsParallel_state drain_untouched)
qed

lemma processItemsParallel_visits:
  assumes "i < length items" and "GetPurl ops (items ! i) = Inr purl"
    and "\<not> HasLicense ops (items ! i)" and "0 < par"
    and "\<forall>js. mset (schedule s js) = mset js"
  shows "first_call c purl \<in>
     set (calls (snd (snd (processItemsParallel ops items par prov c ttl s))))"
proof -
  let ?q = "queue_jobs ops (enumerate 0 items) s"
  let ?js = "schedule (snd ?q) (fst ?q)"
  let ?j = "\<lparr>job_item = i, job_purl = purl\<rparr>"
  have perm: "mset ?js = mset (fst ?q)" using assms(5) by (simp add: queue_jobs_world)
  have "?j \<in> set (fst ?q)" using assms(1,2) by (rule queue_jobs_enqueues)
  then have "?j \<in> set ?js" using mset_eq_setD [OF perm] by simp
  moreover have "distinct (map job_item ?js)"
  proof -
    have "mset (map job_item ?js) = mset (map job_item (fst ?q))"
      using perm by (metis mset_map)
    moreover have "distinct (map job_item (fst ?q))" by (rule queue_jobs_enumerate_distinct)
    ultimately show ?thesis by (metis mset_eq_imp_distinct_iff)
  qed
  moreover have "\<not> HasLicense ops (items ! job_item ?j)" using assms(3) by simp
  ultimately have "first_call c (job_purl ?j) \<in>
      set (calls (snd (drain ops prov c ttl ?js (items, snd ?q))))"
    by (rule drain_visits)
  then show ?thesis using assms(4) by (simp add: processItemsParallel_state)
qed

lemma work_lookup_failure:
  assumes "\<not> HasLicense ops (items ! job_item j)"
    and "Get \<lparr>opt_Purl = job_purl j, opt_Provider = prov, opt_Cache = c, opt_CacheTTL = ttl\<rparr> s =
           (Inl licErr, s1)"
  shows "work ops prov c ttl j (items, s) =
     (items, s1\<lparr>logged := logged s1 @
        [\<lparr>log_msg = ''failed to get license for item'', log_purl = Some (job_purl j),
          log_id = GetLogID ops (items ! job_item j), log_error = licErr\<rparr>]\<rparr>)"
  using assms by (simp add: work_def)

lemma work_miss_calls:
  assumes "\<not> HasLicense ops (items ! job_item j)"
    and "cache_Get c (job_purl j) (world s) = (Inl err, w)" and "errors_Is err ErrCacheMiss"
  shows "\<exists>evs. calls (snd (work ops prov (Some c) ttl j (items, s))) =
     calls s @ CacheGet (job_purl j) # ProviderGet (job_purl j) # evs"
proof -
  let ?o = "\<lparr>opt_Purl = job_purl j, opt_Provider = prov, opt_Cache = Some c, opt_CacheTTL = ttl\<rparr>"
  let ?s1 = "s\<lparr>world := w, calls := calls s @ [CacheGet (job_purl j)]\<rparr>"
  have g: "Get ?o s = Get_from_provider ?o ?s1"
    using assms(2,3) by (simp add: Get_def call_cache_Get_def)
  obtain evs where "calls (snd (Get_from_provider ?o ?s1)) =
      calls ?s1 @ ProviderGet (opt_Purl ?o) # evs"
    using Get_from_provider_calls by blast
  then have "calls (snd (Get ?o s)) = calls s @ CacheGet (job_purl j) # ProviderGet (job_purl j) # evs"
    using g by simp
  then show ?thesis
    using assms(1) by (auto simp: work_def split: prod.splits sum.splits)
qed

lemma drain_append:
  "drain ops prov c ttl (xs @ ys) st = drain ops prov c ttl ys (drain ops prov c ttl xs st)"
  by (induction xs arbitrary: st) simp_all

lemma schedule_split:
  assumes "j \<in> set js" and "distinct (map job_item js)"
  shows "\<exists>rest. js = takeWhile (\<lambda>k. job_item k \<noteq> job_item j) js @ j # rest \<and>
           (\<forall>k \<in> set rest. job_item k \<noteq> job_item j)"
proof -
  let ?P = "\<lambda>k. job_item k \<noteq> job_item j"
  have ne: "dropWhile ?P js \<noteq> []" using assms(1) by (auto simp: dropWhile_eq_Nil_conv)
  then obtain h rest where dw: "dropWhile ?P js = h # rest" by (cases "dropWhile ?P js") auto
  have "\<not> ?P (hd (dropWhile ?P js))" using ne by (rule hd_dropWhile)
  then have hj: "job_item h = job_item j" using dw by simp
  have split: "js = takeWhile ?P js @ h # rest" using dw by (metis takeWhile_dropWhile_id)
  then have "h \<in> set js" by (metis in_set_conv_decomp)
  moreover have "inj_on job_item (set js)" using assms(2) by (simp add: distinct_map)
  ultimately have h: "h = j" using hj assms(1) by (auto dest: inj_onD)
  have "distinct (map job_item (takeWhile ?P js @ h # rest))" using assms(2) split by simp
  then have "job_item h \<notin> job_item ` set rest" by simp
  then have "\<forall>k \<in> set rest. job_item k \<noteq> job_item j" using hj by (metis imageI)
  then show ?thesis using split h by blast
qed

lemma work_outcome:
  assumes "\<not> HasLicense ops (items ! job_item j)" and "job_item j < length items"
  shows "fst (work ops prov c ttl j (items, s)) ! job_item j =
     (case fst (Get \<lparr>opt_Purl = job_purl j, opt_Provider = prov, opt_Cache = c,
                     opt_CacheTTL = ttl\<rparr> s) of
        Inl licErr \<Rightarrow> items ! job_item j
      | Inr lic \<Rightarrow> if lic \<noteq> [] then SetLicense ops lic (items ! job_item j)
                   else items ! job_item j)"
  using assms by (simp add: work_def split: prod.splits sum.splits)

lemma work_logs_failure:
  assumes "\<not> HasLicense ops (items ! job_item j)"
    and "fst (Get \<lparr>opt_Purl = job_purl j, opt_Provider = prov, opt_Cache = c,
                    opt_CacheTTL = ttl\<rparr> s) = Inl licErr"
  shows "\<lparr>log_msg = ''failed to get license for item'', log_purl = Some (job_purl j),
           log_id = GetLogID ops (items ! job_item j), log_error = licErr\<rparr>
         \<in> set (logged (snd (work ops prov c ttl j (items, s))))"
  using assms by (auto simp: work_def split: prod.splits sum.splits)

lemma drain_job_outcome:
  assumes "j \<in> set js" and "distinct (map job_item js)"
    and "\<not> HasLicense ops (items ! job_item j)" and "job_item j < length items"
  shows "fst (drain ops prov c ttl js (items, s)) ! job_item j =
     (case fst (Get \<lparr>opt_Purl = job_purl j, opt_Provider = prov, opt_Cache = c,
                     opt_CacheTTL = ttl\<rparr>
                  (snd (drain ops prov c ttl
                     (takeWhile (\<lambda>k. job_item k \<noteq> job_item j) js) (items, s)))) of
        Inl licErr \<Rightarrow> items ! job_item j
      | Inr lic \<Rightarrow> if lic \<noteq> [] then SetLicense ops lic (items ! job_item j)
                   else items ! job_item j)"
    and "fst (Get \<lparr>opt_Purl = job_purl j, opt_Provider = prov, opt_Cache = c,
                    opt_CacheTTL = ttl\<rparr>
                  (snd (drain ops prov c ttl
                     (takeWhile (\<lambda>k. job_item k \<noteq> job_item j) js) (items, s)))) = Inl licErr \<Longrightarrow>
         \<lparr>log_msg = ''failed to get license for item'', log_purl = Some (job_purl j),
           log_id = GetLogID ops (items ! job_item j), log_error = licErr\<rparr>
         \<in> set (logged (snd (drain ops prov c ttl js (items, s))))"
proof -
  let ?pre = "takeWhile (\<lambda>k. job_item k \<noteq> job_item j) js"
  let ?o = "\<lparr>opt_Purl = job_purl j, opt_Provider = prov, opt_Cache = c, opt_CacheTTL = ttl\<rparr>"
  obtain rest where split: "js = ?pre @ j # rest"
      and others: "\<forall>k \<in> set rest. job_item k \<noteq> job_item j"
    using schedule_split [OF assms(1,2)] by blast
  obtain items1 s1 where pre: "drain ops prov c ttl ?pre (items, s) = (items1, s1)"
    by (cases "drain ops prov c ttl ?pre (items, s)")
  obtain items2 s2 where w: "work ops prov c ttl j (items1, s1) = (items2, s2)"
    by (cases "work ops prov c ttl j (items1, s1)")
  have "\<forall>k \<in> set ?pre. job_item k \<noteq> job_item j" by (auto dest: set_takeWhileD)
  then have "fst (drain ops prov c ttl ?pre (items, s)) ! job_item j = items ! job_item j"
    by (rule drain_untouched)
  then have same: "items1 ! job_item j = items ! job_item j" using pre by simp
  have "length (fst (drain ops prov c ttl ?pre (items, s))) = length items"
    by (rule drain_length)
  then have len: "job_item j < length items1" using pre assms(4) by simp
  have unl: "\<not> HasLicense ops (items1 ! job_item j)" using same assms(3) by simp
  have whole: "drain ops prov c ttl js (items, s) = drain ops prov c ttl rest (items2, s2)"
  proof -
    have "drain ops prov c ttl (?pre @ j # rest) (items, s) =
        drain ops prov c ttl rest (items2, s2)"
      using pre w by (simp add: drain_append)
    then show ?thesis using split by simp
  qed
  have "fst (drain ops prov c ttl rest (items2, s2)) ! job_item j = items2 ! job_item j"
    using others by (rule drain_untouched)
  moreover have "items2 ! job_item j =
     (case fst (Get ?o s1) of
        Inl licErr \<Rightarrow> items1 ! job_item j
      | Inr lic \<Rightarrow> if lic \<noteq> [] then SetLicense ops lic (items1 ! job_item j)
                   else items1 ! job_item j)"
    using work_outcome [OF unl len, of prov c ttl s1] w by simp
  ultimately show "fst (drain ops prov c ttl js (items, s)) ! job_item j =
     (case fst (Get ?o (snd (drain ops prov c ttl ?pre (items, s)))) of
        Inl licErr \<Rightarrow> items ! job_item j
      | Inr lic \<Rightarrow> if lic \<noteq> [] then SetLicense ops lic (items ! job_item j)
                   else items ! job_item j)"
    using whole pre same by (simp split: sum.splits)
  assume "fst (Get ?o (snd (drain ops prov c ttl ?pre (items, s)))) = Inl licErr"
  then have "fst (Get ?o s1) = Inl licErr" using pre by simp
  then have "\<lparr>log_msg = ''failed to get license for item'', log_purl = Some (job_purl j),
           log_id = GetLogID ops (items1 ! job_item j), log_error = licErr\<rparr>
         \<in> set (logged (snd (work ops prov c ttl j (items1, s1))))"
    using unl by (simp add: work_logs_failure)
  then have ins2: "\<lparr>log_msg = ''failed to get license for item'', log_purl = Some (job_purl j),
           log_id = GetLogID ops (items ! job_item j), log_error = licErr\<rparr>
         \<in> set (logged s2)"
    using w same by simp
  obtain recs where "logged (snd (drain ops prov c ttl rest (items2, s2))) = logged s2 @ recs"
    using drain_logged_grow by blast
  then show "\<lparr>log_msg = ''failed to get license for item'', log_purl = Some (job_purl j),
           log_id = GetLogID ops (items ! job_item j), log_error = licErr\<rparr>
         \<in> set (logged (snd (drain ops prov c ttl js (items, s))))"
    using whole ins2 by simp
qed

lemma processItemsParallel_job_outcome:
  assumes "i < length items" and "GetPurl ops (items ! i) = Inr purl"
    and "\<not> HasLicense ops (items ! i)" and "0 < par"
    and "\<forall>js. mset (schedule s js) = mset js"
  shows "fst (snd (processItemsParallel ops items par prov c ttl s)) ! i =
     (case fst (Get \<lparr>opt_Purl = purl, opt_Provider = prov, opt_Cache = c, opt_CacheTTL = ttl\<rparr>
                  (state_at_job ops items prov c ttl s i)) of
        Inl licErr \<Rightarrow> items ! i
      | Inr lic \<Rightarrow> if lic \<noteq> [] then SetLicense ops lic (items ! i) else items ! i)"
    and "fst (Get \<lparr>opt_Purl = purl, opt_Provider = prov, opt_Cache = c, opt_CacheTTL = ttl\<rparr>
                  (state_at_job ops items prov c ttl s i)) = Inl licErr \<Longrightarrow>
         \<lparr>log_msg = ''failed to get license for item'', log_purl = Some purl,
           log_id = GetLogID ops (items ! i), log_error = licErr\<rparr>
         \<in> set (logged (snd (snd (processItemsParallel ops items par prov c ttl s))))"
proof -
  let ?q = "queue_jobs ops (enumerate 0 items) s"
  let ?js = "schedule (snd ?q) (fst ?q)"
  let ?j = "\<lparr>job_item = i, job_purl = purl\<rparr>"
  have perm: "mset ?js = mset (fst ?q)" using assms(5) by (simp add: queue_jobs_world)
  have "?j \<in> set (fst ?q)" using assms(1,2) by (rule queue_jobs_enqueues)
  then have jin: "?j \<in> set ?js" using mset_eq_setD [OF perm] by simp
  have dist: "distinct (map job_item ?js)"
  proof -
    have "mset (map job_item ?js) = mset (map job_item (fst ?q))"
      using perm by (metis mset_map)
    moreover have "distinct (map job_item (fst ?q))" by (rule queue_jobs_enumerate_distinct)
    ultimately show ?thesis by (metis mset_eq_imp_distinct_iff)
  qed
  have unl: "\<not> HasLicense ops (items ! job_item ?j)" using assms(3) by simp
  have len: "job_item ?j < length items" using assms(1) by simp
  have at: "state_at_job ops items prov c ttl s i =
      snd (drain ops prov c ttl (takeWhile (\<lambda>k. job_item k \<noteq> job_item ?j) ?js) (items, snd ?q))"
    by (simp add: state_at_job_def split: prod.splits)
  show "fst (snd (processItemsParallel ops items par prov c ttl s)) ! i =
     (case fst (Get \<lparr>opt_Purl = purl, opt_Provider = prov, opt_Cache = c, opt_CacheTTL = ttl\<rparr>
                  (state_at_job ops items prov c ttl s i)) of
        Inl licErr \<Rightarrow> items ! i
      | Inr lic \<Rightarrow> if lic \<noteq> [] then SetLicense ops lic (items ! i) else items ! i)"
    using drain_job_outcome(1) [OF jin dist unl len, of prov c ttl "snd ?q"] assms(4) at
    by (simp add: processItemsParallel_items split: sum.splits)
  assume "fst (Get \<lparr>opt_Purl = purl, opt_Provider = prov, opt_Cache = c, opt_CacheTTL = ttl\<rparr>
                  (state_at_job ops items prov c ttl s i)) = Inl licErr"
  then show "\<lparr>log_msg = ''failed to get license for item'', log_purl = Some purl,
           log_id = GetLogID ops (items ! i), log_error = licErr\<rparr>
         \<in> set (logged (snd (snd (processItemsParallel ops items par prov c ttl s))))"
    using drain_job_outcome(2) [OF jin dist unl len, of prov c ttl "snd ?q" licErr] assms(4) at
    by (simp add: processItemsParallel_state)
qed

text \<open>
  Claim C9.  The worker pool never returns an error.  An item whose purl cannot be read is
  logged and its slot is left as it was, in whatever order the jobs are worked (any
  schedule that is a permutation).  Every item that has a purl and no license is looked
  up, whatever the lookups of the other items returned: its lookup is made in the state
  the jobs worked before it have left; when that lookup fails, the failure is logged and
  the slot is left as it was, and when it answers, the slot gets the license (an empty
  answer leaves it).  So a failed lookup stops neither the run nor the other jobs.  A
  single job whose lookup fails (whatever the provider or the cache answered) is logged
  and leaves the items as they were.  For a document that parses and has items,
  \<open>Enrich\<close> returns what the JSON library makes of the processed document, whatever
  happened to the single items; so when \<open>Enrich\<close> returns an error, either the document
  did not parse or the JSON library failed to write it.
\<close>

theorem per_item_failures_absorbed:
  "fst (processItemsParallel ops items par prov c ttl s) = None \<and>
   (i < length items \<and> GetPurl ops (items ! i) = Inl purlErr \<and>
    (\<forall>js. mset (schedule s js) = mset js) \<longrightarrow>
      fst (snd (processItemsParallel ops items par prov c ttl s)) ! i = items ! i \<and>
      \<lparr>log_msg = ''failed to get purl for item'', log_purl = None,
        log_id = GetLogID ops (items ! i), log_error = purlErr\<rparr>
      \<in> set (logged (snd (snd (processItemsParallel ops items par prov c ttl s))))) \<and>
   (k < length items \<and> GetPurl ops (items ! k) = Inr purl \<and> \<not> HasLicense ops (items ! k) \<and>
    0 < par \<and> (\<forall>js. mset (schedule s js) = mset js) \<longrightarrow>
      first_call c purl \<in>
        set (calls (snd (snd (processItemsParallel ops items par prov c ttl s)))) \<and>
      fst (snd (processItemsParallel ops items par prov c ttl s)) ! k =
        (case fst (Get \<lparr>opt_Purl = purl, opt_Provider = prov, opt_Cache = c,
                        opt_CacheTTL = ttl\<rparr> (state_at_job ops items prov c ttl s k)) of
           Inl failure \<Rightarrow> items ! k
         | Inr lic \<Rightarrow> if lic \<noteq> [] then SetLicense ops lic (items ! k) else items ! k) \<and>
      (\<forall>failure.
         fst (Get \<lparr>opt_Purl = purl, opt_Provider = prov, opt_Cache = c,
                   opt_CacheTTL = ttl\<rparr> (state_at_job ops items prov c ttl s k)) =
           Inl failure \<longrightarrow>
         \<lparr>log_msg = ''failed to get license for item'', log_purl = Some purl,
           log_id = GetLogID ops (items ! k), log_error = failure\<rparr>
         \<in> set (logged (snd (snd (processItemsParallel ops items par prov c ttl s)))))) \<and>
   (\<not> HasLicense ops (items ! job_item j) \<and>
    Get \<lparr>opt_Purl = job_purl j, opt_Provider = prov, opt_Cache = c, opt_CacheTTL = ttl\<rparr> s =
      (Inl licErr, s1) \<longrightarrow>
      work ops prov c ttl j (items, s) =
        (items, s1\<lparr>logged := logged s1 @
           [\<lparr>log_msg = ''failed to get license for item'', log_purl = Some (job_purl j),
             log_id = GetLogID ops (items ! job_item j), log_error = licErr\<rparr>]\<rparr>)) \<and>
   (ParseSBOMFile lib (SBOM opts) = Inr doc \<and> elems (Packages doc) \<noteq> [] \<longrightarrow>
      fst (SPDXEnricher_Enrich lib e opts s) =
        Marshal lib (enc_Document (doc\<lparr>Packages := Some (fst (snd
          (processItemsParallel Package_item (elems (Packages doc))
             (if Parallelism opts \<le> 0 then 1 else Parallelism opts)
             (spdx_provider e) (spdx_cache e) (spdx_cacheTTL e) s)))\<rparr>))) \<and>
   (ParseCycloneDXFile lib (SBOM opts) = Inr bom \<and> elems (Components bom) \<noteq> [] \<longrightarrow>
      fst (CycloneDXEnricher_Enrich lib e' opts s) =
        Marshal lib (enc_BOM (bom\<lparr>Components := Some (fst (snd
          (processItemsParallel Component_item (elems (Components bom))
             (if Parallelism opts \<le> 0 then 1 else Parallelism opts)
             (cdx_provider e') (cdx_cache e') (cdx_cacheTTL e') s)))\<rparr>))) \<and>
   (fst (SPDXEnricher_Enrich lib e opts s) = Inl err \<longrightarrow>
      (\<exists>perr. ParseSBOMFile lib (SBOM opts) = Inl perr) \<or>
      (\<exists>d. Marshal lib (enc_Document d) = Inl err)) \<and>
   (fst (CycloneDXEnricher_Enrich lib e' opts s) = Inl err \<longrightarrow>
      (\<exists>perr. ParseCycloneDXFile lib (SBOM opts) = Inl perr) \<or>
      (\<exists>b. Marshal lib (enc_BOM b) = Inl err))"
proof (intro conjI impI)
  show "fst (processItemsParallel ops items par prov c ttl s) = None"
    by (rule processItemsParallel_no_error)
next
  assume a: "i < length items \<and> GetPurl ops (items ! i) = Inl purlErr \<and>
    (\<forall>js. mset (schedule s js) = mset js)"
  show "fst (snd (processItemsParallel ops items par prov c ttl s)) ! i = items ! i"
    using a processItemsParallel_missing_purl [of i items ops purlErr s par prov c ttl] by simp
  show "\<lparr>log_msg = ''failed to get purl for item'', log_purl = None,
        log_id = GetLogID ops (items ! i), log_error = purlErr\<rparr>
      \<in> set (logged (snd (snd (processItemsParallel ops items par prov c ttl s))))"
    using a processItemsParallel_missing_purl [of i items ops purlErr s par prov c ttl] by simp
next
  assume a: "k < length items \<and> GetPurl ops (items ! k) = Inr purl \<and>
    \<not> HasLicense ops (items ! k) \<and> 0 < par \<and> (\<forall>js. mset (schedule s js) = mset js)"
  then have h: "k < length items" "GetPurl ops (items ! k) = Inr purl"
      "\<not> HasLicense ops (items ! k)" "0 < par" "\<forall>js. mset (schedule s js) = mset js"
    by simp_all
  show "first_call c purl \<in>
      set (calls (snd (snd (processItemsParallel ops items par prov c ttl s))))"
    by (rule processItemsParallel_visits [OF h])
  show "fst (snd (processItemsParallel ops items par prov c ttl s)) ! k =
        (case fst (Get \<lparr>opt_Purl = purl, opt_Provider = prov, opt_Cache = c,
                        opt_CacheTTL = ttl\<rparr> (state_at_job ops items prov c ttl s k)) of
           Inl failure \<Rightarrow> items ! k
         | Inr lic \<Rightarrow> if lic \<noteq> [] then SetLicense ops lic (items ! k) else items ! k)"
    by (rule processItemsParallel_job_outcome(1) [OF h])
  show "\<forall>failure.
         fst (Get \<lparr>opt_Purl = purl, opt_Provider = prov, opt_Cache = c,
                   opt_CacheTTL = ttl\<rparr> (state_at_job ops items prov c ttl s k)) =
           Inl failure \<longrightarrow>
         \<lparr>log_msg = ''failed to get license for item'', log_purl = Some purl,
           log_id = GetLogID ops (items ! k), log_error = failure\<rparr>
         \<in> set (logged (snd (snd (processItemsParallel ops items par prov c ttl s))))"
    using processItemsParallel_job_outcome(2) [OF h] by blast
next
  assume "\<not> HasLicense ops (items ! job_item j) \<and>
    Get \<lparr>opt_Purl = job_purl j, opt_Provider = prov, opt_Cache = c, opt_CacheTTL = ttl\<rparr> s =
      (Inl licErr, s1)"
  then show "work ops prov c ttl j (items, s) =
        (items, s1\<lparr>logged := logged s1 @
           [\<lparr>log_msg = ''failed to get license for item'', log_purl = Some (job_purl j),
             log_id = GetLogID ops (items ! job_item j), log_error = licErr\<rparr>]\<rparr>)"
    by (simp add: work_lookup_failure)
next
  assume "ParseSBOMFile lib (SBOM opts) = Inr doc \<and> elems (Packages doc) \<noteq> []"
  then show "fst (SPDXEnricher_Enrich lib e opts s) =
        Marshal lib (enc_Document (doc\<lparr>Packages := Some (fst (snd
          (processItemsParallel Package_item (elems (Packages doc))
             (if Parallelism opts \<le> 0 then 1 else Parallelism opts)
             (spdx_provider e) (spdx_cache e) (spdx_cacheTTL e) s)))\<rparr>))"
    using SPDXEnricher_Enrich_nonempty [of lib opts doc e s] by simp
next
  assume "ParseCycloneDXFile lib (SBOM opts) = Inr bom \<and> elems (Components bom) \<noteq> []"
  then show "fst (CycloneDXEnricher_Enrich lib e' opts s) =
        Marshal lib (enc_BOM (bom\<lparr>Components := Some (fst (snd
          (processItemsParallel Component_item (elems (Components bom))
             (if Parallelism opts \<le> 0 then 1 else Parallelism opts)
             (cdx_provider e') (cdx_cache e') (cdx_cacheTTL e') s)))\<rparr>))"
    using CycloneDXEnricher_Enrich_nonempty [of lib opts bom e' s] by simp
next
  assume f: "fst (SPDXEnricher_Enrich lib e opts s) = Inl err"
  show "(\<exists>perr. ParseSBOMFile lib (SBOM opts) = Inl perr) \<or>
      (\<exists>d. Marshal lib (enc_Document d) = Inl err)"
  proof (cases "ParseSBOMFile lib (SBOM opts)")
    case (Inl perr)
    then show ?thesis by blast
  next
    case (Inr doc)
    show ?thesis
    proof (cases "elems (Packages doc) = []")
      case True
      then show ?thesis using f Inr SPDXEnricher_Enrich_empty [of lib opts doc e s] by simp
    next
      case False
      then show ?thesis
        using f Inr SPDXEnricher_Enrich_nonempty [of lib opts doc e s] by auto
    qed
  qed
next
  assume f: "fst (CycloneDXEnricher_Enrich lib e' opts s) = Inl err"
  show "(\<exists>perr. ParseCycloneDXFile lib (SBOM opts) = Inl perr) \<or>
      (\<exists>b. Marshal lib (enc_BOM b) = Inl err)"
  proof (cases "ParseCycloneDXFile lib (SBOM opts)")
    case (Inl perr)
    then show ?thesis by blast
  next
    case (Inr bom)
    show ?thesis
    proof (cases "elems (Components bom) = []")
      case True
      then show ?thesis using f Inr CycloneDXEnricher_Enrich_empty [of lib opts bom e' s] by simp
    next
      case False
      then show ?thesis
        using f Inr CycloneDXEnricher_Enrich_nonempty [of lib opts bom e' s] by auto
    qed
  qed
qed

text \<open>
  Claim C10.  \<open>GetPurl\<close> of a CycloneDX component never fails: it returns the \<open>purl\<close>
  field, also when that is the empty string.  A component with an empty purl is therefore
  queued with the purl \<open>''''\<close>; when it has no license and there is a worker, its lookup is
  made with the empty string as key, in whatever order the jobs are worked (any schedule
  that is a permutation): the cache is read first when one is configured and, on
  a miss, the provider is asked; without a cache the provider is asked at once.  An SPDX
  package without an external reference of type \<open>purl\<close>, by contrast, gets an error from
  \<open>GetPurl\<close>, is logged, and no job is queued for it.
\<close>

theorem empty_purl_is_looked_up:
  "Component_GetPurl cm = Inr (Purl cm) \<and>
   (i < length comps \<and> Purl (comps ! i) = [] \<longrightarrow>
      \<lparr>job_item = i, job_purl = []\<rparr>
      \<in> set (fst (queue_jobs Component_item (enumerate 0 comps) s))) \<and>
   (i < length comps \<and> Purl (comps ! i) = [] \<and> \<not> Component_HasLicense (comps ! i) \<and>
    0 < par \<and> (\<forall>js. mset (schedule s js) = mset js) \<longrightarrow>
      first_call c [] \<in> set (calls (snd (snd
        (processItemsParallel Component_item comps par prov c ttl s))))) \<and>
   (\<not> Component_HasLicense (comps ! job_item j) \<and> job_purl j = [] \<and>
    cache_Get cc [] (world s) = (Inl err, w) \<and> errors_Is err ErrCacheMiss \<longrightarrow>
      (\<exists>evs. calls (snd (work Component_item prov (Some cc) ttl j (comps, s))) =
         calls s @ CacheGet [] # ProviderGet [] # evs)) \<and>
   (\<not> Component_HasLicense (comps ! job_item j) \<and> job_purl j = [] \<longrightarrow>
      (\<exists>evs. calls (snd (work Component_item prov None ttl j (comps, s))) =
         calls s @ ProviderGet [] # evs)) \<and>
   (n < length pkgs \<and> first_purl (elems (ExternalRefs (pkgs ! n))) = None \<longrightarrow>
      Package_GetPurl (pkgs ! n) = Inl (New ''no PURL found for package with SPDX ID %s'') \<and>
      (\<forall>k \<in> set (fst (queue_jobs Package_item (enumerate 0 pkgs) s)). job_item k \<noteq> n) \<and>
      \<lparr>log_msg = ''failed to get purl for item'', log_purl = None,
        log_id = SPDXID (pkgs ! n),
        log_error = New ''no PURL found for package with SPDX ID %s''\<rparr>
      \<in> set (logged (snd (queue_jobs Package_item (enumerate 0 pkgs) s))))"
proof (intro conjI impI)
  show "Component_GetPurl cm = Inr (Purl cm)"
    by (simp add: Component_GetPurl_def GetCycloneDXComponentPurl_def)
next
  assume a: "i < length comps \<and> Purl (comps ! i) = []"
  then have "GetPurl Component_item (comps ! i) = Inr []"
    by (simp add: Component_item_def Component_GetPurl_def GetCycloneDXComponentPurl_def)
  then show "\<lparr>job_item = i, job_purl = []\<rparr>
      \<in> set (fst (queue_jobs Component_item (enumerate 0 comps) s))"
    using a queue_jobs_enqueues [of i comps Component_item "[]" s] by simp
next
  assume a: "i < length comps \<and> Purl (comps ! i) = [] \<and> \<not> Component_HasLicense (comps ! i) \<and>
    0 < par \<and> (\<forall>js. mset (schedule s js) = mset js)"
  then have "GetPurl Component_item (comps ! i) = Inr []"
    by (simp add: Component_item_def Component_GetPurl_def GetCycloneDXComponentPurl_def)
  moreover have "\<not> HasLicense Component_item (comps ! i)"
    using a by (simp add: Component_item_def)
  ultimately show "first_call c [] \<in> set (calls (snd (snd
        (processItemsParallel Component_item comps par prov c ttl s))))"
    using a processItemsParallel_visits [of i comps Component_item "[]" par s c prov ttl] by simp
next
  assume a: "\<not> Component_HasLicense (comps ! job_item j) \<and> job_purl j = [] \<and>
    cache_Get cc [] (world s) = (Inl err, w) \<and> errors_Is err ErrCacheMiss"
  then have "\<not> HasLicense Component_item (comps ! job_item j)"
    by (simp add: Component_item_def)
  then show "\<exists>evs. calls (snd (work Component_item prov (Some cc) ttl j (comps, s))) =
         calls s @ CacheGet [] # ProviderGet [] # evs"
    using a work_miss_calls [of Component_item comps j cc s err w prov ttl] by simp
next
  assume a: "\<not> Component_HasLicense (comps ! job_item j) \<and> job_purl j = []"
  then have "\<not> HasLicense Component_item (comps ! job_item j)"
    by (simp add: Component_item_def)
  then show "\<exists>evs. calls (snd (work Component_item prov None ttl j (comps, s))) =
         calls s @ ProviderGet [] # evs"
    using a work_first_call [of Component_item comps j prov None ttl s]
    by (simp add: first_call_def)
next
  assume a: "n < length pkgs \<and> first_purl (elems (ExternalRefs (pkgs ! n))) = None"
  then have g: "GetPurl Package_item (pkgs ! n) =
      Inl (New ''no PURL found for package with SPDX ID %s'')"
    by (simp add: Package_item_def Package_GetPurl_def GetSPDXPackagePurl_def)
  show "Package_GetPurl (pkgs ! n) = Inl (New ''no PURL found for package with SPDX ID %s'')"
    using a by (simp add: Package_GetPurl_def GetSPDXPackagePurl_def)
  show "\<forall>k \<in> set (fst (queue_jobs Package_item (enumerate 0 pkgs) s)). job_item k \<noteq> n"
    using a g queue_jobs_skips [of n pkgs Package_item
        "New ''no PURL found for package with SPDX ID %s''" s]
    by blast
  have "(n, pkgs ! n) \<in> set (enumerate 0 pkgs)" using a by (simp add: in_enumerate0)
  then have "\<lparr>log_msg = ''failed to get purl for item'', log_purl = None,
        log_id = GetLogID Package_item (pkgs ! n),
        log_error = New ''no PURL found for package with SPDX ID %s''\<rparr>
      \<in> set (logged (snd (queue_jobs Package_item (enumerate 0 pkgs) s)))"
    using g by (rule queue_jobs_logs_failure)
  then show "\<lparr>log_msg = ''failed to get purl for item'', log_purl = None,
        log_id = SPDXID (pkgs ! n),
        log_error = New ''no PURL found for package with SPDX ID %s''\<rparr>
      \<in> set (logged (snd (queue_jobs Package_item (enumerate 0 pkgs) s)))"
    by (simp add: Package_item_def Package_GetLogID_def)
qed

lemma parse_spdx_two: "ParseSBOMFile example_lib spdx_two = Inr spdx_two_doc"
  by (simp add: example_defs decode_defs spdx_two_doc_def)

lemma parse_cdx_empty_purl:
  "ParseCycloneDXFile example_lib cdx_empty_purl = Inr cdx_empty_purl_doc"
  by (simp add: example_defs decode_defs cdx_empty_purl_doc_def)

lemma process_spdx_two:
  "processItemsParallel Package_item (elems (Packages spdx_two_doc)) 1
     (spdx_provider failing_spdx) (spdx_cache failing_spdx) (spdx_cacheTTL failing_spdx) state0 =
   (None, elems (Packages spdx_two_doc),
    state0\<lparr>calls := [CacheGet ''pkg:npm/b@1.0.0'', ProviderGet ''pkg:npm/b@1.0.0''], logged := [missing_purl_rec, failed_lookup_rec]\<rparr>)"
  by (simp add: worker_defs spdx_two_doc_def failing_spdx_def elems_def
      missing_purl_rec_def failed_lookup_rec_def)

lemma process_cdx_empty_purl:
  "processItemsParallel Component_item (elems (Components cdx_empty_purl_doc)) 1
     (cdx_provider empty_purl_cdx) (cdx_cache empty_purl_cdx) (cdx_cacheTTL empty_purl_cdx)
     state0 =
   (None, elems (Components cdx_empty_purl_doc),
    state0\<lparr>calls := [CacheGet [], ProviderGet []], logged := [empty_purl_rec]\<rparr>)"
  by (simp add: worker_defs cdx_empty_purl_doc_def empty_purl_cdx_def elems_def
      empty_purl_rec_def)

lemma marshal_spdx_two:
  "Marshal example_lib (enc_Document spdx_two_doc) = Inr spdx_two_out"
  by (simp add: example_defs encode_defs spdx_two_doc_def)

lemma marshal_cdx_empty_purl:
  "Marshal example_lib (enc_BOM cdx_empty_purl_doc) = Inr cdx_empty_purl_out"
  by (simp add: example_defs encode_defs cdx_empty_purl_doc_def)

lemma enrich_spdx_two:
  "SPDXEnricher_Enrich example_lib failing_spdx \<lparr>SBOM = spdx_two, Parallelism = 1\<rparr> state0 =
     (Inr spdx_two_out,
      state0\<lparr>calls := [CacheGet ''pkg:npm/b@1.0.0'', ProviderGet ''pkg:npm/b@1.0.0''], logged := [missing_purl_rec, failed_lookup_rec]\<rparr>)"
proof -
  have ne: "elems (Packages spdx_two_doc) \<noteq> []"
    by (simp add: spdx_two_doc_def elems_def)
  have same: "spdx_two_doc\<lparr>Packages := Some (elems (Packages spdx_two_doc))\<rparr> = spdx_two_doc"
    by (simp add: spdx_two_doc_def elems_def)
  show ?thesis
    using SPDXEnricher_Enrich_nonempty
        [of example_lib "\<lparr>SBOM = spdx_two, Parallelism = 1\<rparr>" spdx_two_doc failing_spdx state0]
      parse_spdx_two ne process_spdx_two marshal_spdx_two same
    by simp
qed

lemma enrich_cdx_empty_purl:
  "CycloneDXEnricher_Enrich example_lib empty_purl_cdx
     \<lparr>SBOM = cdx_empty_purl, Parallelism = 1\<rparr> state0 =
     (Inr cdx_empty_purl_out,
      state0\<lparr>calls := [CacheGet [], ProviderGet []], logged := [empty_purl_rec]\<rparr>)"
proof -
  have ne: "elems (Components cdx_empty_purl_doc) \<noteq> []"
    by (simp add: cdx_empty_purl_doc_def elems_def)
  have same: "cdx_empty_purl_doc\<lparr>Components := Some (elems (Components cdx_empty_purl_doc))\<rparr> =
      cdx_empty_purl_doc"
    by (simp add: cdx_empty_purl_doc_def elems_def)
  show ?thesis
    using CycloneDXEnricher_Enrich_nonempty
        [of example_lib "\<lparr>SBOM = cdx_empty_purl, Parallelism = 1\<rparr>" cdx_empty_purl_doc
          empty_purl_cdx state0]
      parse_cdx_empty_purl ne process_cdx_empty_purl marshal_cdx_empty_purl same
    by simp
qed

lemma enrich_bad_input:
  "fst (SPDXEnricher_Enrich example_lib failing_spdx \<lparr>SBOM = ''{'', Parallelism = 1\<rparr> state0) =
     Inl (Errorf ''failed to parse SBOM file: %w''
       [Errorf ''failed to unwrap GitHub SBOM: %w''
         [Errorf ''failed to parse JSON: %w'' [New ''invalid character'']]])"
  "fst (CycloneDXEnricher_Enrich example_lib empty_purl_cdx
         \<lparr>SBOM = ''{'', Parallelism = 1\<rparr> state0) =
     Inl (Errorf ''failed to parse SBOM file: %w''
       [Errorf ''failed to parse CycloneDX JSON: %w'' [New ''invalid character'']])"
  by (simp_all add: SPDXEnricher_Enrich_def CycloneDXEnricher_Enrich_def example_defs decode_defs)

lemma get_purl_spdx_two:
  "GetPurl Package_item (elems (Packages spdx_two_doc) ! 0) =
     Inl (New ''no PURL found for package with SPDX ID %s'')"
  "\<not> HasLicense Package_item (elems (Packages spdx_two_doc) ! 1)"
  "length (elems (Packages spdx_two_doc)) = 2"
  "GetLogID Package_item (elems (Packages spdx_two_doc) ! 0) = ''SPDXRef-A''"
  "GetLogID Package_item (elems (Packages spdx_two_doc) ! 1) = ''SPDXRef-B''"
  by (simp_all add: spdx_two_doc_def elems_def worker_defs)

lemma get_failing:
  "Get \<lparr>opt_Purl = ''pkg:npm/b@1.0.0'', opt_Provider = spdx_provider failing_spdx,
        opt_Cache = spdx_cache failing_spdx, opt_CacheTTL = spdx_cacheTTL failing_spdx\<rparr> state0 =
     (Inl (Errorf ''failed to get license from provider: %w'' [New ''API error'']),
      state0\<lparr>calls := [CacheGet ''pkg:npm/b@1.0.0'', ProviderGet ''pkg:npm/b@1.0.0'']\<rparr>)"
  by (simp add: worker_defs failing_spdx_def)

lemma parse_spdx_three: "ParseSBOMFile example_lib spdx_three = Inr spdx_three_doc"
  by (simp add: example_defs decode_defs spdx_three_doc_def)

lemma three_packages:
  "length (elems (Packages spdx_three_doc)) = 3"
  "GetPurl Package_item (elems (Packages spdx_three_doc) ! 0) = Inr ''pkg:npm/pkg1@1.0.0''"
  "GetPurl Package_item (elems (Packages spdx_three_doc) ! 1) = Inr ''pkg:npm/pkg2@1.0.0''"
  "GetPurl Package_item (elems (Packages spdx_three_doc) ! 2) = Inr ''pkg:npm/pkg3@1.0.0''"
  "\<not> HasLicense Package_item (elems (Packages spdx_three_doc) ! 0)"
  "\<not> HasLicense Package_item (elems (Packages spdx_three_doc) ! 1)"
  "\<not> HasLicense Package_item (elems (Packages spdx_three_doc) ! 2)"
  "GetLogID Package_item (elems (Packages spdx_three_doc) ! 1) = ''SPDXRef-Package2''"
  by (simp_all add: spdx_three_doc_def elems_def Package_item_def Package_GetPurl_def
      GetSPDXPackagePurl_def Package_HasLicense_def Package_GetLogID_def)

lemma get_three:
  "fst (Get \<lparr>opt_Purl = ''pkg:npm/pkg1@1.0.0'', opt_Provider = spdx_provider pkg2_failing_spdx,
        opt_Cache = spdx_cache pkg2_failing_spdx,
        opt_CacheTTL = spdx_cacheTTL pkg2_failing_spdx\<rparr> (s :: unit state)) = Inr ''MIT''"
  "fst (Get \<lparr>opt_Purl = ''pkg:npm/pkg2@1.0.0'', opt_Provider = spdx_provider pkg2_failing_spdx,
        opt_Cache = spdx_cache pkg2_failing_spdx,
        opt_CacheTTL = spdx_cacheTTL pkg2_failing_spdx\<rparr> (s :: unit state)) =
     Inl (Errorf ''failed to get license from provider: %w'' [New ''API error''])"
  "fst (Get \<lparr>opt_Purl = ''pkg:npm/pkg3@1.0.0'', opt_Provider = spdx_provider pkg2_failing_spdx,
        opt_Cache = spdx_cache pkg2_failing_spdx,
        opt_CacheTTL = spdx_cacheTTL pkg2_failing_spdx\<rparr> (s :: unit state)) = Inr ''MIT''"
  by (simp_all add: Get_def Get_from_provider_def call_cache_Get_def call_provider_Get_def
      call_cache_SetWithTTL_def mockProvider_def mockCache_def pkg2_failing_spdx_def)

lemma process_spdx_three:
  "processItemsParallel Package_item (elems (Packages spdx_three_doc)) 1
     (spdx_provider pkg2_failing_spdx) (spdx_cache pkg2_failing_spdx)
     (spdx_cacheTTL pkg2_failing_spdx) state0 =
   (None,
    [Package_SetLicense ''MIT'' (elems (Packages spdx_three_doc) ! 0),
     elems (Packages spdx_three_doc) ! 1,
     Package_SetLicense ''MIT'' (elems (Packages spdx_three_doc) ! 2)],
    state0\<lparr>calls :=
        [CacheGet ''pkg:npm/pkg1@1.0.0'', ProviderGet ''pkg:npm/pkg1@1.0.0'',
         CacheSetWithTTL ''pkg:npm/pkg1@1.0.0'' ''MIT'' 86400000000000,
         CacheGet ''pkg:npm/pkg2@1.0.0'', ProviderGet ''pkg:npm/pkg2@1.0.0'',
         CacheGet ''pkg:npm/pkg3@1.0.0'', ProviderGet ''pkg:npm/pkg3@1.0.0'',
         CacheSetWithTTL ''pkg:npm/pkg3@1.0.0'' ''MIT'' 86400000000000],
      logged := [pkg2_failed_rec]\<rparr>)"
  by (simp add: worker_defs spdx_three_doc_def pkg2_failing_spdx_def elems_def
      pkg2_failed_rec_def)

lemma marshal_spdx_three:
  "Marshal example_lib (enc_Document (spdx_three_doc\<lparr>Packages := Some
     [Package_SetLicense ''MIT'' (elems (Packages spdx_three_doc) ! 0),
      elems (Packages spdx_three_doc) ! 1,
      Package_SetLicense ''MIT'' (elems (Packages spdx_three_doc) ! 2)]\<rparr>)) =
   Inr spdx_three_out"
  by (simp add: example_defs encode_defs spdx_three_doc_def elems_def Package_SetLicense_def
      Let_def)

theorem per_item_failures_absorbed_witness:
  "ParseSBOMFile example_lib spdx_two = Inr spdx_two_doc \<and>
   GetPurl Package_item (elems (Packages spdx_two_doc) ! 0) =
     Inl (New ''no PURL found for package with SPDX ID %s'') \<and>
   Get \<lparr>opt_Purl = ''pkg:npm/b@1.0.0'', opt_Provider = spdx_provider failing_spdx,
        opt_Cache = spdx_cache failing_spdx, opt_CacheTTL = spdx_cacheTTL failing_spdx\<rparr> state0 =
     (Inl (Errorf ''failed to get license from provider: %w'' [New ''API error'']),
      state0\<lparr>calls := [CacheGet ''pkg:npm/b@1.0.0'', ProviderGet ''pkg:npm/b@1.0.0'']\<rparr>) \<and>
   work Package_item (spdx_provider failing_spdx) (spdx_cache failing_spdx)
       (spdx_cacheTTL failing_spdx) \<lparr>job_item = 1, job_purl = ''pkg:npm/b@1.0.0''\<rparr>
       (elems (Packages spdx_two_doc), state0) =
     (elems (Packages spdx_two_doc),
      state0\<lparr>calls := [CacheGet ''pkg:npm/b@1.0.0'', ProviderGet ''pkg:npm/b@1.0.0''],
        logged := [failed_lookup_rec]\<rparr>) \<and>
   missing_purl_rec \<in> set (logged (snd (snd
     (processItemsParallel Package_item (elems (Packages spdx_two_doc)) 1
        (spdx_provider failing_spdx) (spdx_cache failing_spdx) (spdx_cacheTTL failing_spdx)
        state0)))) \<and>
   SPDXEnricher_Enrich example_lib failing_spdx \<lparr>SBOM = spdx_two, Parallelism = 1\<rparr> state0 =
     (Inr spdx_two_out,
      state0\<lparr>calls := [CacheGet ''pkg:npm/b@1.0.0'', ProviderGet ''pkg:npm/b@1.0.0''], logged := [missing_purl_rec, failed_lookup_rec]\<rparr>) \<and>
   ParseCycloneDXFile example_lib cdx_empty_purl = Inr cdx_empty_purl_doc \<and>
   fst (CycloneDXEnricher_Enrich example_lib empty_purl_cdx
         \<lparr>SBOM = cdx_empty_purl, Parallelism = 1\<rparr> state0) = Inr cdx_empty_purl_out \<and>
   fst (SPDXEnricher_Enrich example_lib failing_spdx \<lparr>SBOM = ''{'', Parallelism = 1\<rparr> state0) =
     Inl (Errorf ''failed to parse SBOM file: %w''
       [Errorf ''failed to unwrap GitHub SBOM: %w''
         [Errorf ''failed to parse JSON: %w'' [New ''invalid character'']]]) \<and>
   (\<exists>perr. ParseSBOMFile example_lib ''{'' = Inl perr) \<and>
   fst (CycloneDXEnricher_Enrich example_lib empty_purl_cdx
         \<lparr>SBOM = ''{'', Parallelism = 1\<rparr> state0) =
     Inl (Errorf ''failed to parse SBOM file: %w''
       [Errorf ''failed to parse CycloneDX JSON: %w'' [New ''invalid character'']]) \<and>
   (\<exists>perr. ParseCycloneDXFile example_lib ''{'' = Inl perr) \<and>
   ParseSBOMFile example_lib spdx_three = Inr spdx_three_doc \<and>
   fst (snd (processItemsParallel Package_item (elems (Packages spdx_three_doc)) 1
     (spdx_provider pkg2_failing_spdx) (spdx_cache pkg2_failing_spdx)
     (spdx_cacheTTL pkg2_failing_spdx) state0)) ! 0 =
       Package_SetLicense ''MIT'' (elems (Packages spdx_three_doc) ! 0) \<and>
   fst (snd (processItemsParallel Package_item (elems (Packages spdx_three_doc)) 1
     (spdx_provider pkg2_failing_spdx) (spdx_cache pkg2_failing_spdx)
     (spdx_cacheTTL pkg2_failing_spdx) state0)) ! 1 = elems (Packages spdx_three_doc) ! 1 \<and>
   fst (snd (processItemsParallel Package_item (elems (Packages spdx_three_doc)) 1
     (spdx_provider pkg2_failing_spdx) (spdx_cache pkg2_failing_spdx)
     (spdx_cacheTTL pkg2_failing_spdx) state0)) ! 2 =
       Package_SetLicense ''MIT'' (elems (Packages spdx_three_doc) ! 2) \<and>
   pkg2_failed_rec \<in> set (logged (snd (snd
     (processItemsParallel Package_item (elems (Packages spdx_three_doc)) 1
        (spdx_provider pkg2_failing_spdx) (spdx_cache pkg2_failing_spdx)
        (spdx_cacheTTL pkg2_failing_spdx) state0)))) \<and>
   LicenseConcluded (Package_SetLicense ''MIT'' (elems (Packages spdx_three_doc) ! 2)) =
     ''MIT'' \<and>
   [e \<leftarrow> calls (snd (snd (processItemsParallel Package_item
        (elems (Packages spdx_three_doc)) 1
        (spdx_provider pkg2_failing_spdx) (spdx_cache pkg2_failing_spdx)
        (spdx_cacheTTL pkg2_failing_spdx) state0))). \<exists>purl. e = ProviderGet purl] =
     [ProviderGet ''pkg:npm/pkg1@1.0.0'', ProviderGet ''pkg:npm/pkg2@1.0.0'',
      ProviderGet ''pkg:npm/pkg3@1.0.0''] \<and>
   fst (SPDXEnricher_Enrich example_lib pkg2_failing_spdx
         \<lparr>SBOM = spdx_three, Parallelism = 1\<rparr> state0) = Inr spdx_three_out"
proof -
  have ne1: "elems (Packages spdx_two_doc) \<noteq> []"
    by (simp add: spdx_two_doc_def elems_def)
  have ne2: "elems (Components cdx_empty_purl_doc) \<noteq> []"
    by (simp add: cdx_empty_purl_doc_def elems_def)
  have no_marshal_error:
    "\<And>d. Marshal example_lib d \<noteq> Inl (Errorf ''failed to parse SBOM file: %w''
       [Errorf ''failed to unwrap GitHub SBOM: %w''
         [Errorf ''failed to parse JSON: %w'' [New ''invalid character'']]])"
    "\<And>d. Marshal example_lib d \<noteq> Inl (Errorf ''failed to parse SBOM file: %w''
       [Errorf ''failed to parse CycloneDX JSON: %w'' [New ''invalid character'']])"
    by (simp_all add: example_lib_def table_lib_def split: option.splits)
  have run:
    "work Package_item (spdx_provider failing_spdx) (spdx_cache failing_spdx)
         (spdx_cacheTTL failing_spdx) \<lparr>job_item = 1, job_purl = ''pkg:npm/b@1.0.0''\<rparr>
         (elems (Packages spdx_two_doc), state0) =
       (elems (Packages spdx_two_doc),
        state0\<lparr>calls := [CacheGet ''pkg:npm/b@1.0.0'', ProviderGet ''pkg:npm/b@1.0.0''],
          logged := [failed_lookup_rec]\<rparr>) \<and>
     missing_purl_rec \<in> set (logged (snd (snd
       (processItemsParallel Package_item (elems (Packages spdx_two_doc)) 1
          (spdx_provider failing_spdx) (spdx_cache failing_spdx) (spdx_cacheTTL failing_spdx)
          state0))))"
    using
      per_item_failures_absorbed
        [where ops = Package_item and items = "elems (Packages spdx_two_doc)" and par = 1
          and prov = "spdx_provider failing_spdx" and c = "spdx_cache failing_spdx"
          and ttl = "spdx_cacheTTL failing_spdx" and s = state0 and i = 0
          and purlErr = "New ''no PURL found for package with SPDX ID %s''"
          and k = 1 and purl = "''pkg:npm/b@1.0.0''"
          and j = "\<lparr>job_item = 1, job_purl = ''pkg:npm/b@1.0.0''\<rparr>"
          and licErr = "Errorf ''failed to get license from provider: %w'' [New ''API error'']"
          and ?s1.0 = "state0\<lparr>calls := [CacheGet ''pkg:npm/b@1.0.0'',
              ProviderGet ''pkg:npm/b@1.0.0'']\<rparr>"
          and lib = example_lib and opts = "\<lparr>SBOM = spdx_two, Parallelism = 1\<rparr>"
          and doc = spdx_two_doc and e = failing_spdx
          and bom = cdx_empty_purl_doc and e' = empty_purl_cdx and err = ErrCacheMiss]
      get_purl_spdx_two get_failing
    by (simp add: state0_def missing_purl_rec_def failed_lookup_rec_def)
  have bad:
    "(\<exists>perr. ParseSBOMFile example_lib ''{'' = Inl perr) \<and>
     (\<exists>perr. ParseCycloneDXFile example_lib ''{'' = Inl perr)"
    using
      per_item_failures_absorbed
        [where ops = Package_item and items = "elems (Packages spdx_two_doc)" and par = 1
          and prov = "spdx_provider failing_spdx" and c = "spdx_cache failing_spdx"
          and ttl = "spdx_cacheTTL failing_spdx" and s = state0 and i = 0
          and purlErr = "New ''no PURL found for package with SPDX ID %s''"
          and k = 1 and purl = "''pkg:npm/b@1.0.0''"
          and j = "\<lparr>job_item = 1, job_purl = ''pkg:npm/b@1.0.0''\<rparr>"
          and licErr = "Errorf ''failed to get license from provider: %w'' [New ''API error'']"
          and ?s1.0 = "state0\<lparr>calls := [CacheGet ''pkg:npm/b@1.0.0'',
              ProviderGet ''pkg:npm/b@1.0.0'']\<rparr>"
          and lib = example_lib and opts = "\<lparr>SBOM = ''{'', Parallelism = 1\<rparr>"
          and doc = spdx_two_doc and e = failing_spdx
          and bom = cdx_empty_purl_doc and e' = empty_purl_cdx
          and err = "Errorf ''failed to parse SBOM file: %w''
            [Errorf ''failed to unwrap GitHub SBOM: %w''
              [Errorf ''failed to parse JSON: %w'' [New ''invalid character'']]]"]
      per_item_failures_absorbed
        [where ops = Package_item and items = "elems (Packages spdx_two_doc)" and par = 1
          and prov = "spdx_provider failing_spdx" and c = "spdx_cache failing_spdx"
          and ttl = "spdx_cacheTTL failing_spdx" and s = state0 and i = 0
          and purlErr = "New ''no PURL found for package with SPDX ID %s''"
          and k = 1 and purl = "''pkg:npm/b@1.0.0''"
          and j = "\<lparr>job_item = 1, job_purl = ''pkg:npm/b@1.0.0''\<rparr>"
          and licErr = "Errorf ''failed to get license from provider: %w'' [New ''API error'']"
          and ?s1.0 = "state0\<lparr>calls := [CacheGet ''pkg:npm/b@1.0.0'',
              ProviderGet ''pkg:npm/b@1.0.0'']\<rparr>"
          and lib = example_lib and opts = "\<lparr>SBOM = ''{'', Parallelism = 1\<rparr>"
          and doc = spdx_two_doc and e = failing_spdx
          and bom = cdx_empty_purl_doc and e' = empty_purl_cdx
          and err = "Errorf ''failed to parse SBOM file: %w''
            [Errorf ''failed to parse CycloneDX JSON: %w'' [New ''invalid character'']]"]
      enrich_bad_input no_marshal_error
    by simp
  have perm: "\<forall>js. mset (schedule state0 js) = mset js" by (simp add: state0_def)
  have others:
    "fst (snd (processItemsParallel Package_item (elems (Packages spdx_three_doc)) 1
       (spdx_provider pkg2_failing_spdx) (spdx_cache pkg2_failing_spdx)
       (spdx_cacheTTL pkg2_failing_spdx) state0)) ! 0 =
         Package_SetLicense ''MIT'' (elems (Packages spdx_three_doc) ! 0) \<and>
     fst (snd (processItemsParallel Package_item (elems (Packages spdx_three_doc)) 1
       (spdx_provider pkg2_failing_spdx) (spdx_cache pkg2_failing_spdx)
       (spdx_cacheTTL pkg2_failing_spdx) state0)) ! 2 =
         Package_SetLicense ''MIT'' (elems (Packages spdx_three_doc) ! 2)"
    using
      per_item_failures_absorbed
        [where ops = Package_item and items = "elems (Packages spdx_three_doc)" and par = 1
          and prov = "spdx_provider pkg2_failing_spdx" and c = "spdx_cache pkg2_failing_spdx"
          and ttl = "spdx_cacheTTL pkg2_failing_spdx" and s = state0 and i = 0
          and purlErr = "New ''no PURL found for package with SPDX ID %s''"
          and k = 0 and purl = "''pkg:npm/pkg1@1.0.0''"
          and j = "\<lparr>job_item = 1, job_purl = ''pkg:npm/pkg2@1.0.0''\<rparr>"
          and licErr = "Errorf ''failed to get license from provider: %w'' [New ''API error'']"
          and ?s1.0 = state0
          and lib = example_lib and opts = "\<lparr>SBOM = spdx_three, Parallelism = 1\<rparr>"
          and doc = spdx_three_doc and e = pkg2_failing_spdx
          and bom = cdx_empty_purl_doc and e' = empty_purl_cdx and err = ErrCacheMiss]
      per_item_failures_absorbed
        [where ops = Package_item and items = "elems (Packages spdx_three_doc)" and par = 1
          and prov = "spdx_provider pkg2_failing_spdx" and c = "spdx_cache pkg2_failing_spdx"
          and ttl = "spdx_cacheTTL pkg2_failing_spdx" and s = state0 and i = 0
          and purlErr = "New ''no PURL found for package with SPDX ID %s''"
          and k = 2 and purl = "''pkg:npm/pkg3@1.0.0''"
          and j = "\<lparr>job_item = 1, job_purl = ''pkg:npm/pkg2@1.0.0''\<rparr>"
          and licErr = "Errorf ''failed to get license from provider: %w'' [New ''API error'']"
          and ?s1.0 = state0
          and lib = example_lib and opts = "\<lparr>SBOM = spdx_three, Parallelism = 1\<rparr>"
          and doc = spdx_three_doc and e = pkg2_failing_spdx
          and bom = cdx_empty_purl_doc and e' = empty_purl_cdx and err = ErrCacheMiss]
      three_packages get_three perm
    by (simp add: Package_item_def)
  have failed:
    "fst (snd (processItemsParallel Package_item (elems (Packages spdx_three_doc)) 1
       (spdx_provider pkg2_failing_spdx) (spdx_cache pkg2_failing_spdx)
       (spdx_cacheTTL pkg2_failing_spdx) state0)) ! 1 = elems (Packages spdx_three_doc) ! 1 \<and>
     pkg2_failed_rec \<in> set (logged (snd (snd
       (processItemsParallel Package_item (elems (Packages spdx_three_doc)) 1
          (spdx_provider pkg2_failing_spdx) (spdx_cache pkg2_failing_spdx)
          (spdx_cacheTTL pkg2_failing_spdx) state0))))"
    using
      per_item_failures_absorbed
        [where ops = Package_item and items = "elems (Packages spdx_three_doc)" and par = 1
          and prov = "spdx_provider pkg2_failing_spdx" and c = "spdx_cache pkg2_failing_spdx"
          and ttl = "spdx_cacheTTL pkg2_failing_spdx" and s = state0 and i = 0
          and purlErr = "New ''no PURL found for package with SPDX ID %s''"
          and k = 1 and purl = "''pkg:npm/pkg2@1.0.0''"
          and j = "\<lparr>job_item = 1, job_purl = ''pkg:npm/pkg2@1.0.0''\<rparr>"
          and licErr = "Errorf ''failed to get license from provider: %w'' [New ''API error'']"
          and ?s1.0 = state0
          and lib = example_lib and opts = "\<lparr>SBOM = spdx_three, Parallelism = 1\<rparr>"
          and doc = spdx_three_doc and e = pkg2_failing_spdx
          and bom = cdx_empty_purl_doc and e' = empty_purl_cdx and err = ErrCacheMiss]
      three_packages get_three perm
    by (simp add: pkg2_failed_rec_def)
  have ne3: "elems (Packages spdx_three_doc) \<noteq> []"
    by (simp add: spdx_three_doc_def elems_def)
  have written:
    "fst (SPDXEnricher_Enrich example_lib pkg2_failing_spdx
           \<lparr>SBOM = spdx_three, Parallelism = 1\<rparr> state0) = Inr spdx_three_out"
    using
      per_item_failures_absorbed
        [where ops = Package_item and items = "elems (Packages spdx_three_doc)" and par = 1
          and prov = "spdx_provider pkg2_failing_spdx" and c = "spdx_cache pkg2_failing_spdx"
          and ttl = "spdx_cacheTTL pkg2_failing_spdx" and s = state0 and i = 0
          and purlErr = "New ''no PURL found for package with SPDX ID %s''"
          and k = 1 and purl = "''pkg:npm/pkg2@1.0.0''"
          and j = "\<lparr>job_item = 1, job_purl = ''pkg:npm/pkg2@1.0.0''\<rparr>"
          and licErr = "Errorf ''failed to get license from provider: %w'' [New ''API error'']"
          and ?s1.0 = state0
          and lib = example_lib and opts = "\<lparr>SBOM = spdx_three, Parallelism = 1\<rparr>"
          and doc = spdx_three_doc and e = pkg2_failing_spdx
          and bom = cdx_empty_purl_doc and e' = empty_purl_cdx and err = ErrCacheMiss]
      parse_spdx_three ne3 process_spdx_three marshal_spdx_three
    by simp
  have attempted:
    "[e \<leftarrow> calls (snd (snd (processItemsParallel Package_item
        (elems (Packages spdx_three_doc)) 1
        (spdx_provider pkg2_failing_spdx) (spdx_cache pkg2_failing_spdx)
        (spdx_cacheTTL pkg2_failing_spdx) state0))). \<exists>purl. e = ProviderGet purl] =
     [ProviderGet ''pkg:npm/pkg1@1.0.0'', ProviderGet ''pkg:npm/pkg2@1.0.0'',
      ProviderGet ''pkg:npm/pkg3@1.0.0'']"
    by (simp add: process_spdx_three)
  have mit: "LicenseConcluded (Package_SetLicense ''MIT''
      (elems (Packages spdx_three_doc) ! 2)) = ''MIT''"
    by (simp add: Package_SetLicense_def Let_def)
  show ?thesis
    using run bad parse_spdx_two get_purl_spdx_two(1) get_failing enrich_spdx_two
      parse_cdx_empty_purl enrich_cdx_empty_purl enrich_bad_input
      parse_spdx_three others failed written attempted mit
    by simp
qed

lemma empty_purl_component:
  "Purl (elems (Components cdx_empty_purl_doc) ! 0) = []"
  "\<not> Component_HasLicense (elems (Components cdx_empty_purl_doc) ! 0)"
  "length (elems (Components cdx_empty_purl_doc)) = 1"
  by (simp_all add: cdx_empty_purl_doc_def elems_def worker_defs len_def)

lemma no_purl_package:
  "first_purl (elems (ExternalRefs (elems (Packages spdx_two_doc) ! 0))) = None"
  "SPDXID (elems (Packages spdx_two_doc) ! 0) = ''SPDXRef-A''"
  by (simp_all add: spdx_two_doc_def elems_def)

theorem empty_purl_is_looked_up_witness:
  "Purl (elems (Components cdx_empty_purl_doc) ! 0) = [] \<and>
   \<not> Component_HasLicense (elems (Components cdx_empty_purl_doc) ! 0) \<and>
   Component_GetPurl (elems (Components cdx_empty_purl_doc) ! 0) = Inr [] \<and>
   \<lparr>job_item = 0, job_purl = []\<rparr>
     \<in> set (fst (queue_jobs Component_item
          (enumerate 0 (elems (Components cdx_empty_purl_doc))) state0)) \<and>
   CacheGet [] \<in> set (calls (snd (snd
     (processItemsParallel Component_item (elems (Components cdx_empty_purl_doc)) 1
        (cdx_provider empty_purl_cdx) (cdx_cache empty_purl_cdx) (cdx_cacheTTL empty_purl_cdx)
        state0)))) \<and>
   (\<exists>evs. calls (snd (work Component_item (cdx_provider empty_purl_cdx)
                (Some (mockCache None None)) 3600 \<lparr>job_item = 0, job_purl = []\<rparr>
                (elems (Components cdx_empty_purl_doc), state0))) =
      CacheGet [] # ProviderGet [] # evs) \<and>
   (\<exists>evs. calls (snd (work Component_item (cdx_provider empty_purl_cdx)
                None 3600 \<lparr>job_item = 0, job_purl = []\<rparr>
                (elems (Components cdx_empty_purl_doc), state0))) =
      ProviderGet [] # evs) \<and>
   CycloneDXEnricher_Enrich example_lib empty_purl_cdx
     \<lparr>SBOM = cdx_empty_purl, Parallelism = 1\<rparr> state0 =
     (Inr cdx_empty_purl_out,
      state0\<lparr>calls := [CacheGet [], ProviderGet []], logged := [empty_purl_rec]\<rparr>) \<and>
   first_purl (elems (ExternalRefs (elems (Packages spdx_two_doc) ! 0))) = None \<and>
   Package_GetPurl (elems (Packages spdx_two_doc) ! 0) =
     Inl (New ''no PURL found for package with SPDX ID %s'') \<and>
   0 \<notin> job_item ` set (fst (queue_jobs Package_item
        (enumerate 0 (elems (Packages spdx_two_doc))) state0)) \<and>
   missing_purl_rec \<in> set (logged (snd
     (queue_jobs Package_item (enumerate 0 (elems (Packages spdx_two_doc))) state0)))"
proof -
  have miss: "cache_Get (mockCache None None) [] (world state0) = (Inl ErrCacheMiss, ())"
    by (simp add: mockCache_def)
  have first: "first_call (cdx_cache empty_purl_cdx) [] = CacheGet []"
    by (simp add: first_call_def empty_purl_cdx_def)
  have main:
    "Component_GetPurl (elems (Components cdx_empty_purl_doc) ! 0) = Inr [] \<and>
     \<lparr>job_item = 0, job_purl = []\<rparr>
       \<in> set (fst (queue_jobs Component_item
            (enumerate 0 (elems (Components cdx_empty_purl_doc))) state0)) \<and>
     CacheGet [] \<in> set (calls (snd (snd
       (processItemsParallel Component_item (elems (Components cdx_empty_purl_doc)) 1
          (cdx_provider empty_purl_cdx) (cdx_cache empty_purl_cdx)
          (cdx_cacheTTL empty_purl_cdx) state0)))) \<and>
     (\<exists>evs. calls (snd (work Component_item (cdx_provider empty_purl_cdx)
                  (Some (mockCache None None)) 3600 \<lparr>job_item = 0, job_purl = []\<rparr>
                  (elems (Components cdx_empty_purl_doc), state0))) =
        CacheGet [] # ProviderGet [] # evs) \<and>
     (\<exists>evs. calls (snd (work Component_item (cdx_provider empty_purl_cdx)
                  None 3600 \<lparr>job_item = 0, job_purl = []\<rparr>
                  (elems (Components cdx_empty_purl_doc), state0))) =
        ProviderGet [] # evs) \<and>
     Package_GetPurl (elems (Packages spdx_two_doc) ! 0) =
       Inl (New ''no PURL found for package with SPDX ID %s'') \<and>
     0 \<notin> job_item ` set (fst (queue_jobs Package_item
          (enumerate 0 (elems (Packages spdx_two_doc))) state0)) \<and>
     missing_purl_rec \<in> set (logged (snd
       (queue_jobs Package_item (enumerate 0 (elems (Packages spdx_two_doc))) state0)))"
    using
      empty_purl_is_looked_up
        [where cm = "elems (Components cdx_empty_purl_doc) ! 0"
          and i = 0 and comps = "elems (Components cdx_empty_purl_doc)" and s = state0
          and par = 1 and c = "cdx_cache empty_purl_cdx" and prov = "cdx_provider empty_purl_cdx"
          and ttl = "cdx_cacheTTL empty_purl_cdx"
          and j = "\<lparr>job_item = 0, job_purl = []\<rparr>" and cc = "mockCache None None"
          and err = ErrCacheMiss and w = "()" and n = 0
          and pkgs = "elems (Packages spdx_two_doc)"]
      empty_purl_component no_purl_package get_purl_spdx_two(3) miss first
    by (auto simp: missing_purl_rec_def state0_def empty_purl_cdx_def)
  show ?thesis
    using main empty_purl_component no_purl_package enrich_cdx_empty_purl by simp
qed

subsection \<open>The Ecosystems client\<close>

lemma dec_string_error: "dec_string j cur = Inl e \<Longrightarrow> e = json_type_error"
  by (cases j) auto

lemma dec_list_error:
  assumes "\<And>c x e. f c x = Inl e \<Longrightarrow> e = json_type_error"
  shows "dec_list f zero js cur = Inl e \<Longrightarrow> e = json_type_error"
proof (induction js arbitrary: e cur)
  case Nil
  then show ?case by simp
next
  case (Cons j js)
  show ?case
  proof (cases "f (case cur of [] \<Rightarrow> zero | c # cs \<Rightarrow> c) j")
    case (Inl e1)
    then show ?thesis using Cons.prems assms by auto
  next
    case (Inr x)
    then show ?thesis using Cons by (auto split: sum.splits)
  qed
qed

lemma dec_slice_error:
  assumes "\<And>c x e. f c x = Inl e \<Longrightarrow> e = json_type_error"
  shows "dec_slice f zero j cur = Inl e \<Longrightarrow> e = json_type_error"
proof (cases j)
  case (JArray js)
  assume "dec_slice f zero j cur = Inl e"
  then have "dec_list f zero js (elems cur) = Inl e" using JArray by (auto split: sum.splits)
  then show ?thesis using assms by (rule dec_list_error [rotated])
qed auto

lemma dec_object_error:
  assumes "\<And>k v a e. fld k v a = Inl e \<Longrightarrow> e = json_type_error"
  shows "dec_object fld kvs a = Inl e \<Longrightarrow> e = json_type_error"
proof (induction kvs arbitrary: a)
  case Nil
  then show ?case by simp
next
  case (Cons kv kvs)
  obtain k v where kv: "kv = (k, v)" by (cases kv)
  show ?case
  proof (cases "fld k v a")
    case (Inl e1)
    then show ?thesis using Cons.prems kv assms by auto
  next
    case (Inr a')
    then show ?thesis using Cons kv by auto
  qed
qed

lemma dec_struct_error:
  assumes "\<And>k v a e. fld k v a = Inl e \<Longrightarrow> e = json_type_error"
  shows "dec_struct fld cur j = Inl e \<Longrightarrow> e = json_type_error"
proof (cases j)
  case (JObject kvs)
  assume "dec_struct fld cur j = Inl e"
  then have "dec_object fld kvs cur = Inl e" using JObject by simp
  then show ?thesis using assms by (rule dec_object_error [rotated])
qed auto

lemma LookupResponse_field_error:
  "LookupResponse_field k v r = Inl e \<Longrightarrow> e = json_type_error"
proof -
  assume a: "LookupResponse_field k v r = Inl e"
  have "dec_slice (\<lambda>cur j. dec_string j cur) [] v (NormalizedLicenses r) = Inl e"
    using a by (auto simp: LookupResponse_field_def store_def split: if_splits sum.splits)
  then show ?thesis
    by (rule dec_slice_error [rotated]) (rule dec_string_error)
qed

lemma dec_results_not_found:
  "dec_results j = Inl e \<Longrightarrow> \<not> errors_Is e ErrLicenseNotFound"
proof -
  assume "dec_results j = Inl e"
  then have "e = json_type_error"
    unfolding dec_results_def
    by (rule dec_slice_error [rotated])
      (rule dec_struct_error [rotated], assumption, rule LookupResponse_field_error)
  then show ?thesis by (simp add: json_type_error_def)
qed

text \<open>
  Claim C4, as the code has it.  Once the request is built and the service has
  answered (and the decoder's own errors are not the \<open>NotFound\<close> sentinel), the lookup
  returns a \<open>NotFound\<close> error exactly when the status is 404, or the status is 200 and
  the body decodes to a result array that is empty or whose first result has an empty
  license list; results after the first are not looked at.  On success it returns the
  first license of the first result.
\<close>

theorem lookup_not_found:
  assumes "NewRequestWithContext lib ''GET'' (apiURL lib s purl) = Inr req"
    and "client s (req\<lparr>req_UserAgent := userAgent s\<rparr>) = Inr response"
    and "\<forall>e. Decode lib (Body response) = Inl e \<longrightarrow> \<not> errors_Is e ErrLicenseNotFound"
  shows "((\<exists>err. Client_Get lib s purl = Inl err \<and> errors_Is err ErrLicenseNotFound) \<longleftrightarrow>
            (StatusCode response = 404 \<or>
             (StatusCode response = 200 \<and>
              (\<exists>results. decode_body lib (Body response) = Inr results \<and>
                 first_result_empty (elems results))))) \<and>
         (StatusCode response = 200 \<and> decode_body lib (Body response) = Inr results \<and>
          elems results = r # rest \<and> elems (NormalizedLicenses r) = l # ls \<longrightarrow>
            Client_Get lib s purl = Inr l)"
proof -
  have bad: "\<And>e. decode_body lib (Body response) = Inl e \<Longrightarrow> \<not> errors_Is e ErrLicenseNotFound"
    using assms(3) dec_results_not_found
    by (auto simp: decode_body_def split: sum.splits)
  show ?thesis
  proof (cases "StatusCode response = 200")
    case False
    then show ?thesis using assms(1,2) by (auto simp: Client_Get_def)
  next
    case True
    show ?thesis
    proof (cases "decode_body lib (Body response)")
      case (Inl e)
      then show ?thesis
        using assms(1,2) True bad [OF Inl] by (auto simp: Client_Get_def)
    next
      case (Inr res)
      then show ?thesis
        using assms(1,2) True
        by (auto simp: Client_Get_def first_result_empty_def split: list.splits)
    qed
  qed
qed

lemmas lookup_defs = example_net_def answering_def
  lookup_first_empty_def lookup_first_empty_json_def lookup_no_license_def
  lookup_no_license_json_def lookup_two_licenses_def lookup_two_licenses_json_def
  decode_body_def dec_results_def LookupResponse_field_def zero_LookupResponse_def store_def
  apiURL_def userAgent_def key_is_def upper_char_def elems_simps

text \<open>
  The claim as stated says \<open>NotFound\<close> is returned exactly when the status is 404, the
  result array is empty, or all license lists are empty.  For a 200 response whose first
  result has no license and whose second has \<open>MIT\<close>, none of the three holds and the
  lookup returns \<open>NotFound\<close> all the same.
\<close>

theorem lookup_not_found_counterexample:
  "Client_Get example_net (answering 200 lookup_first_empty) ''pkg:npm/test@1.0.0'' =
     Inl (Errorf ''%w: no licenses found for %s'' [ErrLicenseNotFound]) \<and>
   errors_Is (Errorf ''%w: no licenses found for %s'' [ErrLicenseNotFound]) ErrLicenseNotFound \<and>
   decode_body example_net lookup_first_empty =
     Inr (Some [\<lparr>NormalizedLicenses = Some []\<rparr>, \<lparr>NormalizedLicenses = Some [''MIT'']\<rparr>]) \<and>
   \<not> spec_NotFound 200
       [\<lparr>NormalizedLicenses = Some []\<rparr>, \<lparr>NormalizedLicenses = Some [''MIT'']\<rparr>]"
  by (simp add: Client_Get_def lookup_defs spec_NotFound_def elems_def)

lemma example_request:
  "NewRequestWithContext example_net ''GET''
     (apiURL example_net (answering st body) ''pkg:npm/test@1.0.0'') =
   Inr \<lparr>req_Method = ''GET'',
        req_URL = ''https://packages.ecosyste.ms/api/v1/packages/lookup?purl=pkg%3Anpm%2Ftest%401.0.0'',
        req_UserAgent = []\<rparr>"
  by (simp add: lookup_defs ecosystemsAPIPath_def)

lemma example_response:
  "client (answering st body) (req\<lparr>req_UserAgent := userAgent (answering st body)\<rparr>) =
     Inr \<lparr>StatusCode = st, Body = body\<rparr>"
  by (simp add: answering_def)

lemma example_decode_errors:
  "\<forall>e. Decode example_net (Body \<lparr>StatusCode = st, Body = body\<rparr>) = Inl e \<longrightarrow>
       \<not> errors_Is e ErrLicenseNotFound"
  by (auto simp: example_net_def split: option.splits if_splits)

theorem lookup_not_found_witness:
  "(\<exists>err. Client_Get example_net (answering 404 []) ''pkg:npm/test@1.0.0'' = Inl err \<and>
          errors_Is err ErrLicenseNotFound) \<and>
   (\<exists>err. Client_Get example_net (answering 200 lookup_no_license) ''pkg:npm/test@1.0.0'' =
            Inl err \<and> errors_Is err ErrLicenseNotFound) \<and>
   decode_body example_net lookup_two_licenses =
     Inr (Some [\<lparr>NormalizedLicenses = Some [''Apache-2.0'', ''MIT'']\<rparr>]) \<and>
   Client_Get example_net (answering 200 lookup_two_licenses) ''pkg:npm/test@1.0.0'' =
     Inr ''Apache-2.0'' \<and>
   \<not> (\<exists>err. Client_Get example_net (answering 429 []) ''pkg:npm/test@1.0.0'' = Inl err \<and>
            errors_Is err ErrLicenseNotFound)"
proof -
  have d1: "decode_body example_net lookup_no_license = Inr (Some [\<lparr>NormalizedLicenses = Some []\<rparr>])"
    by (simp add: lookup_defs)
  have d2: "decode_body example_net lookup_two_licenses =
      Inr (Some [\<lparr>NormalizedLicenses = Some [''Apache-2.0'', ''MIT'']\<rparr>])"
    by (simp add: lookup_defs)
  show ?thesis
    using
      lookup_not_found [OF example_request example_response example_decode_errors,
        of 404 "[]" None zero_LookupResponse "[]" "[]" "[]"]
      lookup_not_found [OF example_request example_response example_decode_errors,
        of 200 lookup_no_license None zero_LookupResponse "[]" "[]" "[]"]
      lookup_not_found [OF example_request example_response example_decode_errors,
        of 200 lookup_two_licenses "Some [\<lparr>NormalizedLicenses = Some [''Apache-2.0'', ''MIT'']\<rparr>]"
          "\<lparr>NormalizedLicenses = Some [''Apache-2.0'', ''MIT'']\<rparr>" "[]" "''Apache-2.0''"
          "[''MIT'']"]
      lookup_not_found [OF example_request example_response example_decode_errors,
        of 429 "[]" None zero_LookupResponse "[]" "[]" "[]"]
      d1 d2
    by (simp add: first_result_empty_def elems_def)
qed

subsection \<open>Expiry in the two caches\<close>

text \<open>
  Claim C8, as the code has it.  For both caches and every key, value and TTL for which
  \<open>SetWithTTL\<close> returns no error (and, for the bbolt cache, given that the bytes written
  for this one record decode back to the record written): when the TTL is positive,
  \<open>Get\<close> returns the value at every time up to and including the stored expiry
  \<open>t0 + ttl\<close> and a miss at every later time; when the TTL is zero or negative, \<open>Get\<close>
  returns the value at every time.  Nothing is assumed of the codec on any other record.
\<close>

theorem cache_ttl:
  "(MemoryCache_SetWithTTL mc t0 key v ttl = (None, mc') \<longrightarrow>
      (0 < ttl \<and> t \<le> t0 + ttl \<longrightarrow> MemoryCache_Get mc' t key = Inr v) \<and>
      (0 < ttl \<and> t0 + ttl < t \<longrightarrow> MemoryCache_Get mc' t key = Inl ErrCacheMiss) \<and>
      (ttl \<le> 0 \<longrightarrow> MemoryCache_Get mc' t key = Inr v)) \<and>
   (BboltCache_SetWithTTL lib bc t0 key v ttl = (None, bc') \<and>
    (\<forall>d. Marshal_entry lib
            \<lparr>Value = v, Expiration = (if 0 < ttl then Some (t0 + ttl) else None)\<rparr> = Inr d \<longrightarrow>
         Unmarshal_entry lib d =
           Inr \<lparr>Value = v, Expiration = (if 0 < ttl then Some (t0 + ttl) else None)\<rparr>) \<longrightarrow>
      (0 < ttl \<and> t \<le> t0 + ttl \<longrightarrow> BboltCache_Get lib bc' t key = Inr v) \<and>
      (0 < ttl \<and> t0 + ttl < t \<longrightarrow> BboltCache_Get lib bc' t key = Inl ErrCacheMiss) \<and>
      (ttl \<le> 0 \<longrightarrow> BboltCache_Get lib bc' t key = Inr v))"
proof (intro conjI impI)
  assume a: "MemoryCache_SetWithTTL mc t0 key v ttl = (None, mc')"
  then have isopen: "\<not> mc_closed mc"
    by (auto simp: MemoryCache_SetWithTTL_def split: if_splits)
  have mc': "mc' = mc\<lparr>mc_cache := (mc_cache mc)(key \<mapsto>
      \<lparr>entry_value = v, expiration = (if ttl > 0 then Some (t0 + ttl) else None)\<rparr>)\<rparr>"
    using a isopen by (auto simp: MemoryCache_SetWithTTL_def Let_def split: if_splits)
  { assume "0 < ttl \<and> t \<le> t0 + ttl"
    then show "MemoryCache_Get mc' t key = Inr v"
      using mc' isopen by (simp add: MemoryCache_Get_def cacheEntry_isExpired_def) }
  { assume "0 < ttl \<and> t0 + ttl < t"
    then show "MemoryCache_Get mc' t key = Inl ErrCacheMiss"
      using mc' isopen by (simp add: MemoryCache_Get_def cacheEntry_isExpired_def) }
  { assume "ttl \<le> 0"
    then show "MemoryCache_Get mc' t key = Inr v"
      using mc' isopen by (simp add: MemoryCache_Get_def cacheEntry_isExpired_def) }
next
  let ?entry = "\<lparr>Value = v, Expiration = (if 0 < ttl then Some (t0 + ttl) else None)\<rparr>"
  assume a: "BboltCache_SetWithTTL lib bc t0 key v ttl = (None, bc') \<and>
    (\<forall>d. Marshal_entry lib ?entry = Inr d \<longrightarrow> Unmarshal_entry lib d = Inr ?entry)"
  from a have wr: "BboltCache_SetWithTTL lib bc t0 key v ttl = (None, bc')" by simp
  from a have rt: "\<And>d. Marshal_entry lib ?entry = Inr d \<Longrightarrow> Unmarshal_entry lib d = Inr ?entry"
    by blast
  have isopen: "\<not> bc_closed bc"
    using wr by (auto simp: BboltCache_SetWithTTL_def split: if_splits)
  obtain b where b: "bc_db bc bucketName = Some b"
    using wr isopen by (cases "bc_db bc bucketName") (auto simp: BboltCache_SetWithTTL_def)
  obtain d where d: "Marshal_entry lib ?entry = Inr d"
    using wr isopen b
    by (cases "Marshal_entry lib ?entry") (auto simp: BboltCache_SetWithTTL_def Let_def split: if_splits)
  obtain b' where b': "Bucket_Put b key d = Inr b'"
    using wr isopen b d
    by (cases "Bucket_Put b key d") (auto simp: BboltCache_SetWithTTL_def Let_def split: if_splits)
  have bc': "bc' = bc\<lparr>bc_db := (bc_db bc)(bucketName \<mapsto> b')\<rparr>"
    using wr isopen b d b' by (auto simp: BboltCache_SetWithTTL_def Let_def split: if_splits)
  have stored: "b' key = Some d"
    using b' by (auto simp: Bucket_Put_def split: if_splits)
  have readback: "Unmarshal_entry lib d = Inr ?entry" using d by (rule rt)
  have get: "BboltCache_Get lib bc' t key =
      (if bboltEntry_isExpired ?entry t then Inl ErrCacheMiss else Inr v)"
    using bc' isopen stored readback by (simp add: BboltCache_Get_def)
  { assume "0 < ttl \<and> t \<le> t0 + ttl"
    then show "BboltCache_Get lib bc' t key = Inr v"
      using get by (simp add: bboltEntry_isExpired_def) }
  { assume "0 < ttl \<and> t0 + ttl < t"
    then show "BboltCache_Get lib bc' t key = Inl ErrCacheMiss"
      using get by (simp add: bboltEntry_isExpired_def) }
  { assume "ttl \<le> 0"
    then show "BboltCache_Get lib bc' t key = Inr v"
      using get by (simp add: bboltEntry_isExpired_def) }
qed

text \<open>
  The claim is stated for every key.  The bbolt cache refuses the empty key: on a fresh
  cache \<open>SetWithTTL\<close> with the empty key and a TTL of 1000 returns an error and stores
  nothing, and \<open>Get\<close> of the empty key at that same time is a miss, not the value.
\<close>

theorem cache_ttl_counterexample:
  "fst (BboltCache_SetWithTTL example_codec (NewBboltCache Map.empty) 0 [] ''MIT'' 1000) =
     Some (New ''key required'') \<and>
   BboltCache_Get example_codec
     (snd (BboltCache_SetWithTTL example_codec (NewBboltCache Map.empty) 0 [] ''MIT'' 1000))
     0 [] = Inl ErrCacheMiss"
  by (simp add: BboltCache_SetWithTTL_def BboltCache_Get_def NewBboltCache_def Bucket_Put_def
      example_codec_def table_codec_def)

lemma example_codec_roundtrip:
  "Marshal_entry example_codec e = Inr d \<Longrightarrow> Unmarshal_entry example_codec d = Inr e"
  by (auto simp: example_codec_def table_codec_def split: if_splits option.splits)

lemma memory_set:
  "MemoryCache_SetWithTTL NewMemoryCache 0 ''k'' ''MIT'' ttl =
     (None, snd (MemoryCache_SetWithTTL NewMemoryCache 0 ''k'' ''MIT'' ttl))"
  by (simp add: MemoryCache_SetWithTTL_def NewMemoryCache_def Let_def)

lemma bbolt_set:
  "ttl = 1000 \<or> ttl = 0 \<Longrightarrow>
   BboltCache_SetWithTTL example_codec (NewBboltCache Map.empty) 0 ''k'' ''MIT'' ttl =
     (None, snd (BboltCache_SetWithTTL example_codec (NewBboltCache Map.empty) 0 ''k'' ''MIT'' ttl))"
  by (auto simp: BboltCache_SetWithTTL_def NewBboltCache_def Let_def Bucket_Put_def
      example_codec_def table_codec_def)

theorem cache_ttl_witness:
  "fst (MemoryCache_SetWithTTL NewMemoryCache 0 ''k'' ''MIT'' 1000) = None \<and>
   MemoryCache_Get (snd (MemoryCache_SetWithTTL NewMemoryCache 0 ''k'' ''MIT'' 1000)) 1000 ''k'' =
     Inr ''MIT'' \<and>
   MemoryCache_Get (snd (MemoryCache_SetWithTTL NewMemoryCache 0 ''k'' ''MIT'' 1000)) 1001 ''k'' =
     Inl ErrCacheMiss \<and>
   MemoryCache_Get (snd (MemoryCache_SetWithTTL NewMemoryCache 0 ''k'' ''MIT'' 0)) 1001 ''k'' =
     Inr ''MIT'' \<and>
   fst (BboltCache_SetWithTTL example_codec (NewBboltCache Map.empty) 0 ''k'' ''MIT'' 1000) =
     None \<and>
   BboltCache_Get example_codec
     (snd (BboltCache_SetWithTTL example_codec (NewBboltCache Map.empty) 0 ''k'' ''MIT'' 1000))
     1000 ''k'' = Inr ''MIT'' \<and>
   BboltCache_Get example_codec
     (snd (BboltCache_SetWithTTL example_codec (NewBboltCache Map.empty) 0 ''k'' ''MIT'' 1000))
     1001 ''k'' = Inl ErrCacheMiss \<and>
   BboltCache_Get example_codec
     (snd (BboltCache_SetWithTTL example_codec (NewBboltCache Map.empty) 0 ''k'' ''MIT'' 0))
     1001 ''k'' = Inr ''MIT''"
proof -
  have m1: "fst (MemoryCache_SetWithTTL NewMemoryCache 0 ''k'' ''MIT'' 1000) = None"
    using memory_set [of 1000] by (metis fst_conv)
  have b1: "fst (BboltCache_SetWithTTL example_codec (NewBboltCache Map.empty) 0 ''k'' ''MIT''
      1000) = None"
    using bbolt_set [of 1000] by (metis fst_conv)
  show ?thesis
    using
      cache_ttl [where mc = NewMemoryCache and ?t0.0 = 0 and key = "''k''" and v = "''MIT''"
        and ttl = 1000 and t = 1000
        and mc' = "snd (MemoryCache_SetWithTTL NewMemoryCache 0 ''k'' ''MIT'' 1000)"
        and lib = example_codec and bc = "NewBboltCache Map.empty"
        and bc' = "snd (BboltCache_SetWithTTL example_codec (NewBboltCache Map.empty) 0 ''k''
          ''MIT'' 1000)"]
      cache_ttl [where mc = NewMemoryCache and ?t0.0 = 0 and key = "''k''" and v = "''MIT''"
        and ttl = 1000 and t = 1001
        and mc' = "snd (MemoryCache_SetWithTTL NewMemoryCache 0 ''k'' ''MIT'' 1000)"
        and lib = example_codec and bc = "NewBboltCache Map.empty"
        and bc' = "snd (BboltCache_SetWithTTL example_codec (NewBboltCache Map.empty) 0 ''k''
          ''MIT'' 1000)"]
      cache_ttl [where mc = NewMemoryCache and ?t0.0 = 0 and key = "''k''" and v = "''MIT''"
        and ttl = 0 and t = 1001
        and mc' = "snd (MemoryCache_SetWithTTL NewMemoryCache 0 ''k'' ''MIT'' 0)"
        and lib = example_codec and bc = "NewBboltCache Map.empty"
        and bc' = "snd (BboltCache_SetWithTTL example_codec (NewBboltCache Map.empty) 0 ''k''
          ''MIT'' 0)"]
      memory_set [of 1000] memory_set [of 0] bbolt_set [of 1000] bbolt_set [of 0]
      example_codec_roundtrip m1 b1
    by simp
qed

subsection \<open>Round trip of a document\<close>

lemma dec_list_map:
  assumes "\<And>x. dec zero (enc x) = Inr (g x)"
  shows "dec_list dec zero (map enc xs) [] = Inr (map g xs)"
  by (induction xs) (simp_all add: assms)

lemma dec_slice_enc:
  assumes "\<And>x. dec zero (enc x) = Inr (g x)"
  shows "dec_slice dec zero (enc_slice enc s) None = Inr (map_option (map g) s)"
  by (cases s)
    (simp_all add: enc_slice_def elems_simps dec_list_map [of dec zero enc g, OF assms])

lemma dec_ExternalRef_enc [simp]:
  "dec_ExternalRef zero_ExternalRef (enc_ExternalRef r) = Inr r"
  by (cases r)
    (simp add: dec_ExternalRef_def enc_ExternalRef_def ExternalRef_field_def store_def
      zero_ExternalRef_def key_is_def upper_char_def)

lemma dec_Package_enc [simp]: "dec_Package zero_Package (enc_Package p) = Inr p"
proof -
  have "dec_slice dec_ExternalRef zero_ExternalRef
      (enc_slice enc_ExternalRef (ExternalRefs p)) None = Inr (ExternalRefs p)"
    using dec_slice_enc [of dec_ExternalRef zero_ExternalRef enc_ExternalRef "\<lambda>x. x"
        "ExternalRefs p"]
    by (simp add: option.map_ident)
  then show ?thesis
    by (cases p)
      (simp add: dec_Package_def enc_Package_def Package_field_def store_def zero_Package_def
        key_is_def upper_char_def)
qed

lemma dec_Document_enc: "dec_Document (enc_Document d) = Inr d"
proof -
  have "dec_slice dec_Package zero_Package (enc_slice enc_Package (Packages d)) None =
      Inr (Packages d)"
    using dec_slice_enc [of dec_Package zero_Package enc_Package "\<lambda>x. x" "Packages d"]
    by (simp add: option.map_ident)
  then show ?thesis
    by (cases d)
      (simp add: dec_Document_def enc_Document_def Document_field_def store_def
        zero_Document_def key_is_def upper_char_def)
qed

lemma dec_LicenseText_enc:
  "dec_ptr LicenseText_field zero_LicenseText (enc_LicenseText t) None = Inr (Some t)"
  by (cases t)
    (simp add: enc_LicenseText_def LicenseText_field_def store_def zero_LicenseText_def
      key_is_def upper_char_def)

lemma dec_License_enc:
  "dec_ptr License_field zero_License (enc_License l) None = Inr (Some l)"
proof (cases l)
  case (fields i n e t)
  show ?thesis
  proof (cases t)
    case None
    then show ?thesis
      using fields
      by (simp add: enc_License_def omitempty_string_def License_field_def store_def
          zero_License_def key_is_def upper_char_def)
  next
    case (Some tx)
    then show ?thesis
      using fields dec_LicenseText_enc [of tx]
      by (simp add: enc_License_def omitempty_string_def License_field_def store_def
          zero_License_def key_is_def upper_char_def)
  qed
qed

lemma dec_LicenseChoice_enc [simp]:
  "dec_LicenseChoice zero_LicenseChoice (enc_LicenseChoice c) = Inr c"
proof (cases c)
  case (fields l e)
  show ?thesis
  proof (cases l)
    case None
    then show ?thesis
      using fields
      by (simp add: dec_LicenseChoice_def enc_LicenseChoice_def omitempty_string_def
          LicenseChoice_field_def store_def zero_LicenseChoice_def key_is_def upper_char_def)
  next
    case (Some lx)
    then show ?thesis
      using fields dec_License_enc [of lx]
      by (simp add: dec_LicenseChoice_def enc_LicenseChoice_def omitempty_string_def
          LicenseChoice_field_def store_def zero_LicenseChoice_def key_is_def upper_char_def)
  qed
qed

lemma dec_ExternalReference_enc [simp]:
  "dec_ExternalReference zero_ExternalReference (enc_ExternalReference r) = Inr r"
  by (cases r)
    (simp add: dec_ExternalReference_def enc_ExternalReference_def ExternalReference_field_def
      store_def zero_ExternalReference_def key_is_def upper_char_def)

lemma dec_Component_enc:
  "dec_Component zero_Component (enc_Component c) = Inr (reread_Component c)"
proof -
  have l: "dec_slice dec_LicenseChoice zero_LicenseChoice
      (enc_slice enc_LicenseChoice (Licenses c)) None = Inr (Licenses c)"
    using dec_slice_enc [of dec_LicenseChoice zero_LicenseChoice enc_LicenseChoice "\<lambda>x. x"
        "Licenses c"]
    by (simp add: option.map_ident)
  have r: "dec_slice dec_ExternalReference zero_ExternalReference
      (enc_slice enc_ExternalReference (ExternalReferences c)) None = Inr (ExternalReferences c)"
    using dec_slice_enc [of dec_ExternalReference zero_ExternalReference enc_ExternalReference
        "\<lambda>x. x" "ExternalReferences c"]
    by (simp add: option.map_ident)
  show ?thesis
    using l r
    by (cases c)
      (simp add: dec_Component_def enc_Component_def Component_field_def store_def
        zero_Component_def reread_Component_def key_is_def upper_char_def)
qed

lemma dec_BOM_enc:
  "dec_BOM (enc_BOM b) =
     Inr (b\<lparr>Components := (if len (Components b) = 0 then None
                              else map_option (map reread_Component) (Components b))\<rparr>)"
proof -
  have "dec_slice dec_Component zero_Component (enc_slice enc_Component (Components b)) None =
      Inr (map_option (map reread_Component) (Components b))"
    by (rule dec_slice_enc) (rule dec_Component_enc)
  then show ?thesis
    by (cases b)
      (simp add: dec_BOM_def enc_BOM_def BOM_field_def store_def zero_BOM_def
        key_is_def upper_char_def)
qed

lemma map_update_same:
  assumes "f y = f (xs ! k)"
  shows "map f (xs[k := y]) = map f xs"
proof (cases "k < length xs")
  case True
  then have "(map f xs)[k := f y] = (map f xs)[k := (map f xs) ! k]" using assms by simp
  then show ?thesis by (simp add: map_update)
next
  case False
  then show ?thesis by (simp add: list_update_beyond)
qed

lemma work_map_fixed:
  assumes "\<And>l x. f (SetLicense ops l x) = f x"
  shows "map f (fst (work ops prov c ttl j (items, s))) = map f items"
  by (auto simp: work_def assms map_update_same split: prod.splits sum.splits)

lemma drain_map_fixed:
  assumes "\<And>l x. f (SetLicense ops l x) = f x"
  shows "map f (fst (drain ops prov c ttl js (items, s))) = map f items"
proof (induction js arbitrary: items s)
  case Nil
  then show ?case by simp
next
  case (Cons j js)
  obtain items1 s1 where w: "work ops prov c ttl j (items, s) = (items1, s1)"
    by (cases "work ops prov c ttl j (items, s)")
  have "map f items1 = map f items"
    using work_map_fixed [of f ops prov c ttl j items s] assms w by simp
  then show ?case using Cons.IH [of items1 s1] w by simp
qed

lemma processItemsParallel_map_fixed:
  assumes "\<And>l x. f (SetLicense ops l x) = f x"
  shows "map f (fst (snd (processItemsParallel ops items par prov c ttl s))) = map f items"
  by (simp add: processItemsParallel_items drain_map_fixed [of f ops, OF assms])

lemma untouched_Package_SetLicense:
  "untouched_Package (SetLicense Package_item l x) = untouched_Package x"
  by (simp add: untouched_Package_def Package_item_def Package_SetLicense_def Let_def)

lemma untouched_Component_SetLicense:
  "untouched_Component (SetLicense Component_item l x) = untouched_Component x"
  by (simp add: untouched_Component_def Component_item_def Component_SetLicense_def)

lemma untouched_reread: "untouched_Component (reread_Component c) = untouched_Component c"
  by (simp add: untouched_Component_def reread_Component_def)

lemma ParseSBOMFile_written:
  assumes "Unmarshal lib out = Inr (enc_Document d)"
  shows "ParseSBOMFile lib out = Inr d"
  using assms
  by (simp add: ParseSBOMFile_def UnwrapGitHubSBOM_def enc_Document_def [of d]
      dec_Document_enc [unfolded enc_Document_def])

lemma ParseCycloneDXFile_written:
  assumes "Unmarshal lib out = Inr (enc_BOM b)"
  shows "ParseCycloneDXFile lib out =
     Inr (b\<lparr>Components := (if len (Components b) = 0 then None
                              else map_option (map reread_Component) (Components b))\<rparr>)"
  using assms by (simp add: ParseCycloneDXFile_def dec_BOM_enc)

text \<open>
  Claim C5, as the code has it.  For an input that parses as SPDX and has at least one
  package (when the JSON library reads back the output it wrote), the output is the
  minimal struct written anew: an object with exactly the members \<open>spdxVersion\<close>,
  \<open>SPDXID\<close> and \<open>packages\<close>, which parses as SPDX with the \<open>spdxVersion\<close> and
  \<open>SPDXID\<close> of the parsed input and with as many packages, each with the fields that
  \<open>SetLicense\<close> does not write unchanged.  Likewise a CycloneDX input with at least one
  component gives an object with exactly the members \<open>bomFormat\<close>, \<open>specVersion\<close> and
  \<open>components\<close>, which parses with the same \<open>bomFormat\<close> and \<open>specVersion\<close>.  Members
  of the input outside the minimal structs are not in the output.
\<close>

theorem document_identity:
  "(ParseSBOMFile lib (SBOM opts) = Inr doc \<and> elems (Packages doc) \<noteq> [] \<and>
    fst (SPDXEnricher_Enrich lib e opts s) = Inr out \<and>
    (\<forall>j. Marshal lib j = Inr out \<longrightarrow> Unmarshal lib out = Inr j) \<longrightarrow>
      (\<exists>v pkgs'.
         Unmarshal lib out =
           Inr (JObject [(''spdxVersion'', JString (SPDXVersion doc)),
                         (''SPDXID'', JString (doc_SPDXID doc)), (''packages'', v)]) \<and>
         ParseSBOMFile lib out = Inr (doc\<lparr>Packages := Some pkgs'\<rparr>) \<and>
         map untouched_Package pkgs' = map untouched_Package (elems (Packages doc)))) \<and>
   (ParseCycloneDXFile lib (SBOM opts) = Inr bom \<and> elems (Components bom) \<noteq> [] \<and>
    fst (CycloneDXEnricher_Enrich lib e' opts s) = Inr out' \<and>
    (\<forall>j. Marshal lib j = Inr out' \<longrightarrow> Unmarshal lib out' = Inr j) \<longrightarrow>
      (\<exists>v comps'.
         Unmarshal lib out' =
           Inr (JObject [(''bomFormat'', JString (BOMFormat bom)),
                         (''specVersion'', JString (SpecVersion bom)), (''components'', v)]) \<and>
         ParseCycloneDXFile lib out' = Inr (bom\<lparr>Components := Some comps'\<rparr>) \<and>
         map untouched_Component comps' = map untouched_Component (elems (Components bom))))"
proof (intro conjI impI)
  assume a: "ParseSBOMFile lib (SBOM opts) = Inr doc \<and> elems (Packages doc) \<noteq> [] \<and>
    fst (SPDXEnricher_Enrich lib e opts s) = Inr out \<and>
    (\<forall>j. Marshal lib j = Inr out \<longrightarrow> Unmarshal lib out = Inr j)"
  let ?items = "fst (snd (processItemsParallel Package_item (elems (Packages doc))
             (if Parallelism opts \<le> 0 then 1 else Parallelism opts)
             (spdx_provider e) (spdx_cache e) (spdx_cacheTTL e) s))"
  let ?d = "doc\<lparr>Packages := Some ?items\<rparr>"
  have "fst (SPDXEnricher_Enrich lib e opts s) = Marshal lib (enc_Document ?d)"
    using a SPDXEnricher_Enrich_nonempty [of lib opts doc e s] by simp
  then have "Marshal lib (enc_Document ?d) = Inr out" using a by simp
  then have u: "Unmarshal lib out = Inr (enc_Document ?d)" using a by blast
  have p: "ParseSBOMFile lib out = Inr ?d" using u by (rule ParseSBOMFile_written)
  have m: "map untouched_Package ?items = map untouched_Package (elems (Packages doc))"
    by (rule processItemsParallel_map_fixed) (rule untouched_Package_SetLicense)
  have "Unmarshal lib out =
      Inr (JObject [(''spdxVersion'', JString (SPDXVersion doc)),
                    (''SPDXID'', JString (doc_SPDXID doc)),
                    (''packages'', enc_slice enc_Package (Some ?items))])"
    using u by (simp add: enc_Document_def)
  then show "\<exists>v pkgs'.
         Unmarshal lib out =
           Inr (JObject [(''spdxVersion'', JString (SPDXVersion doc)),
                         (''SPDXID'', JString (doc_SPDXID doc)), (''packages'', v)]) \<and>
         ParseSBOMFile lib out = Inr (doc\<lparr>Packages := Some pkgs'\<rparr>) \<and>
         map untouched_Package pkgs' = map untouched_Package (elems (Packages doc))"
    using p m by blast
next
  assume a: "ParseCycloneDXFile lib (SBOM opts) = Inr bom \<and> elems (Components bom) \<noteq> [] \<and>
    fst (CycloneDXEnricher_Enrich lib e' opts s) = Inr out' \<and>
    (\<forall>j. Marshal lib j = Inr out' \<longrightarrow> Unmarshal lib out' = Inr j)"
  let ?items = "fst (snd (processItemsParallel Component_item (elems (Components bom))
             (if Parallelism opts \<le> 0 then 1 else Parallelism opts)
             (cdx_provider e') (cdx_cache e') (cdx_cacheTTL e') s))"
  let ?b = "bom\<lparr>Components := Some ?items\<rparr>"
  have len: "length ?items = length (elems (Components bom))"
    by (rule processItemsParallel_length)
  then have ne: "len (Components ?b) \<noteq> 0" using a by (simp add: len_def elems_def)
  have "fst (CycloneDXEnricher_Enrich lib e' opts s) = Marshal lib (enc_BOM ?b)"
    using a CycloneDXEnricher_Enrich_nonempty [of lib opts bom e' s] by simp
  then have "Marshal lib (enc_BOM ?b) = Inr out'" using a by simp
  then have u: "Unmarshal lib out' = Inr (enc_BOM ?b)" using a by blast
  have p: "ParseCycloneDXFile lib out' =
      Inr (bom\<lparr>Components := Some (map reread_Component ?items)\<rparr>)"
    using ParseCycloneDXFile_written [OF u] ne by simp
  have "map untouched_Component ?items = map untouched_Component (elems (Components bom))"
    by (rule processItemsParallel_map_fixed) (rule untouched_Component_SetLicense)
  then have m: "map untouched_Component (map reread_Component ?items) =
      map untouched_Component (elems (Components bom))"
    by (simp add: untouched_reread comp_def)
  have "Unmarshal lib out' =
      Inr (JObject [(''bomFormat'', JString (BOMFormat bom)),
                    (''specVersion'', JString (SpecVersion bom)),
                    (''components'', enc_slice enc_Component (Some ?items))])"
    using u ne by (simp add: enc_BOM_def)
  then show "\<exists>v comps'.
         Unmarshal lib out' =
           Inr (JObject [(''bomFormat'', JString (BOMFormat bom)),
                         (''specVersion'', JString (SpecVersion bom)), (''components'', v)]) \<and>
         ParseCycloneDXFile lib out' = Inr (bom\<lparr>Components := Some comps'\<rparr>) \<and>
         map untouched_Component comps' = map untouched_Component (elems (Components bom))"
    using p m by blast
qed

text \<open>
  The claim says that the fields the engine does not touch survive the round trip.  The
  document of the tests with one licensed package has the members \<open>dataLicense\<close> and
  \<open>name\<close>, which the engine never touches; the output has neither.
\<close>

theorem document_identity_counterexample:
  "ParseSBOMFile example_lib spdx_licensed = Inr spdx_licensed_doc \<and>
   fst (SPDXEnricher_Enrich example_lib mit_spdx \<lparr>SBOM = spdx_licensed, Parallelism = 1\<rparr>
          state0) = Inr spdx_licensed_out \<and>
   Unmarshal example_lib spdx_licensed = Inr spdx_licensed_json \<and>
   Unmarshal example_lib spdx_licensed_out = Inr spdx_licensed_out_json \<and>
   member_of ''dataLicense'' spdx_licensed_json = Some (JString ''CC0-1.0'') \<and>
   member_of ''dataLicense'' spdx_licensed_out_json = None \<and>
   member_of ''name'' spdx_licensed_json = Some (JString ''test'') \<and>
   member_of ''name'' spdx_licensed_out_json = None"
  using parse_spdx_licensed enrich_spdx_licensed
  by (simp add: example_defs member_of_def)

lemma process_cdx_licensed:
  "processItemsParallel Component_item (elems (Components cdx_licensed_doc)) 1
     (cdx_provider mit_cdx) (cdx_cache mit_cdx) (cdx_cacheTTL mit_cdx) state0 =
   (None, elems (Components cdx_licensed_doc), state0)"
  by (simp add: worker_defs cdx_licensed_doc_def mit_cdx_def elems_def len_def)

lemma enrich_cdx_licensed:
  "CycloneDXEnricher_Enrich example_lib mit_cdx \<lparr>SBOM = cdx_licensed, Parallelism = 1\<rparr> state0 =
     (Inr cdx_licensed_out, state0)"
proof -
  have ne: "elems (Components cdx_licensed_doc) \<noteq> []"
    by (simp add: cdx_licensed_doc_def elems_def)
  have m: "Marshal example_lib (enc_BOM cdx_licensed_doc) = Inr cdx_licensed_out"
    by (simp add: example_defs encode_defs cdx_licensed_doc_def)
  have same: "cdx_licensed_doc\<lparr>Components := Some (elems (Components cdx_licensed_doc))\<rparr> =
      cdx_licensed_doc"
    by (simp add: cdx_licensed_doc_def elems_def)
  show ?thesis
    using CycloneDXEnricher_Enrich_nonempty
        [of example_lib "\<lparr>SBOM = cdx_licensed, Parallelism = 1\<rparr>" cdx_licensed_doc
          mit_cdx state0]
      parse_cdx_licensed ne process_cdx_licensed m same
    by simp
qed

lemma example_lib_reads_back:
  "\<forall>j. Marshal example_lib j = Inr spdx_licensed_out \<longrightarrow>
       Unmarshal example_lib spdx_licensed_out = Inr j"
  "\<forall>j. Marshal example_lib j = Inr cdx_licensed_out \<longrightarrow>
       Unmarshal example_lib cdx_licensed_out = Inr j"
  by (auto simp: example_defs split: if_splits)

theorem document_identity_witness:
  "ParseSBOMFile example_lib spdx_licensed = Inr spdx_licensed_doc \<and>
   fst (SPDXEnricher_Enrich example_lib mit_spdx \<lparr>SBOM = spdx_licensed, Parallelism = 1\<rparr>
          state0) = Inr spdx_licensed_out \<and>
   (\<exists>v pkgs'.
      Unmarshal example_lib spdx_licensed_out =
        Inr (JObject [(''spdxVersion'', JString ''SPDX-2.3''),
                      (''SPDXID'', JString ''SPDXRef-DOCUMENT''), (''packages'', v)]) \<and>
      ParseSBOMFile example_lib spdx_licensed_out =
        Inr (spdx_licensed_doc\<lparr>Packages := Some pkgs'\<rparr>) \<and>
      map untouched_Package pkgs' =
        map untouched_Package (elems (Packages spdx_licensed_doc))) \<and>
   ParseCycloneDXFile example_lib cdx_licensed = Inr cdx_licensed_doc \<and>
   fst (CycloneDXEnricher_Enrich example_lib mit_cdx \<lparr>SBOM = cdx_licensed, Parallelism = 1\<rparr>
          state0) = Inr cdx_licensed_out \<and>
   (\<exists>v comps'.
      Unmarshal example_lib cdx_licensed_out =
        Inr (JObject [(''bomFormat'', JString ''CycloneDX''),
                      (''specVersion'', JString ''1.4''), (''components'', v)]) \<and>
      ParseCycloneDXFile example_lib cdx_licensed_out =
        Inr (cdx_licensed_doc\<lparr>Components := Some comps'\<rparr>) \<and>
      map untouched_Component comps' =
        map untouched_Component (elems (Components cdx_licensed_doc)))"
proof -
  have ne1: "elems (Packages spdx_licensed_doc) \<noteq> []"
    by (simp add: spdx_licensed_doc_def elems_def)
  have ne2: "elems (Components cdx_licensed_doc) \<noteq> []"
    by (simp add: cdx_licensed_doc_def elems_def)
  have f1: "SPDXVersion spdx_licensed_doc = ''SPDX-2.3''"
    "doc_SPDXID spdx_licensed_doc = ''SPDXRef-DOCUMENT''"
    by (simp_all add: spdx_licensed_doc_def)
  have f2: "BOMFormat cdx_licensed_doc = ''CycloneDX''" "SpecVersion cdx_licensed_doc = ''1.4''"
    by (simp_all add: cdx_licensed_doc_def)
  have spdx:
    "\<exists>v pkgs'.
      Unmarshal example_lib spdx_licensed_out =
        Inr (JObject [(''spdxVersion'', JString ''SPDX-2.3''),
                      (''SPDXID'', JString ''SPDXRef-DOCUMENT''), (''packages'', v)]) \<and>
      ParseSBOMFile example_lib spdx_licensed_out =
        Inr (spdx_licensed_doc\<lparr>Packages := Some pkgs'\<rparr>) \<and>
      map untouched_Package pkgs' =
        map untouched_Package (elems (Packages spdx_licensed_doc))"
    using
      document_identity
        [where lib = example_lib and opts = "\<lparr>SBOM = spdx_licensed, Parallelism = 1\<rparr>"
          and doc = spdx_licensed_doc and e = mit_spdx and s = state0
          and out = spdx_licensed_out and bom = cdx_licensed_doc and e' = mit_cdx
          and out' = cdx_licensed_out]
      parse_spdx_licensed enrich_spdx_licensed ne1 example_lib_reads_back(1) f1
    by simp
  have cdx:
    "\<exists>v comps'.
      Unmarshal example_lib cdx_licensed_out =
        Inr (JObject [(''bomFormat'', JString ''CycloneDX''),
                      (''specVersion'', JString ''1.4''), (''components'', v)]) \<and>
      ParseCycloneDXFile example_lib cdx_licensed_out =
        Inr (cdx_licensed_doc\<lparr>Components := Some comps'\<rparr>) \<and>
      map untouched_Component comps' =
        map untouched_Component (elems (Components cdx_licensed_doc))"
    using
      document_identity
        [where lib = example_lib and opts = "\<lparr>SBOM = cdx_licensed, Parallelism = 1\<rparr>"
          and doc = spdx_licensed_doc and e = mit_spdx and s = state0
          and out = spdx_licensed_out and bom = cdx_licensed_doc and e' = mit_cdx
          and out' = cdx_licensed_out]
      parse_cdx_licensed enrich_cdx_licensed ne2 example_lib_reads_back(2) f2
    by simp
  show ?thesis
    using spdx cdx parse_spdx_licensed enrich_spdx_licensed parse_cdx_licensed
      enrich_cdx_licensed
    by simp
qed

end
